theory Spec2Isabelle
  imports Main "HOL-Library.Multiset"
begin

section \<open>Qt containers and strings\<close>

text \<open>
  \<open>QString\<close> and \<open>QList\<close> are modelled as HOL lists (\<open>string\<close> is a list of
  characters). The few Qt members the sources use are written out with Qt's conventions:
  an index is a signed integer and \<open>-1\<close> means "not found".
\<close>

fun indexOfBy :: "('a \<Rightarrow> 'a \<Rightarrow> bool) \<Rightarrow> 'a list \<Rightarrow> 'a \<Rightarrow> int" where
  "indexOfBy eq [] x = -1"
| "indexOfBy eq (y # ys) x =
     (if eq y x then 0
      else (let r = indexOfBy eq ys x in if r = -1 then -1 else r + 1))"

definition indexOf :: "'a list \<Rightarrow> 'a \<Rightarrow> int" where
  \<comment> \<open>\<open>QList::indexOf\<close>, \<open>QString::indexOf\<close>: first position holding an equal element.\<close>
  "indexOf xs x = indexOfBy (=) xs x"

definition removeAt :: "'a list \<Rightarrow> nat \<Rightarrow> 'a list" where
  \<comment> \<open>\<open>QList::removeAt\<close>\<close>
  "removeAt xs i = take i xs @ drop (Suc i) xs"

definition left :: "string \<Rightarrow> int \<Rightarrow> string" where
  \<comment> \<open>\<open>QString::left(n)\<close>: the whole string when \<open>n\<close> is negative or not below the size.\<close>
  "left s n = (if n < 0 \<or> int (length s) \<le> n then s else take (nat n) s)"

definition mid :: "string \<Rightarrow> int \<Rightarrow> string" where
  \<comment> \<open>\<open>QString::mid(position)\<close>: everything from \<open>position\<close> on.\<close>
  "mid s pos = drop (nat pos) s"

definition endsWith :: "string \<Rightarrow> char \<Rightarrow> bool" where
  "endsWith s c = (s \<noteq> [] \<and> last s = c)"

definition chop :: "string \<Rightarrow> nat \<Rightarrow> string" where
  "chop s n = take (length s - n) s"

definition startsWith :: "string \<Rightarrow> string \<Rightarrow> bool" where
  "startsWith s p = (take (length p) s = p)"

fun join :: "string list \<Rightarrow> string \<Rightarrow> string" where
  \<comment> \<open>\<open>QStringList::join\<close>\<close>
  "join [] sep = []"
| "join [x] sep = x"
| "join (x # y # ys) sep = x @ sep @ join (y # ys) sep"

section \<open>Property accessors (command.cpp)\<close>

subsection \<open>Property names and messages\<close>

definition VM_MEMORY_SIZE_MB :: string where "VM_MEMORY_SIZE_MB = ''vm.memory-size''"
definition VM_SWAP_SIZE_MB :: string where "VM_SWAP_SIZE_MB = ''vm.swap-size''"
definition VM_CPU_COUNT :: string where "VM_CPU_COUNT = ''vm.cpu-count''"
definition VM_STORAGE_SIZE_MB :: string where "VM_STORAGE_SIZE_MB = ''vm.storage-size''"
definition VM_FREE_STORAGE_SIZE_MB :: string where
  "VM_FREE_STORAGE_SIZE_MB = ''vm.free-storage-size''"

definition EMULATOR_DEVICE_MODEL :: string where "EMULATOR_DEVICE_MODEL = ''device-model''"
definition EMULATOR_ORIENTATION :: string where "EMULATOR_ORIENTATION = ''orientation''"
definition EMULATOR_DOWNSCALE :: string where "EMULATOR_DOWNSCALE = ''downscale''"
definition EMULATOR_SSH_PORT :: string where "EMULATOR_SSH_PORT = ''ssh.port''"
definition EMULATOR_SSH_TIMEOUT :: string where "EMULATOR_SSH_TIMEOUT = ''ssh.timeout''"

definition ENGINE_HOST_NAME :: string where "ENGINE_HOST_NAME = ''host-name''"
definition ENGINE_BUILD_ENVIRONMENT_FILTER :: string where
  "ENGINE_BUILD_ENVIRONMENT_FILTER = ''environment.forward''"
definition ENGINE_SSH_PORT :: string where "ENGINE_SSH_PORT = ''ssh.port''"
definition ENGINE_SSH_TIMEOUT :: string where "ENGINE_SSH_TIMEOUT = ''ssh.timeout''"
definition ENGINE_DBUS_PORT :: string where "ENGINE_DBUS_PORT = ''dbus.port''"

definition WWW_PROXY_TYPE :: string where "WWW_PROXY_TYPE = ''proxy''"
definition WWW_PROXY_SERVERS :: string where "WWW_PROXY_SERVERS = ''proxy.servers''"
definition WWW_PROXY_EXCLUDES :: string where "WWW_PROXY_EXCLUDES = ''proxy.excludes''"

definition valueTooBigMessage :: string where "valueTooBigMessage = ''Value too big''"
definition valueCannotBeDecreasedMessage :: string where
  "valueCannotBeDecreasedMessage = ''Value cannot be decreased''"
definition valueCannotBeIncreasedMessage :: string where
  "valueCannotBeIncreasedMessage = ''Value cannot be increased''"
definition valueEmptyMessage :: string where "valueEmptyMessage = ''Unexpected empty string''"
definition unknownPropertyMessage :: string where
  "unknownPropertyMessage = ''Unrecognized property''"
definition readOnlyPropertyMessage :: string where
  "readOnlyPropertyMessage = ''Read-only property''"

subsection \<open>The host, the virtual machine and the calls made on them\<close>

text \<open>
  The accessors read the host and the resource through getters whose implementation is
  outside these sources (Qt, \<open>virtualmachine.cpp\<close>, \<open>emulator.cpp\<close>, \<open>sdk.cpp\<close>).
  They are the fields of the records \<open>host\<close> and \<open>world\<close>; a theorem that
  quantifies over the records holds for every behaviour of those getters.
  \<^item> \<open>toInt\<close> is \<open>QString::toInt\<close>: \<open>None\<close> when Qt reports \<open>ok = false\<close> (the
    returned number is then \<open>0\<close>);
  \<^item> \<open>SFDK_AUTO_STOP_VMS\<close> is \<open>qEnvironmentVariableIntValue\<close> of that variable;
  \<^item> \<open>stepOk\<close> is the \<open>bool\<close> an asynchronous step hands to its completion callback;
  \<^item> the three proxy type names are the constants of \<open>sfdkconstants.h\<close>.
  Every call that reaches a setter, the lock-down of the virtual machine or the task's
  \<open>started\<close>/\<open>exited\<close> is appended to \<open>calls\<close>, in the order the code makes them.
  The change signals a setter emits are not recorded: what a setter changed is read off the
  fields.
\<close>

datatype Feature =
  LimitMemorySize | SwapMemory | ShrinkStorageSize | GrowStorageSize | OptionalHeadless
  | Snapshots

datatype Orientation = Vertical | Horizontal

datatype call =
    SetMemorySizeMb int
  | SetSwapSizeMb int
  | SetCpuCount int
  | SetStorageSizeMb int
  | ReserveStorageSizeMb int int
  | LockDown bool
  | SetDisplayProperties string Orientation bool
  | EmulatorSetSshPort int
  | BuildEngineSetSshPort int
  | SetDBusPort int
  | SetSshParametersTimeout int
  | SetCustomBuildHostName string
  | SetBuildEnvironmentFilter "string list"
  | SetWwwProxy string string string
  | Started
  | Exited

record host =
  toInt :: "string \<Rightarrow> int option"
  availableMemorySizeMb :: int
  availableCpuCount :: int
  SFDK_AUTO_STOP_VMS :: int
  deviceModelIsValid :: "string \<Rightarrow> bool"
  hostNameIsValid :: "string \<Rightarrow> bool"
  urlIsValid :: "string \<Rightarrow> bool"
  stepOk :: "call \<Rightarrow> bool"
  WWW_PROXY_DISABLED :: string
  WWW_PROXY_AUTOMATIC :: string
  WWW_PROXY_MANUAL :: string

record VirtualMachine =
  features :: "Feature set"
  memorySizeMb :: int
  swapSizeMb :: int
  cpuCount :: int
  storageSizeMb :: int
  freeStorageSizeMb :: int
  sshPort :: int
  sshTimeout :: int

record sdkState =
  m_customBuildHostName :: string
  m_defaultBuildHostName :: string
  m_buildEnvironmentFilter :: "string list"
  calls :: "call list"

record world = sdkState +
  virtualMachine :: VirtualMachine
  isRunningReliably :: bool
  deviceModel :: string
  orientation :: Orientation
  isViewScaled :: bool
  dBusPort :: int
  wwwProxyType :: string
  wwwProxyServers :: string
  wwwProxyExcludes :: string

datatype PrepareResult = Ignored | Prepared | Failed

subsection \<open>PropertiesAccessor: the parsers\<close>

text \<open>
  A parser returns its \<open>bool\<close>, the value stored through \<open>out\<close> and the error string
  as it stands afterwards (the one passed in when nothing was written to it).
\<close>

definition parsePositiveInt ::
  "(string \<Rightarrow> int option) \<Rightarrow> string \<Rightarrow> string \<Rightarrow> bool \<times> int \<times> string" where
  "parsePositiveInt toI s err =
     (let out = (case toI s of None \<Rightarrow> 0 | Some n \<Rightarrow> n) in
      if toI s = None \<or> out \<le> 0
      then (False, out, ''Positive integer expected: \"'' @ s @ ''\"'')
      else (True, out, err))"

definition parseNonNegativeInt ::
  "(string \<Rightarrow> int option) \<Rightarrow> string \<Rightarrow> string \<Rightarrow> bool \<times> int \<times> string" where
  "parseNonNegativeInt toI s err =
     (let out = (case toI s of None \<Rightarrow> 0 | Some n \<Rightarrow> n) in
      if toI s = None \<or> out < 0
      then (False, out, ''Non-negative integer expected: \"'' @ s @ ''\"'')
      else (True, out, err))"

definition parsePortNumber ::
  "(string \<Rightarrow> int option) \<Rightarrow> string \<Rightarrow> int \<Rightarrow> string \<Rightarrow> bool \<times> int \<times> string" where
  \<comment> \<open>\<open>old\<close> is the port held by \<open>out\<close> before the call: it is written only on success.\<close>
  "parsePortNumber toI s old err =
     (case parsePositiveInt toI s err of (ok, asInt, err1) \<Rightarrow>
        if \<not> ok then (False, old, err1)
        else if asInt > 65535 then (False, old, valueTooBigMessage)
        else if asInt < 1024 then (False, old, ''Privileged ports may not be used'')
        else (True, asInt, err1))"

fun parseWithDictionary ::
  "('t \<times> string) list \<Rightarrow> string \<Rightarrow> 't \<Rightarrow> string \<Rightarrow> bool \<times> 't \<times> string" where
  "parseWithDictionary dictionary s old err =
     (case find (\<lambda>item. snd item = s) dictionary of
        None \<Rightarrow> (False, old,
          ''One of '' @ join (map snd dictionary) ''/''
            @ '' expected. Got: \"'' @ s @ ''\"'')
      | Some item \<Rightarrow> (True, fst item, err))"

fun showWithDictionary :: "('t \<times> string) list \<Rightarrow> 't \<Rightarrow> string" where
  "showWithDictionary dictionary v =
     (case find (\<lambda>item. fst item = v) dictionary of
        None \<Rightarrow> [] | Some item \<Rightarrow> snd item)"

definition booleanDictionary :: "(bool \<times> string) list" where
  "booleanDictionary = [(True, ''yes''), (False, ''no'')]"

definition orientationDictionary :: "(Orientation \<times> string) list" where
  "orientationDictionary = [(Vertical, ''portrait''), (Horizontal, ''landscape'')]"

definition parseBoolean :: "string \<Rightarrow> bool \<Rightarrow> string \<Rightarrow> bool \<times> bool \<times> string" where
  "parseBoolean = parseWithDictionary booleanDictionary"

definition parseOrientation ::
  "string \<Rightarrow> Orientation \<Rightarrow> string \<Rightarrow> bool \<times> Orientation \<times> string" where
  "parseOrientation = parseWithDictionary orientationDictionary"

subsection \<open>VirtualMachinePropertiesAccessor\<close>

record VirtualMachinePropertiesAccessor =
  m_memorySizeMb :: int
  m_swapSizeMb :: int
  m_cpuCount :: int
  m_storageSizeMb :: int
  m_freeSizeMb :: int
  m_incrementMb :: int

definition VirtualMachinePropertiesAccessor_new ::
  "VirtualMachine \<Rightarrow> VirtualMachinePropertiesAccessor" where
  "VirtualMachinePropertiesAccessor_new vm =
     \<lparr> m_memorySizeMb = memorySizeMb vm, m_swapSizeMb = swapSizeMb vm,
       m_cpuCount = cpuCount vm, m_storageSizeMb = storageSizeMb vm,
       m_freeSizeMb = 0, m_incrementMb = 0 \<rparr>"

text \<open>
  \<open>prepareSet\<close> returns the \<open>PrepareResult\<close>, the value left in \<open>*needsVmOff\<close>, the
  error string as it stands afterwards, and the accessor with its staged members.
\<close>

definition checkCurrentFreeSize ::
  "VirtualMachine \<Rightarrow> string \<Rightarrow> VirtualMachinePropertiesAccessor
     \<Rightarrow> PrepareResult \<times> bool \<times> string \<times> VirtualMachinePropertiesAccessor" where
  \<comment> \<open>The end of the \<open>vm.free-storage-size\<close> branch, from \<open>currentFreeSizeMb\<close> on.\<close>
  "checkCurrentFreeSize vm err a =
     (let currentFreeSizeMb = freeStorageSizeMb vm in
      if currentFreeSizeMb < 0
      then (Failed, True, ''Failed to determine current free storage size'', a)
      else if m_freeSizeMb a \<le> currentFreeSizeMb
      then (Prepared, False, err, a\<lparr>m_freeSizeMb := 0\<rparr>)
      else (Prepared, True, err, a))"

definition VirtualMachinePropertiesAccessor_prepareSet ::
  "host \<Rightarrow> VirtualMachine \<Rightarrow> string \<Rightarrow> string \<Rightarrow> string
     \<Rightarrow> VirtualMachinePropertiesAccessor
     \<Rightarrow> PrepareResult \<times> bool \<times> string \<times> VirtualMachinePropertiesAccessor" where
  "VirtualMachinePropertiesAccessor_prepareSet h vm name val err a =
    (if name = VM_MEMORY_SIZE_MB then
       (if LimitMemorySize \<notin> features vm then (Failed, True, readOnlyPropertyMessage, a)
        else (case parsePositiveInt (toInt h) val err of (ok, out, err1) \<Rightarrow>
          let a1 = a\<lparr>m_memorySizeMb := out\<rparr> in
          if \<not> ok then (Failed, True, err1, a1)
          else if m_memorySizeMb a1 > availableMemorySizeMb h
          then (Failed, True, valueTooBigMessage, a1)
          else (Prepared, True, err1, a1)))
     else if name = VM_SWAP_SIZE_MB \<and> SwapMemory \<in> features vm then
       (case parseNonNegativeInt (toInt h) val err of (ok, out, err1) \<Rightarrow>
          let a1 = a\<lparr>m_swapSizeMb := out\<rparr> in
          if \<not> ok then (Failed, True, err1, a1)
          else if m_swapSizeMb a1 > m_storageSizeMb a1
          then (Failed, True, valueTooBigMessage, a1)
          else (Prepared, True, err1, a1))
     else if name = VM_CPU_COUNT then
       (if LimitMemorySize \<notin> features vm then (Failed, True, readOnlyPropertyMessage, a)
        else (case parsePositiveInt (toInt h) val err of (ok, out, err1) \<Rightarrow>
          let a1 = a\<lparr>m_cpuCount := out\<rparr> in
          if \<not> ok then (Failed, True, err1, a1)
          else if m_cpuCount a1 > availableCpuCount h
          then (Failed, True, valueTooBigMessage, a1)
          else (Prepared, True, err1, a1)))
     else if name = VM_STORAGE_SIZE_MB then
       (case parsePositiveInt (toInt h) val err of (ok, out, err1) \<Rightarrow>
          let a1 = a\<lparr>m_storageSizeMb := out\<rparr> in
          if \<not> ok then (Failed, True, err1, a1)
          else if m_storageSizeMb a1 < storageSizeMb vm \<and> ShrinkStorageSize \<notin> features vm
          then (Failed, True, valueCannotBeDecreasedMessage, a1)
          else if m_storageSizeMb a1 > storageSizeMb vm \<and> GrowStorageSize \<notin> features vm
          then (Failed, True, valueCannotBeIncreasedMessage, a1)
          else (Prepared, True, err1, a1))
     else if name = VM_FREE_STORAGE_SIZE_MB then
       (let commaIndex = indexOf val (CHR '','');
            freeSize = left val commaIndex in
        if \<not> endsWith freeSize (CHR ''+'')
        then (Failed, True, valueCannotBeDecreasedMessage, a)
        else (case parsePositiveInt (toInt h) (chop freeSize 1) err of (ok, out, err1) \<Rightarrow>
          let a1 = a\<lparr>m_freeSizeMb := out\<rparr> in
          if \<not> ok then (Failed, True, err1, a1)
          else if commaIndex > 0 then
            (case parsePositiveInt (toInt h) (mid val (commaIndex + 1)) err1 of
               (ok2, out2, err2) \<Rightarrow>
                 let a2 = a1\<lparr>m_incrementMb := out2\<rparr> in
                 if \<not> ok2 then (Failed, True, err2, a2)
                 else if m_incrementMb a2 < m_freeSizeMb a2
                 then (Failed, True, ''<step> cannot be smaller than <size>'', a2)
                 else checkCurrentFreeSize vm err2 a2)
          else checkCurrentFreeSize vm err1 a1))
     else (Ignored, True, unknownPropertyMessage, a))"

text \<open>
  Modelled from the spec: \<open>QString::toInt\<close> is Qt code; the property grammar of the
  specification calls the numbers "decimal". \<open>decimalToInt\<close> reads an optional sign and
  decimal digits and rejects what does not fit a 32-bit \<open>int\<close>. It only instantiates the
  \<open>toInt\<close> field where a concrete host is evaluated.
\<close>

definition digitValue :: "char \<Rightarrow> int option" where
  "digitValue c =
     (let n = int (of_char c :: nat) in if 48 \<le> n \<and> n \<le> 57 then Some (n - 48) else None)"

fun digitsValue :: "int \<Rightarrow> string \<Rightarrow> int option" where
  "digitsValue acc [] = Some acc"
| "digitsValue acc (c # cs) =
     (case digitValue c of None \<Rightarrow> None | Some d \<Rightarrow> digitsValue (10 * acc + d) cs)"

definition decimalToInt :: "string \<Rightarrow> int option" where
  "decimalToInt s =
     (let (neg, ds) = (case s of [] \<Rightarrow> (False, [])
                       | c # cs \<Rightarrow> if c = CHR ''-'' then (True, cs)
                                  else if c = CHR ''+'' then (False, cs) else (False, s)) in
      if ds = [] then None
      else (case digitsValue 0 ds of None \<Rightarrow> None
            | Some n \<Rightarrow> let v = (if neg then - n else n) in
                if - 2147483648 \<le> v \<and> v \<le> 2147483647 then Some v else None))"

subsection \<open>Applying the staged values\<close>

text \<open>
  Modelled from the spec: the setters of \<open>VirtualMachine\<close> and \<open>Emulator\<close> and the
  port forwarding behind \<open>BuildEngine::setSshPort\<close> and \<open>BuildEngine::setDBusPort\<close> are
  collaborators outside these sources. As the two \<open>BuildEngine\<close> setters do in their
  completion callbacks, a step stores its value when it reports success and leaves the
  resource as it was otherwise. \<open>execAsynchronous\<close> runs one such step to completion.
\<close>

definition execAsynchronous ::
  "host \<Rightarrow> call \<Rightarrow> (world \<Rightarrow> world) \<Rightarrow> world \<Rightarrow> bool \<times> world" where
  "execAsynchronous h c store w =
     (let w1 = w\<lparr>calls := calls w @ [c]\<rparr> in
      if stepOk h c then (True, store w1) else (False, w1))"

definition updateVm :: "(VirtualMachine \<Rightarrow> VirtualMachine) \<Rightarrow> world \<Rightarrow> world" where
  "updateVm f w = w\<lparr>virtualMachine := f (virtualMachine w)\<rparr>"

definition VirtualMachinePropertiesAccessor_set ::
  "host \<Rightarrow> VirtualMachinePropertiesAccessor \<Rightarrow> world \<Rightarrow> bool \<times> world" where
  "VirtualMachinePropertiesAccessor_set h a w0 =
     (case (if m_memorySizeMb a \<noteq> memorySizeMb (virtualMachine w0)
            then (case execAsynchronous h (SetMemorySizeMb (m_memorySizeMb a))
                         (updateVm (\<lambda>v. v\<lparr>memorySizeMb := m_memorySizeMb a\<rparr>)) w0 of
                    (step, w) \<Rightarrow> (True \<and> step, w))
            else (True, w0)) of (ok1, w1) \<Rightarrow>
      case (if m_swapSizeMb a \<noteq> swapSizeMb (virtualMachine w1)
               \<and> SwapMemory \<in> features (virtualMachine w1)
            then (case execAsynchronous h (SetSwapSizeMb (m_swapSizeMb a))
                         (updateVm (\<lambda>v. v\<lparr>swapSizeMb := m_swapSizeMb a\<rparr>)) w1 of
                    (step, w) \<Rightarrow> (ok1 \<and> step, w))
            else (ok1, w1)) of (ok2, w2) \<Rightarrow>
      case (if m_cpuCount a \<noteq> cpuCount (virtualMachine w2)
            then (case execAsynchronous h (SetCpuCount (m_cpuCount a))
                         (updateVm (\<lambda>v. v\<lparr>cpuCount := m_cpuCount a\<rparr>)) w2 of
                    (step, w) \<Rightarrow> (ok2 \<and> step, w))
            else (ok2, w2)) of (ok3, w3) \<Rightarrow>
      case (if m_storageSizeMb a \<noteq> storageSizeMb (virtualMachine w3)
            then (case execAsynchronous h (SetStorageSizeMb (m_storageSizeMb a))
                         (updateVm (\<lambda>v. v\<lparr>storageSizeMb := m_storageSizeMb a\<rparr>)) w3 of
                    (step, w) \<Rightarrow> (ok3 \<and> step, w))
            else (ok3, w3)) of (ok4, w4) \<Rightarrow>
      if m_freeSizeMb a > 0
      then execAsynchronous h (ReserveStorageSizeMb (m_freeSizeMb a) (m_incrementMb a))
             (\<lambda>w. w) w4
      else (ok4, w4))"

subsection \<open>BuildEngineManager: host name and environment filter (buildengine.cpp)\<close>

text \<open>
  A null \<open>QString\<close> and an empty one compare equal in Qt; the custom host name is either
  null or not empty, so the empty list stands for the null string.
\<close>

definition effectiveBuildHostName :: "'a sdkState_scheme \<Rightarrow> string" where
  "effectiveBuildHostName w =
     (if m_customBuildHostName w = [] then m_defaultBuildHostName w
      else m_customBuildHostName w)"

definition BuildEngineManager_setCustomBuildHostName ::
  "string \<Rightarrow> 'a sdkState_scheme \<Rightarrow> 'a sdkState_scheme" where
  "BuildEngineManager_setCustomBuildHostName hostName w0 =
     (let w = w0\<lparr>calls := calls w0 @ [SetCustomBuildHostName hostName]\<rparr> in
      if m_customBuildHostName w = hostName then w
      else w\<lparr>m_customBuildHostName := hostName\<rparr>)"

definition BuildEngineManager_setBuildEnvironmentFilter ::
  "string list \<Rightarrow> 'a sdkState_scheme \<Rightarrow> 'a sdkState_scheme" where
  "BuildEngineManager_setBuildEnvironmentFilter filter0 w0 =
     (let w = w0\<lparr>calls := calls w0 @ [SetBuildEnvironmentFilter filter0]\<rparr> in
      if m_buildEnvironmentFilter w = filter0 then w
      else w\<lparr>m_buildEnvironmentFilter := filter0\<rparr>)"

definition BuildEngine_setWwwProxy :: "string \<Rightarrow> string \<Rightarrow> string \<Rightarrow> world \<Rightarrow> world" where
  "BuildEngine_setWwwProxy type servers excludes w0 =
     (let w = w0\<lparr>calls := calls w0 @ [SetWwwProxy type servers excludes]\<rparr> in
      if type = [] then w
      else if type = wwwProxyType w \<and> servers = wwwProxyServers w
                \<and> excludes = wwwProxyExcludes w then w
      else w\<lparr>wwwProxyType := type, wwwProxyServers := servers,
             wwwProxyExcludes := excludes\<rparr>)"

subsection \<open>EmulatorPropertiesAccessor\<close>

record EmulatorPropertiesAccessor =
  emu_vmAccessor :: VirtualMachinePropertiesAccessor
  emu_deviceModel :: string
  emu_orientation :: Orientation
  emu_downscale :: bool
  emu_sshPort :: int
  emu_sshTimeout :: int

definition EmulatorPropertiesAccessor_new :: "world \<Rightarrow> EmulatorPropertiesAccessor" where
  "EmulatorPropertiesAccessor_new w =
     \<lparr> emu_vmAccessor = VirtualMachinePropertiesAccessor_new (virtualMachine w),
       emu_deviceModel = deviceModel w, emu_orientation = orientation w,
       emu_downscale = isViewScaled w, emu_sshPort = sshPort (virtualMachine w),
       emu_sshTimeout = sshTimeout (virtualMachine w) \<rparr>"

definition EmulatorPropertiesAccessor_prepareSetOther ::
  "host \<Rightarrow> string \<Rightarrow> string \<Rightarrow> string \<Rightarrow> EmulatorPropertiesAccessor
     \<Rightarrow> PrepareResult \<times> bool \<times> string \<times> EmulatorPropertiesAccessor" where
  "EmulatorPropertiesAccessor_prepareSetOther h name val err a =
    (if name = EMULATOR_DEVICE_MODEL then
       (if val = [] then (Failed, True, valueEmptyMessage, a)
        else if \<not> deviceModelIsValid h val
        then (Failed, True, ''No such device model: \"'' @ val @ ''\"'', a)
        else (Prepared, True, err, a\<lparr>emu_deviceModel := val\<rparr>))
     else if name = EMULATOR_ORIENTATION then
       (case parseOrientation val (emu_orientation a) err of (ok, out, err1) \<Rightarrow>
          if \<not> ok then (Failed, True, err1, a\<lparr>emu_orientation := out\<rparr>)
          else (Prepared, True, err1, a\<lparr>emu_orientation := out\<rparr>))
     else if name = EMULATOR_DOWNSCALE then
       (case parseBoolean val (emu_downscale a) err of (ok, out, err1) \<Rightarrow>
          if \<not> ok then (Failed, True, err1, a\<lparr>emu_downscale := out\<rparr>)
          else (Prepared, True, err1, a\<lparr>emu_downscale := out\<rparr>))
     else if name = EMULATOR_SSH_PORT then
       (case parsePortNumber (toInt h) val (emu_sshPort a) err of (ok, out, err1) \<Rightarrow>
          if \<not> ok then (Failed, True, err1, a\<lparr>emu_sshPort := out\<rparr>)
          else (Prepared, True, err1, a\<lparr>emu_sshPort := out\<rparr>))
     else if name = EMULATOR_SSH_TIMEOUT then
       (case parsePositiveInt (toInt h) val err of (ok, out, err1) \<Rightarrow>
          if \<not> ok then (Failed, True, err1, a\<lparr>emu_sshTimeout := out\<rparr>)
          else (Prepared, True, err1, a\<lparr>emu_sshTimeout := out\<rparr>))
     else (Ignored, True, unknownPropertyMessage, a))"

definition EmulatorPropertiesAccessor_prepareSet ::
  "host \<Rightarrow> world \<Rightarrow> string \<Rightarrow> string \<Rightarrow> string \<Rightarrow> EmulatorPropertiesAccessor
     \<Rightarrow> PrepareResult \<times> bool \<times> string \<times> EmulatorPropertiesAccessor" where
  "EmulatorPropertiesAccessor_prepareSet h w name val err a =
     (case VirtualMachinePropertiesAccessor_prepareSet h (virtualMachine w) name val err
             (emu_vmAccessor a) of (result, needsVmOff, err1, va) \<Rightarrow>
        let a1 = a\<lparr>emu_vmAccessor := va\<rparr> in
        if result \<noteq> Ignored then (result, needsVmOff, err1, a1)
        else (case EmulatorPropertiesAccessor_prepareSetOther h name val err1 a1 of
                (result2, needsVmOff2, err2, a2) \<Rightarrow>
                  if result2 \<noteq> Ignored then (result2, needsVmOff2, err2, a2)
                  else (Ignored, needsVmOff2, err2, a2)))"

definition EmulatorPropertiesAccessor_setOthers ::
  "host \<Rightarrow> EmulatorPropertiesAccessor \<Rightarrow> world \<Rightarrow> bool \<times> world" where
  "EmulatorPropertiesAccessor_setOthers h a w0 =
     (case (if emu_deviceModel a \<noteq> deviceModel w0 \<or> emu_orientation a \<noteq> orientation w0
               \<or> emu_downscale a \<noteq> isViewScaled w0
            then (case execAsynchronous h
                         (SetDisplayProperties (emu_deviceModel a) (emu_orientation a)
                            (emu_downscale a))
                         (\<lambda>w. w\<lparr>deviceModel := emu_deviceModel a,
                                orientation := emu_orientation a,
                                isViewScaled := emu_downscale a\<rparr>) w0 of
                    (step, w) \<Rightarrow> (True \<and> step, w))
            else (True, w0)) of (ok1, w1) \<Rightarrow>
      case (if emu_sshPort a \<noteq> sshPort (virtualMachine w1)
            then (case execAsynchronous h (EmulatorSetSshPort (emu_sshPort a))
                         (updateVm (\<lambda>v. v\<lparr>sshPort := emu_sshPort a\<rparr>)) w1 of
                    (step, w) \<Rightarrow> (ok1 \<and> step, w))
            else (ok1, w1)) of (ok2, w2) \<Rightarrow>
      (ok2,
       if emu_sshTimeout a \<noteq> sshTimeout (virtualMachine w2)
       then updateVm (\<lambda>v. v\<lparr>sshTimeout := emu_sshTimeout a\<rparr>)
              (w2\<lparr>calls := calls w2 @ [SetSshParametersTimeout (emu_sshTimeout a)]\<rparr>)
       else w2))"

definition EmulatorPropertiesAccessor_set ::
  "host \<Rightarrow> EmulatorPropertiesAccessor \<Rightarrow> world \<Rightarrow> bool \<times> world" where
  \<comment> \<open>\<open>m_vmAccessor->set() && setOthers()\<close>: \<open>setOthers\<close> runs only after a success.\<close>
  "EmulatorPropertiesAccessor_set h a w =
     (case VirtualMachinePropertiesAccessor_set h (emu_vmAccessor a) w of (ok, w1) \<Rightarrow>
        if ok then EmulatorPropertiesAccessor_setOthers h a w1 else (False, w1))"

subsection \<open>BuildEnginePropertiesAccessor\<close>

definition isSpace :: "char \<Rightarrow> bool" where
  "isSpace c = (c \<in> set [CHR '' '', CHR 0x09, CHR 0x0A, CHR 0x0B, CHR 0x0C, CHR 0x0D])"

fun splitSkipEmpty :: "(char \<Rightarrow> bool) \<Rightarrow> string \<Rightarrow> string \<Rightarrow> string list" where
  \<comment> \<open>\<open>QString::split(separator, Qt::SkipEmptyParts)\<close>; the second argument is the part
      read so far.\<close>
  "splitSkipEmpty sep cur [] = (if cur = [] then [] else [cur])"
| "splitSkipEmpty sep cur (c # cs) =
     (if sep c then (if cur = [] then splitSkipEmpty sep [] cs
                     else cur # splitSkipEmpty sep [] cs)
      else splitSkipEmpty sep (cur @ [c]) cs)"

record BuildEnginePropertiesAccessor =
  eng_vmAccessor :: VirtualMachinePropertiesAccessor
  eng_hostName :: string
  eng_hostNameChanged :: bool
  eng_buildEnvironmentFilter :: "string list"
  eng_sshPort :: int
  eng_sshTimeout :: int
  eng_dBusPort :: int

definition BuildEnginePropertiesAccessor_new :: "world \<Rightarrow> BuildEnginePropertiesAccessor" where
  "BuildEnginePropertiesAccessor_new w =
     \<lparr> eng_vmAccessor = VirtualMachinePropertiesAccessor_new (virtualMachine w),
       eng_hostName = effectiveBuildHostName w, eng_hostNameChanged = False,
       eng_buildEnvironmentFilter = m_buildEnvironmentFilter w,
       eng_sshPort = sshPort (virtualMachine w),
       eng_sshTimeout = sshTimeout (virtualMachine w), eng_dBusPort = dBusPort w \<rparr>"

definition BuildEnginePropertiesAccessor_prepareSetOther ::
  "host \<Rightarrow> string \<Rightarrow> string \<Rightarrow> string \<Rightarrow> BuildEnginePropertiesAccessor
     \<Rightarrow> PrepareResult \<times> bool \<times> string \<times> BuildEnginePropertiesAccessor" where
  "BuildEnginePropertiesAccessor_prepareSetOther h name val err a =
    (if name = ENGINE_HOST_NAME then
       (if val \<noteq> [] \<and> \<not> hostNameIsValid h val
        then (Failed, False, ''Not a well formed host name: \"'' @ val @ ''\"'', a)
        else (Prepared, False, err, a\<lparr>eng_hostName := val, eng_hostNameChanged := True\<rparr>))
     else if name = ENGINE_BUILD_ENVIRONMENT_FILTER then
       (Prepared, False, err,
        a\<lparr>eng_buildEnvironmentFilter := splitSkipEmpty isSpace [] val\<rparr>)
     else if name = ENGINE_DBUS_PORT then
       (case parsePortNumber (toInt h) val (eng_dBusPort a) err of (ok, out, err1) \<Rightarrow>
          if \<not> ok then (Failed, False, err1, a\<lparr>eng_dBusPort := out\<rparr>)
          else (Prepared, True, err1, a\<lparr>eng_dBusPort := out\<rparr>))
     else if name = ENGINE_SSH_PORT then
       (case parsePortNumber (toInt h) val (eng_sshPort a) err of (ok, out, err1) \<Rightarrow>
          if \<not> ok then (Failed, False, err1, a\<lparr>eng_sshPort := out\<rparr>)
          else (Prepared, True, err1, a\<lparr>eng_sshPort := out\<rparr>))
     else if name = ENGINE_SSH_TIMEOUT then
       (case parsePositiveInt (toInt h) val err of (ok, out, err1) \<Rightarrow>
          if \<not> ok then (Failed, False, err1, a\<lparr>eng_sshTimeout := out\<rparr>)
          else (Prepared, False, err1, a\<lparr>eng_sshTimeout := out\<rparr>))
     else (Ignored, False, unknownPropertyMessage, a))"

definition BuildEnginePropertiesAccessor_prepareSet ::
  "host \<Rightarrow> world \<Rightarrow> string \<Rightarrow> string \<Rightarrow> string \<Rightarrow> BuildEnginePropertiesAccessor
     \<Rightarrow> PrepareResult \<times> bool \<times> string \<times> BuildEnginePropertiesAccessor" where
  "BuildEnginePropertiesAccessor_prepareSet h w name val err a =
     (case VirtualMachinePropertiesAccessor_prepareSet h (virtualMachine w) name val err
             (eng_vmAccessor a) of (result, needsVmOff, err1, va) \<Rightarrow>
        let a1 = a\<lparr>eng_vmAccessor := va\<rparr> in
        if result \<noteq> Ignored then (result, needsVmOff, err1, a1)
        else (case BuildEnginePropertiesAccessor_prepareSetOther h name val err1 a1 of
                (result2, needsVmOff2, err2, a2) \<Rightarrow>
                  if result2 \<noteq> Ignored then (result2, needsVmOff2, err2, a2)
                  else (Ignored, needsVmOff2, err2, a2)))"

definition BuildEnginePropertiesAccessor_setOthers ::
  "host \<Rightarrow> BuildEnginePropertiesAccessor \<Rightarrow> world \<Rightarrow> bool \<times> world" where
  "BuildEnginePropertiesAccessor_setOthers h a w0 =
     (let wa = (if eng_hostNameChanged a
                then BuildEngineManager_setCustomBuildHostName (eng_hostName a) w0 else w0);
          wb = BuildEngineManager_setBuildEnvironmentFilter (eng_buildEnvironmentFilter a) wa
      in
      case (if eng_sshPort a \<noteq> sshPort (virtualMachine wb)
            then (case execAsynchronous h (BuildEngineSetSshPort (eng_sshPort a))
                         (updateVm (\<lambda>v. v\<lparr>sshPort := eng_sshPort a\<rparr>)) wb of
                    (step, w) \<Rightarrow> (True \<and> step, w))
            else (True, wb)) of (ok1, w1) \<Rightarrow>
      let w2 = (if eng_sshTimeout a \<noteq> sshTimeout (virtualMachine w1)
                then updateVm (\<lambda>v. v\<lparr>sshTimeout := eng_sshTimeout a\<rparr>)
                       (w1\<lparr>calls := calls w1 @ [SetSshParametersTimeout (eng_sshTimeout a)]\<rparr>)
                else w1)
      in
      if eng_dBusPort a \<noteq> dBusPort w2
      then (case execAsynchronous h (SetDBusPort (eng_dBusPort a))
                   (\<lambda>w. w\<lparr>dBusPort := eng_dBusPort a\<rparr>) w2 of
              (step, w) \<Rightarrow> (ok1 \<and> step, w))
      else (ok1, w2))"

definition BuildEnginePropertiesAccessor_set ::
  "host \<Rightarrow> BuildEnginePropertiesAccessor \<Rightarrow> world \<Rightarrow> bool \<times> world" where
  "BuildEnginePropertiesAccessor_set h a w =
     (case VirtualMachinePropertiesAccessor_set h (eng_vmAccessor a) w of (ok, w1) \<Rightarrow>
        if ok then BuildEnginePropertiesAccessor_setOthers h a w1 else (False, w1))"

subsection \<open>SdkPropertiesAccessor\<close>

record SdkPropertiesAccessor =
  sdk_wwwProxyType :: string
  sdk_wwwProxyServers :: string
  sdk_wwwProxyExcludes :: string

definition SdkPropertiesAccessor_new :: "world \<Rightarrow> SdkPropertiesAccessor" where
  "SdkPropertiesAccessor_new w =
     \<lparr> sdk_wwwProxyType = wwwProxyType w, sdk_wwwProxyServers = wwwProxyServers w,
       sdk_wwwProxyExcludes = wwwProxyExcludes w \<rparr>"

fun validateUrls :: "host \<Rightarrow> string list \<Rightarrow> string \<Rightarrow> bool \<times> string" where
  "validateUrls h [] err = (True, err)"
| "validateUrls h (url # urls) err =
     (if \<not> urlIsValid h url then (False, ''Not a valid URL: \"'' @ url @ ''\"'')
      else validateUrls h urls err)"

definition trimmed :: "string \<Rightarrow> string" where
  "trimmed s = rev (dropWhile isSpace (rev (dropWhile isSpace s)))"

definition SdkPropertiesAccessor_prepareSet ::
  "host \<Rightarrow> string \<Rightarrow> string \<Rightarrow> string \<Rightarrow> SdkPropertiesAccessor
     \<Rightarrow> PrepareResult \<times> bool \<times> string \<times> SdkPropertiesAccessor" where
  "SdkPropertiesAccessor_prepareSet h name val err a =
    (if name = WWW_PROXY_TYPE then
       (if val \<noteq> WWW_PROXY_DISABLED h \<and> val \<noteq> WWW_PROXY_AUTOMATIC h
             \<and> val \<noteq> WWW_PROXY_MANUAL h
        then (Failed, False, ''Invalid proxy type: \"'' @ val @ ''\"'', a)
        else (Prepared, False, err, a\<lparr>sdk_wwwProxyType := val\<rparr>))
     else if name = WWW_PROXY_SERVERS then
       (case validateUrls h (splitSkipEmpty (\<lambda>c. c = CHR '' '') [] val) err of
          (ok, err1) \<Rightarrow>
            if \<not> ok then (Failed, False, err1, a)
            else (Prepared, False, err1, a\<lparr>sdk_wwwProxyServers := trimmed val\<rparr>))
     else if name = WWW_PROXY_EXCLUDES then
       (case validateUrls h (splitSkipEmpty (\<lambda>c. c = CHR '' '') [] val) err of
          (ok, err1) \<Rightarrow>
            if \<not> ok then (Failed, False, err1, a)
            else (Prepared, False, err1, a\<lparr>sdk_wwwProxyExcludes := trimmed val\<rparr>))
     else (Ignored, False, unknownPropertyMessage, a))"

definition SdkPropertiesAccessor_canSet ::
  "host \<Rightarrow> SdkPropertiesAccessor \<Rightarrow> string \<Rightarrow> bool \<times> string" where
  "SdkPropertiesAccessor_canSet h a err =
     (if (sdk_wwwProxyType a = WWW_PROXY_MANUAL h \<or> sdk_wwwProxyType a = WWW_PROXY_AUTOMATIC h)
           \<and> sdk_wwwProxyServers a = []
      then (False, ''The value of \"'' @ WWW_PROXY_SERVERS @ ''\" must not be empty when \"''
                     @ WWW_PROXY_TYPE @ ''\" is set to \"'' @ sdk_wwwProxyType a @ ''\"'')
      else (True, err))"

definition SdkPropertiesAccessor_set ::
  "host \<Rightarrow> SdkPropertiesAccessor \<Rightarrow> world \<Rightarrow> bool \<times> world" where
  "SdkPropertiesAccessor_set h a w =
     (if sdk_wwwProxyType a \<noteq> wwwProxyType w \<or> sdk_wwwProxyServers a \<noteq> wwwProxyServers w
           \<or> sdk_wwwProxyExcludes a \<noteq> wwwProxyExcludes w
      then (True, BuildEngine_setWwwProxy (sdk_wwwProxyType a) (sdk_wwwProxyServers a)
                    (sdk_wwwProxyExcludes a) w)
      else (True, w))"

subsection \<open>The accessor behind a task\<close>

text \<open>
  \<open>PropertiesAccessor\<close> is an abstract class with three implementations; a task owns one
  of them. \<open>canSet\<close> is overridden by \<open>SdkPropertiesAccessor\<close> only.
\<close>

datatype PropertiesAccessor =
    EmulatorAccessor EmulatorPropertiesAccessor
  | BuildEngineAccessor BuildEnginePropertiesAccessor
  | SdkAccessor SdkPropertiesAccessor

fun PropertiesAccessor_prepareSet ::
  "host \<Rightarrow> world \<Rightarrow> string \<Rightarrow> string \<Rightarrow> string \<Rightarrow> PropertiesAccessor
     \<Rightarrow> PrepareResult \<times> bool \<times> string \<times> PropertiesAccessor" where
  "PropertiesAccessor_prepareSet h w name val err (EmulatorAccessor a) =
     (case EmulatorPropertiesAccessor_prepareSet h w name val err a of
        (r, off, e, a') \<Rightarrow> (r, off, e, EmulatorAccessor a'))"
| "PropertiesAccessor_prepareSet h w name val err (BuildEngineAccessor a) =
     (case BuildEnginePropertiesAccessor_prepareSet h w name val err a of
        (r, off, e, a') \<Rightarrow> (r, off, e, BuildEngineAccessor a'))"
| "PropertiesAccessor_prepareSet h w name val err (SdkAccessor a) =
     (case SdkPropertiesAccessor_prepareSet h name val err a of
        (r, off, e, a') \<Rightarrow> (r, off, e, SdkAccessor a'))"

fun PropertiesAccessor_canSet :: "host \<Rightarrow> PropertiesAccessor \<Rightarrow> string \<Rightarrow> bool \<times> string" where
  "PropertiesAccessor_canSet h (SdkAccessor a) err = SdkPropertiesAccessor_canSet h a err"
| "PropertiesAccessor_canSet h a err = (True, err)"

fun PropertiesAccessor_set :: "host \<Rightarrow> PropertiesAccessor \<Rightarrow> world \<Rightarrow> bool \<times> world" where
  "PropertiesAccessor_set h (EmulatorAccessor a) w = EmulatorPropertiesAccessor_set h a w"
| "PropertiesAccessor_set h (BuildEngineAccessor a) w = BuildEnginePropertiesAccessor_set h a w"
| "PropertiesAccessor_set h (SdkAccessor a) w = SdkPropertiesAccessor_set h a w"

subsection \<open>SetPropertiesTask\<close>

record SetPropertiesTask =
  m_accessor :: PropertiesAccessor
  m_stopVmMessage :: string
  m_needsVmOff :: bool

definition SetPropertiesTask_new :: "PropertiesAccessor \<Rightarrow> string \<Rightarrow> SetPropertiesTask" where
  "SetPropertiesTask_new accessor stopVmMessage =
     \<lparr> m_accessor = accessor, m_stopVmMessage = stopVmMessage, m_needsVmOff = False \<rparr>"

definition SetPropertiesTask_prepareSet ::
  "host \<Rightarrow> world \<Rightarrow> string \<Rightarrow> string \<Rightarrow> string \<Rightarrow> SetPropertiesTask
     \<Rightarrow> bool \<times> string \<times> SetPropertiesTask" where
  "SetPropertiesTask_prepareSet h w name val err t =
     (case PropertiesAccessor_prepareSet h w name val err (m_accessor t) of
        (result, needsVmOff, err1, acc) \<Rightarrow>
          if result \<noteq> Prepared then (False, err1, t\<lparr>m_accessor := acc\<rparr>)
          else (True, err1, t\<lparr>m_accessor := acc, m_needsVmOff := (m_needsVmOff t \<or> needsVmOff)\<rparr>))"

definition SetPropertiesTask_set ::
  "host \<Rightarrow> SetPropertiesTask \<Rightarrow> string \<Rightarrow> world \<Rightarrow> bool \<times> string \<times> world" where
  "SetPropertiesTask_set h t err w0 =
     (case PropertiesAccessor_canSet h (m_accessor t) err of (canSet, err0) \<Rightarrow>
      if \<not> canSet then (False, err0, w0)
      else
        let w1 = w0\<lparr>calls := calls w0 @ [Started]\<rparr> in
        case (if m_needsVmOff t
              then (if SFDK_AUTO_STOP_VMS h = 0 \<and> isRunningReliably w1
                    then (False, m_stopVmMessage t, w1)
                    else (case execAsynchronous h (LockDown True) (\<lambda>w. w) w1 of
                            (lockDownOk, w) \<Rightarrow> (lockDownOk, err0, w)))
              else (False, err0, w1)) of (lockDownOk, err1, w2) \<Rightarrow>
        case (if \<not> m_needsVmOff t \<or> lockDownOk
              then (case PropertiesAccessor_set h (m_accessor t) w2 of
                      (ok, w) \<Rightarrow>
                        (ok, if \<not> ok then ''Failed to set some of the properties'' else err1, w))
              else (False, err1, w2)) of (ok, err2, w3) \<Rightarrow>
        let w4 = (if lockDownOk then w3\<lparr>calls := calls w3 @ [LockDown False]\<rparr> else w3) in
        (ok, err2, w4\<lparr>calls := calls w4 @ [Exited]\<rparr>))"

subsection \<open>BuiltinWorker::setProperties\<close>

datatype ExitStatus = NormalExit | BadUsage | CrashExit | NoSuchCommand

datatype printed = Qerr string | QCInfo string

definition EXIT_SUCCESS :: int where "EXIT_SUCCESS = 0"
definition EXIT_FAILURE :: int where "EXIT_FAILURE = 1"

definition toLowerChar :: "char \<Rightarrow> char" where
  \<comment> \<open>Property names are ASCII; other characters are left as they are.\<close>
  "toLowerChar c =
     (let n = (of_char c :: nat) in if 65 \<le> n \<and> n \<le> 90 then char_of (n + 32) else c)"

definition isUpperAZ :: "char \<Rightarrow> bool" where
  "isUpperAZ c = (let n = (of_char c :: nat) in 65 \<le> n \<and> n \<le> 90)"

definition normalizedProperty :: "string \<Rightarrow> string" where
  \<comment> \<open>\<open>QString(property).replace(QRegularExpression("([A-Z])"), "-\\1").toLower()\<close>\<close>
  "normalizedProperty property =
     map toLowerChar (concat (map (\<lambda>c. if isUpperAZ c then [CHR ''-'', c] else [c]) property))"

text \<open>
  The loop over the assignments either leaves the function (\<open>Inl\<close>: the exit status, the
  exit code when one was written, and what was printed) or ends with the task holding
  every staged value (\<open>Inr\<close>).
\<close>

fun prepareAssignments ::
  "host \<Rightarrow> world \<Rightarrow> SetPropertiesTask \<Rightarrow> printed list \<Rightarrow> string list
     \<Rightarrow> (ExitStatus \<times> int option \<times> printed list) + (SetPropertiesTask \<times> printed list)" where
  "prepareAssignments h w t out [] = Inr (t, out)"
| "prepareAssignments h w t out (assignment # assignments) =
     (let splitAt = indexOf assignment (CHR ''='') in
      if splitAt \<le> 0
      then Inl (BadUsage, None, out @ [Qerr (''Assignment expected: \"'' @ assignment @ ''\"'')])
      else
        let property = left assignment splitAt;
            val = mid assignment (splitAt + 1) in
        case SetPropertiesTask_prepareSet h w (normalizedProperty property) val [] t of
          (ok, errorString, t1) \<Rightarrow>
            if \<not> ok
            then Inl (NormalExit, Some EXIT_FAILURE,
                      out @ [Qerr (property @ '': '' @ errorString)])
            else prepareAssignments h w t1
                   (if normalizedProperty property \<noteq> property
                    then out @ [QCInfo (''The \"'' @ property
                           @ ''\" property is deprecated. Use \"''
                           @ normalizedProperty property @ ''\" instead.'')]
                    else out)
                   assignments)"

definition setProperties ::
  "host \<Rightarrow> SetPropertiesTask \<Rightarrow> string list \<Rightarrow> world
     \<Rightarrow> ExitStatus \<times> int option \<times> printed list \<times> world" where
  \<comment> \<open>The exit code is \<open>None\<close> where \<open>*exitCode\<close> is not written.\<close>
  "setProperties h t assignments w =
     (case prepareAssignments h w t [] assignments of
        Inl (status, exitCode, out) \<Rightarrow> (status, exitCode, out, w)
      | Inr (t1, out) \<Rightarrow>
          (case SetPropertiesTask_set h t1 [] w of
             (ok, errorString, w1) \<Rightarrow>
               if \<not> ok then (NormalExit, Some EXIT_FAILURE, out @ [Qerr errorString], w1)
               else (NormalExit, Some EXIT_SUCCESS, out, w1)))"

section \<open>Build targets of a build engine (buildengine.cpp)\<close>

subsection \<open>BuildTargetDump and BuildTargetData\<close>

text \<open>
  Both classes have members \<open>name\<close>, \<open>origin\<close> and \<open>rpmValidationSuites\<close>; the
  fields of the dump carry the prefix \<open>dump_\<close> and those of the derived data the prefix
  \<open>data_\<close>. \<open>BuildTargetDump::operator==\<close> compares every member, so it is the equality
  of the record. \<open>BuildTargetData::operator==\<close> leaves \<open>flags\<close> and \<open>machine\<close> out.
\<close>

record BuildTargetDump =
  dump_name :: string
  dump_origin :: string
  gccDumpMachine :: string
  gccDumpMacros :: string
  gccDumpIncludes :: string
  gccDumpInstallDir :: string
  qmakeQuery :: string
  cmakeCapabilities :: string
  cmakeVersion :: string
  dump_rpmValidationSuites :: string

record RpmValidationSuiteData =
  suite_id :: string
  suite_name :: string
  website :: string
  essential :: bool

datatype BuildTargetFlag = Snapshot | DefaultSnapshot | PooledSnapshot

record BuildTargetData =
  data_name :: string
  data_origin :: string
  flags :: "BuildTargetFlag set"
  machine :: string
  sysRoot :: string
  toolsPath :: string
  gdb :: string
  data_rpmValidationSuites :: "RpmValidationSuiteData list"

definition BuildTargetData_eq :: "BuildTargetData \<Rightarrow> BuildTargetData \<Rightarrow> bool" where
  "BuildTargetData_eq x other =
     (data_name x = data_name other \<and> data_origin x = data_origin other
      \<and> sysRoot x = sysRoot other \<and> toolsPath x = toolsPath other \<and> gdb x = gdb other
      \<and> data_rpmValidationSuites x = data_rpmValidationSuites other)"

definition DEFAULT_SNAPSHOT_SUFFIX :: string where "DEFAULT_SNAPSHOT_SUFFIX = ''default''"
definition POOLED_SNAPSHOT_INFIX :: string where "POOLED_SNAPSHOT_INFIX = ''.pool.''"

fun contains :: "string \<Rightarrow> string \<Rightarrow> bool" where
  \<comment> \<open>\<open>QString::contains\<close>\<close>
  "contains [] sub = (sub = [])"
| "contains (c # cs) sub = (startsWith (c # cs) sub \<or> contains cs sub)"

definition snapshotSuffix :: "BuildTargetData \<Rightarrow> string" where
  "snapshotSuffix d =
     (if Snapshot \<notin> flags d then [] else mid (data_name d) (int (length (data_origin d)) + 1))"

subsection \<open>The listing of RPM validation suites\<close>

text \<open>
  \<open>QTextStream::readLineInto\<close> hands out the text between line feeds, without the line
  feed and without a carriage return before it; an empty rest after the last line feed is
  not a line.
\<close>

fun readLines :: "string \<Rightarrow> string \<Rightarrow> string list" where
  "readLines cur [] = (if cur = [] then [] else [cur])"
| "readLines cur (c # cs) =
     (if c = CHR 0x0A
      then (if cur \<noteq> [] \<and> last cur = CHR 0x0D then butlast cur else cur) # readLines [] cs
      else readLines (cur @ [c]) cs)"

fun suitesFromLines :: "string list \<Rightarrow> RpmValidationSuiteData list" where
  "suitesFromLines [] = []"
| "suitesFromLines (line # rest) =
     (case splitSkipEmpty (\<lambda>c. c = CHR '' '') [] line of
        i # e # w # nm \<Rightarrow>
          \<lparr> suite_id = i, suite_name = join nm '' '',
            website = (if w = ''-'' then [] else w),
            essential = (map toLowerChar e = ''essential'') \<rparr> # suitesFromLines rest
      | _ \<Rightarrow> [])"

definition rpmValidationSuitesFromString :: "string \<Rightarrow> RpmValidationSuiteData list" where
  "rpmValidationSuitesFromString s = suitesFromLines (readLines [] s)"

subsection \<open>BuildEnginePrivate: the cached targets\<close>

text \<open>
  \<open>targetPaths\<close> holds what \<open>sysRootForTarget\<close> and \<open>toolsPathForTarget\<close> read:
  \<open>Utils::FilePath::pathAppended\<close>, the shared targets path, the common prefix of the
  tools paths, the name of the virtual machine and the debugger's file name, all from
  outside these sources. \<open>useSystemSettingsOnly\<close> is the mode of \<open>SdkPrivate\<close>.
\<close>

record targetPaths =
  pathAppended :: "string \<Rightarrow> string \<Rightarrow> string"
  sharedTargetsPath :: string
  toolsPathCommonPrefix :: string
  virtualMachineName :: string
  DEFAULT_DEBUGGER_FILENAME :: string
  useSystemSettingsOnly :: bool

definition sysRootForTarget :: "targetPaths \<Rightarrow> string \<Rightarrow> string" where
  "sysRootForTarget p targetName = pathAppended p (sharedTargetsPath p) targetName"

definition toolsPathForTarget :: "targetPaths \<Rightarrow> string \<Rightarrow> string" where
  "toolsPathForTarget p targetName =
     pathAppended p
       (pathAppended p (toolsPathCommonPrefix p)
          (map (\<lambda>c. if c = CHR '':'' then CHR ''_'' else c) (virtualMachineName p)))
       targetName"

definition createTargetData :: "targetPaths \<Rightarrow> BuildTargetDump \<Rightarrow> BuildTargetData" where
  "createTargetData p targetDump =
     (let d0 = \<lparr> data_name = dump_name targetDump, data_origin = dump_origin targetDump,
                  flags = {}, machine = [], sysRoot = [], toolsPath = [], gdb = [],
                  data_rpmValidationSuites = [] \<rparr>;
          d1 = (if data_origin d0 \<noteq> []
                then (let s = d0\<lparr>flags := insert Snapshot (flags d0)\<rparr>;
                          s1 = (if snapshotSuffix s = DEFAULT_SNAPSHOT_SUFFIX
                                then s\<lparr>flags := insert DefaultSnapshot (flags s)\<rparr> else s)
                      in if contains (snapshotSuffix s1) POOLED_SNAPSHOT_INFIX
                         then s1\<lparr>flags := insert PooledSnapshot (flags s1)\<rparr> else s1)
                else d0)
      in d1\<lparr> machine := gccDumpMachine targetDump,
              sysRoot := sysRootForTarget p (data_name d1),
              toolsPath := toolsPathForTarget p (data_name d1),
              gdb := DEFAULT_DEBUGGER_FILENAME p,
              data_rpmValidationSuites :=
                rpmValidationSuitesFromString (dump_rpmValidationSuites targetDump) \<rparr>)"

record BuildEnginePrivate =
  buildTargets :: "BuildTargetDump list"
  buildTargetsData :: "BuildTargetData list"

text \<open>
  What a reconciliation does besides changing the two lists: the update of a target in
  place, the removal and the creation of the tools of a target on disk, and the two
  signals of \<open>BuildEngine\<close>, each with the index it is given.
\<close>

datatype targetEvent =
    UpdatingBuildTarget nat
  | DeinitBuildTargetAt nat
  | InitBuildTargetAt nat
  | AboutToRemoveBuildTarget nat
  | BuildTargetAdded nat

definition sanityCheck :: "BuildTargetDump list \<Rightarrow> BuildTargetDump list" where
  \<comment> \<open>The first statement of \<open>updateBuildTargets\<close>: \<open>QTC_ASSERT\<close> runs its action,
      \<open>return false\<close>, when the condition does not hold.\<close>
  "sanityCheck newTargets =
     (let origins = map dump_origin newTargets in
      filter (\<lambda>target.
          if dump_name target \<in> set origins then False
          else if dump_origin target \<noteq> []
               then (if startsWith (dump_name target) (dump_origin target @ ''.'')
                        \<and> length (dump_name target) > length (dump_origin target) + 1
                     then True else False)
               else True)
        newTargets)"

text \<open>
  The first loop visits the cached targets by index. \<open>QList::at\<close> and \<open>operator[]\<close>
  are \<open>!\<close>: the two cached lists have the same length and so have the two lists of new
  targets, which the theorems state as their hypothesis where they need it.
\<close>

function matchTargets ::
  "bool \<Rightarrow> nat \<Rightarrow> BuildTargetDump list \<Rightarrow> BuildTargetData list
     \<Rightarrow> BuildTargetDump list \<Rightarrow> BuildTargetData list \<Rightarrow> nat list \<Rightarrow> targetEvent list
     \<Rightarrow> BuildTargetDump list \<times> BuildTargetDump list \<times> BuildTargetData list \<times> nat list
         \<times> targetEvent list" where
  "matchTargets sys i bts btd newTargets newTargetsData toRemove ev =
     (if i < length bts then
        (let match = indexOf newTargets (bts ! i) in
         if match \<noteq> -1
         then matchTargets sys (i + 1) bts btd (removeAt newTargets (nat match))
                (removeAt newTargetsData (nat match)) toRemove ev
         else
           (let dataMatch = indexOfBy BuildTargetData_eq newTargetsData (btd ! i) in
            if dataMatch \<noteq> -1
            then matchTargets sys (i + 1) (bts[i := newTargets ! nat dataMatch]) btd
                   (removeAt newTargets (nat dataMatch))
                   (removeAt newTargetsData (nat dataMatch)) toRemove
                   (ev @ [UpdatingBuildTarget i]
                       @ (if \<not> sys then [DeinitBuildTargetAt i, InitBuildTargetAt i] else []))
            else matchTargets sys (i + 1) bts btd newTargets newTargetsData
                   (toRemove @ [i]) ev))
      else (bts, newTargets, newTargetsData, toRemove, ev))"
  by pat_completeness auto
termination
  by (relation "measure (\<lambda>(sys, i, bts, btd, nt, nd, tr, ev). length bts - i)") auto

fun removeTargets ::
  "bool \<Rightarrow> nat list \<Rightarrow> BuildTargetDump list \<Rightarrow> BuildTargetData list \<Rightarrow> targetEvent list
     \<Rightarrow> BuildTargetDump list \<times> BuildTargetData list \<times> targetEvent list" where
  \<comment> \<open>\<open>Utils::reverseForeach(toRemove, ...)\<close>: the list given here is \<open>rev toRemove\<close>.\<close>
  "removeTargets sys [] bts btd ev = (bts, btd, ev)"
| "removeTargets sys (i # rest) bts btd ev =
     removeTargets sys rest (removeAt bts i) (removeAt btd i)
       (ev @ [AboutToRemoveBuildTarget i] @ (if \<not> sys then [DeinitBuildTargetAt i] else []))"

fun addTargets ::
  "targetPaths \<Rightarrow> BuildTargetDump list \<Rightarrow> BuildTargetDump list \<Rightarrow> BuildTargetData list
     \<Rightarrow> targetEvent list \<Rightarrow> BuildTargetDump list \<times> BuildTargetData list \<times> targetEvent list" where
  "addTargets p [] bts btd ev = (bts, btd, ev)"
| "addTargets p (target # rest) bts btd ev =
     addTargets p rest (bts @ [target]) (btd @ [createTargetData p target])
       (ev @ (if \<not> useSystemSettingsOnly p then [InitBuildTargetAt (length bts)] else [])
           @ [BuildTargetAdded (length bts)])"

definition updateBuildTargets ::
  "targetPaths \<Rightarrow> BuildTargetDump list \<Rightarrow> BuildEnginePrivate
     \<Rightarrow> BuildEnginePrivate \<times> targetEvent list" where
  "updateBuildTargets p newTargets0 d =
     (let newTargets = sanityCheck newTargets0;
          newTargetsData = map (createTargetData p) newTargets in
      case matchTargets (useSystemSettingsOnly p) 0 (buildTargets d) (buildTargetsData d)
             newTargets newTargetsData [] [] of
        (bts1, newTargets1, newTargetsData1, toRemove, ev1) \<Rightarrow>
      case removeTargets (useSystemSettingsOnly p) (rev toRemove) bts1 (buildTargetsData d) ev1 of
        (bts2, btd2, ev2) \<Rightarrow>
      case addTargets p newTargets1 bts2 btd2 ev2 of
        (bts3, btd3, ev3) \<Rightarrow>
          (d\<lparr>buildTargets := bts3, buildTargetsData := btd3\<rparr>, ev3))"

text \<open>
  The two lists start empty and only \<open>updateBuildTargets\<close> writes them: the states a build
  engine can be in are the ones reached from the empty one by reconciliations.
\<close>

inductive reachable :: "BuildEnginePrivate \<Rightarrow> bool" where
  initial: "reachable \<lparr>buildTargets = [], buildTargetsData = []\<rparr>"
| update: "reachable d \<Longrightarrow> reachable (fst (updateBuildTargets p newTargets d))"

section \<open>The build engines of the manager (buildengine.cpp)\<close>

text \<open>
  \<open>QUrl\<close> is a type \<open>'u\<close> with a linear order (a \<open>QMap\<close> keeps its keys in the order of
  \<open>operator<\<close>) and \<open>QDateTime\<close> a type \<open>'t\<close>; only their equality and that order are
  used. The data of one engine is the part of its \<open>QVariantMap\<close> that
  \<open>BuildEngineManager::fromMap\<close> reads (the URI is \<open>None\<close> when \<open>QUrl::isEmpty\<close> holds)
  and a rest \<open>'r\<close> that \<open>BuildEnginePrivate::fromMap\<close> reads.
\<close>

record ('u, 't, 'r) engineData =
  BUILD_ENGINE_VM_URI :: "'u option"
  BUILD_ENGINE_CREATION_TIME :: 't
  BUILD_ENGINE_AUTODETECTED :: bool
  otherSettings :: 'r

record ('u, 't, 'r) BuildEngine =
  uri :: 'u
  creationTime :: 't
  autodetected :: bool
  settings :: 'r

record ('u, 't, 'r) enginesData =
  BUILD_ENGINES_VERSION_KEY :: int
  BUILD_ENGINES_INSTALL_DIR_KEY :: string
  BUILD_ENGINES_CUSTOM_BUILD_HOST_NAME_KEY :: string
  BUILD_ENGINES_BUILD_ENVIRONMENT_FILTER_KEY :: "string list"
  BUILD_ENGINES_COUNT_KEY :: int
  BUILD_ENGINES_DATA_KEY :: "nat \<Rightarrow> ('u, 't, 'r) engineData option"

datatype engineSignal = AboutToRemoveBuildEngine nat | BuildEngineAdded nat

record ('u, 't, 'r) BuildEngineManager = sdkState +
  m_installDir :: string
  m_buildEngines :: "('u, 't, 'r) BuildEngine list"
  emitted :: "engineSignal list"

subsection \<open>QMap\<close>

text \<open>A \<open>QMap\<close> is the list of its entries in the order of the keys, one entry per key.\<close>

fun qmapInsert :: "'k::linorder \<Rightarrow> 'v \<Rightarrow> ('k \<times> 'v) list \<Rightarrow> ('k \<times> 'v) list" where
  "qmapInsert k v [] = [(k, v)]"
| "qmapInsert k v ((k', v') # m) =
     (if k < k' then (k, v) # (k', v') # m
      else if k = k' then (k, v) # m
      else (k', v') # qmapInsert k v m)"

definition qmapRemove :: "'k \<Rightarrow> ('k \<times> 'v) list \<Rightarrow> ('k \<times> 'v) list" where
  "qmapRemove k m = filter (\<lambda>kv. fst kv \<noteq> k) m"

subsection \<open>BuildEngineManager::fromMap\<close>

text \<open>
  \<open>collectEngines\<close> is the loop that fills \<open>newEnginesData\<close>; it gives \<open>None\<close> where a
  \<open>QTC_ASSERT\<close> makes \<open>fromMap\<close> return.
\<close>

function collectEngines ::
  "('u::linorder, 't, 'r) enginesData \<Rightarrow> int \<Rightarrow> int
     \<Rightarrow> ('u \<times> ('u, 't, 'r) engineData) list \<Rightarrow> ('u \<times> ('u, 't, 'r) engineData) list option" where
  "collectEngines data newCount i newEnginesData =
     (if i < newCount then
        (case BUILD_ENGINES_DATA_KEY data (nat i) of
           None \<Rightarrow> None
         | Some engineData \<Rightarrow>
             (case BUILD_ENGINE_VM_URI engineData of
                None \<Rightarrow> None
              | Some vmUri \<Rightarrow>
                  collectEngines data newCount (i + 1)
                    (qmapInsert vmUri engineData newEnginesData)))
      else Some newEnginesData)"
  by pat_completeness auto
termination
  by (relation "measure (\<lambda>(data, newCount, i, m). nat (newCount - i))") auto

text \<open>
  The loop over the existing engines. The engines kept so far are \<open>kept\<close>: an erased
  engine leaves the vector at once, so the index handed to \<open>aboutToRemoveBuildEngine\<close> is
  the number of engines kept before it. \<open>existingBuildEngines\<close> maps a URI to the place
  of its engine among the kept ones.
\<close>

definition inNewData ::
  "('u \<times> ('u, 't, 'r) engineData) list \<Rightarrow> ('u, 't, 'r) BuildEngine \<Rightarrow> bool" where
  "inNewData newEnginesData e =
     (case map_of newEnginesData (uri e) of
        None \<Rightarrow> False
      | Some engineData \<Rightarrow> BUILD_ENGINE_CREATION_TIME engineData = creationTime e)"

fun dropEngines ::
  "bool \<Rightarrow> ('u::linorder, 't, 'r) BuildEngine list \<Rightarrow> ('u, 't, 'r) BuildEngine list
     \<Rightarrow> ('u \<times> ('u, 't, 'r) engineData) list \<Rightarrow> ('u \<times> nat) list \<Rightarrow> engineSignal list
     \<Rightarrow> ('u, 't, 'r) BuildEngine list \<times> ('u \<times> ('u, 't, 'r) engineData) list
         \<times> ('u \<times> nat) list \<times> engineSignal list" where
  "dropEngines fromSystemSettings [] kept newEnginesData existingBuildEngines sig =
     (kept, newEnginesData, existingBuildEngines, sig)"
| "dropEngines fromSystemSettings (e # rest) kept newEnginesData existingBuildEngines sig =
     (if \<not> inNewData newEnginesData e \<and> (\<not> fromSystemSettings \<or> autodetected e)
      then dropEngines fromSystemSettings rest kept newEnginesData existingBuildEngines
             (sig @ [AboutToRemoveBuildEngine (length kept)])
      else if autodetected e \<and> fromSystemSettings
      then dropEngines fromSystemSettings rest (kept @ [e]) (qmapRemove (uri e) newEnginesData)
             existingBuildEngines sig
      else dropEngines fromSystemSettings rest (kept @ [e]) newEnginesData
             (qmapInsert (uri e) (length kept) existingBuildEngines) sig)"

text \<open>
  The second loop updates an existing engine or adds a new one. \<open>load\<close> is
  \<open>BuildEnginePrivate::fromMap\<close> on the engine found (\<open>Some\<close>) or on a new engine
  (\<open>None\<close>): it gives the engine as it stands afterwards and the \<open>bool\<close> it returns. It
  needs the virtual machine factory and the setters of the engine, so it is a parameter.
\<close>

fun updateEngines ::
  "(('u, 't, 'r) engineData \<Rightarrow> ('u, 't, 'r) BuildEngine option
      \<Rightarrow> bool \<times> ('u, 't, 'r) BuildEngine)
     \<Rightarrow> bool \<Rightarrow> ('u \<times> ('u, 't, 'r) engineData) list \<Rightarrow> ('u::linorder \<times> nat) list
     \<Rightarrow> ('u, 't, 'r) BuildEngine list \<Rightarrow> engineSignal list
     \<Rightarrow> ('u, 't, 'r) BuildEngine list \<times> engineSignal list" where
  "updateEngines load fromSystemSettings [] existingBuildEngines engines sig = (engines, sig)"
| "updateEngines load fromSystemSettings ((vmUri, engineData) # rest) existingBuildEngines
       engines sig =
     (case map_of existingBuildEngines vmUri of
        None \<Rightarrow>
          (case load engineData None of (ok, newEngine) \<Rightarrow>
             if \<not> ok then (engines, sig)
             else updateEngines load fromSystemSettings rest existingBuildEngines
                    (engines @ [newEngine]) (sig @ [BuildEngineAdded (length engines)]))
      | Some i \<Rightarrow>
          if fromSystemSettings \<and> \<not> autodetected (engines ! i) then (engines, sig)
          else (case load engineData (Some (engines ! i)) of (ok, engine) \<Rightarrow>
             if \<not> ok then (engines[i := engine], sig)
             else updateEngines load fromSystemSettings rest existingBuildEngines
                    (engines[i := engine]) sig))"

definition BuildEngineManager_fromMap ::
  "(('u, 't, 'r) engineData \<Rightarrow> ('u, 't, 'r) BuildEngine option
      \<Rightarrow> bool \<times> ('u, 't, 'r) BuildEngine)
     \<Rightarrow> ('u::linorder, 't, 'r) enginesData \<Rightarrow> bool \<Rightarrow> ('u, 't, 'r) BuildEngineManager
     \<Rightarrow> ('u, 't, 'r) BuildEngineManager" where
  "BuildEngineManager_fromMap load data fromSystemSettings m0 =
     (if BUILD_ENGINES_VERSION_KEY data \<noteq> 1 then m0
      else
        let m1 = m0\<lparr>m_installDir := BUILD_ENGINES_INSTALL_DIR_KEY data\<rparr> in
        if m_installDir m1 = [] then m1
        else
          let m2 = (if \<not> fromSystemSettings \<or> m_customBuildHostName m1 = []
                    then BuildEngineManager_setCustomBuildHostName
                           (BUILD_ENGINES_CUSTOM_BUILD_HOST_NAME_KEY data) m1
                    else m1);
              m3 = (if \<not> fromSystemSettings \<or> m_buildEnvironmentFilter m2 = []
                    then BuildEngineManager_setBuildEnvironmentFilter
                           (BUILD_ENGINES_BUILD_ENVIRONMENT_FILTER_KEY data) m2
                    else m2)
          in
          case collectEngines data (BUILD_ENGINES_COUNT_KEY data) 0 [] of
            None \<Rightarrow> m3
          | Some newEnginesData \<Rightarrow>
              (case dropEngines fromSystemSettings (m_buildEngines m3) [] newEnginesData []
                      (emitted m3) of
                 (kept, newEnginesData1, existingBuildEngines, sig1) \<Rightarrow>
                   (case updateEngines load fromSystemSettings newEnginesData1
                           existingBuildEngines kept sig1 of
                      (engines, sig2) \<Rightarrow>
                        m3\<lparr>m_buildEngines := engines, emitted := sig2\<rparr>)))"

section \<open>Definitions used to state the properties\<close>

subsection \<open>Reading a prepare result\<close>

definition prepareResult :: "PrepareResult \<times> bool \<times> string \<times> 'a \<Rightarrow> PrepareResult" where
  "prepareResult r = fst r"

definition prepareNeedsVmOff :: "PrepareResult \<times> bool \<times> string \<times> 'a \<Rightarrow> bool" where
  "prepareNeedsVmOff r = fst (snd r)"

definition prepareError :: "PrepareResult \<times> bool \<times> string \<times> 'a \<Rightarrow> string" where
  "prepareError r = fst (snd (snd r))"

definition prepareAccessor :: "PrepareResult \<times> bool \<times> string \<times> 'a \<Rightarrow> 'a" where
  "prepareAccessor r = snd (snd (snd r))"

subsection \<open>The setter calls that differing values ask for\<close>

text \<open>
  For each group of properties, the calls of the setters whose staged value differs from
  the value the resource holds, in the order of the source. The theorems below compare
  the calls that Apply makes with these lists.
\<close>

definition vmCalls :: "VirtualMachinePropertiesAccessor \<Rightarrow> VirtualMachine \<Rightarrow> call list" where
  "vmCalls a v =
     (if m_memorySizeMb a \<noteq> memorySizeMb v then [SetMemorySizeMb (m_memorySizeMb a)] else [])
   @ (if m_swapSizeMb a \<noteq> swapSizeMb v \<and> SwapMemory \<in> features v
      then [SetSwapSizeMb (m_swapSizeMb a)] else [])
   @ (if m_cpuCount a \<noteq> cpuCount v then [SetCpuCount (m_cpuCount a)] else [])
   @ (if m_storageSizeMb a \<noteq> storageSizeMb v
      then [SetStorageSizeMb (m_storageSizeMb a)] else [])
   @ (if m_freeSizeMb a > 0
      then [ReserveStorageSizeMb (m_freeSizeMb a) (m_incrementMb a)] else [])"

definition emulatorOtherCalls :: "EmulatorPropertiesAccessor \<Rightarrow> world \<Rightarrow> call list" where
  "emulatorOtherCalls a w =
     (if emu_deviceModel a \<noteq> deviceModel w \<or> emu_orientation a \<noteq> orientation w
         \<or> emu_downscale a \<noteq> isViewScaled w
      then [SetDisplayProperties (emu_deviceModel a) (emu_orientation a) (emu_downscale a)]
      else [])
   @ (if emu_sshPort a \<noteq> sshPort (virtualMachine w)
      then [EmulatorSetSshPort (emu_sshPort a)] else [])
   @ (if emu_sshTimeout a \<noteq> sshTimeout (virtualMachine w)
      then [SetSshParametersTimeout (emu_sshTimeout a)] else [])"

definition buildEngineOtherCalls :: "BuildEnginePropertiesAccessor \<Rightarrow> world \<Rightarrow> call list" where
  "buildEngineOtherCalls a w =
     (if eng_sshPort a \<noteq> sshPort (virtualMachine w)
      then [BuildEngineSetSshPort (eng_sshPort a)] else [])
   @ (if eng_sshTimeout a \<noteq> sshTimeout (virtualMachine w)
      then [SetSshParametersTimeout (eng_sshTimeout a)] else [])
   @ (if eng_dBusPort a \<noteq> dBusPort w then [SetDBusPort (eng_dBusPort a)] else [])"

subsection \<open>The reserve-size grammar, in the words of the specification\<close>

text \<open>
  The specification writes a reserve-size value as \<open><N>+[,<M>]\<close>. \<open>sizeField\<close> is the
  text before the first comma (the whole value when there is none), \<open>stepField\<close> the text
  after it.
\<close>

definition sizeField :: "string \<Rightarrow> string" where
  "sizeField val = takeWhile (\<lambda>c. c \<noteq> CHR '','') val"

definition stepField :: "string \<Rightarrow> string" where
  "stepField val = tl (dropWhile (\<lambda>c. c \<noteq> CHR '','') val)"

subsection \<open>The calls made by one Apply\<close>

definition newCalls :: "'a sdkState_scheme \<Rightarrow> 'b sdkState_scheme \<Rightarrow> call list" where
  "newCalls w w' = drop (length (calls w)) (calls w')"

subsection \<open>The kind of an accessor\<close>

definition isSdkAccessor :: "PropertiesAccessor \<Rightarrow> bool" where
  "isSdkAccessor acc = (case acc of SdkAccessor x \<Rightarrow> True | EmulatorAccessor x \<Rightarrow> False | BuildEngineAccessor x \<Rightarrow> False)"

subsection \<open>The order of the accessors, in the words of the specification\<close>

text \<open>
  The specification resolves the owning property group "resource-specific accessor first,
  generic (shared) accessor second". These two functions consult the accessors in that
  order; they are compared with \<open>EmulatorPropertiesAccessor_prepareSet\<close> and
  \<open>BuildEnginePropertiesAccessor_prepareSet\<close> of the sources.
\<close>

definition EmulatorPropertiesAccessor_prepareSet_specificFirst ::
  "host \<Rightarrow> world \<Rightarrow> string \<Rightarrow> string \<Rightarrow> string \<Rightarrow> EmulatorPropertiesAccessor
     \<Rightarrow> PrepareResult \<times> bool \<times> string \<times> EmulatorPropertiesAccessor" where
  "EmulatorPropertiesAccessor_prepareSet_specificFirst h w name val err a =
     (case EmulatorPropertiesAccessor_prepareSetOther h name val err a of
        (result, needsVmOff, err1, a1) \<Rightarrow>
          if result \<noteq> Ignored then (result, needsVmOff, err1, a1)
          else (case VirtualMachinePropertiesAccessor_prepareSet h (virtualMachine w) name val
                       err1 (emu_vmAccessor a1) of
                  (result2, needsVmOff2, err2, va) \<Rightarrow>
                    (result2, needsVmOff2, err2, a1\<lparr>emu_vmAccessor := va\<rparr>)))"

definition BuildEnginePropertiesAccessor_prepareSet_specificFirst ::
  "host \<Rightarrow> world \<Rightarrow> string \<Rightarrow> string \<Rightarrow> string \<Rightarrow> BuildEnginePropertiesAccessor
     \<Rightarrow> PrepareResult \<times> bool \<times> string \<times> BuildEnginePropertiesAccessor" where
  "BuildEnginePropertiesAccessor_prepareSet_specificFirst h w name val err a =
     (case BuildEnginePropertiesAccessor_prepareSetOther h name val err a of
        (result, needsVmOff, err1, a1) \<Rightarrow>
          if result \<noteq> Ignored then (result, needsVmOff, err1, a1)
          else (case VirtualMachinePropertiesAccessor_prepareSet h (virtualMachine w) name val
                       err1 (eng_vmAccessor a1) of
                  (result2, needsVmOff2, err2, va) \<Rightarrow>
                    (result2, needsVmOff2, err2, a1\<lparr>eng_vmAccessor := va\<rparr>)))"

subsection \<open>A concrete host and resource\<close>

definition exHost :: host where
  "exHost = \<lparr> toInt = decimalToInt, availableMemorySizeMb = 16384, availableCpuCount = 8,
     SFDK_AUTO_STOP_VMS = 0, deviceModelIsValid = (\<lambda>s. s = ''Xperia''),
     hostNameIsValid = (\<lambda>s. True), urlIsValid = (\<lambda>s. True), stepOk = (\<lambda>c. True),
     WWW_PROXY_DISABLED = ''disabled'', WWW_PROXY_AUTOMATIC = ''automatic'',
     WWW_PROXY_MANUAL = ''manual'' \<rparr>"

definition exVm :: "Feature set \<Rightarrow> VirtualMachine" where
  "exVm fs = \<lparr> features = fs, memorySizeMb = 4096, swapSizeMb = 0, cpuCount = 2,
     storageSizeMb = 32768, freeStorageSizeMb = 5000, sshPort = 2222, sshTimeout = 30 \<rparr>"

definition exWorld :: "Feature set \<Rightarrow> bool \<Rightarrow> world" where
  "exWorld fs running = \<lparr> m_customBuildHostName = [], m_defaultBuildHostName = ''buildhost'',
     m_buildEnvironmentFilter = [''LANG''], calls = [],
     virtualMachine = exVm fs, isRunningReliably = running,
     deviceModel = ''Xperia'', orientation = Vertical, isViewScaled = False, dBusPort = 7777,
     wwwProxyType = ''disabled'', wwwProxyServers = [], wwwProxyExcludes = [] \<rparr>"

subsection \<open>The identity of a build target\<close>

text \<open>
  \<open>BuildTargetData::operator==\<close> compares the name and the origin among its fields, and
  \<open>createTargetData\<close> copies both from the dump: a cached dump and its cached data agree
  on this pair.
\<close>

definition dumpKey :: "BuildTargetDump \<Rightarrow> string \<times> string" where
  "dumpKey t = (dump_name t, dump_origin t)"

definition dataKey :: "BuildTargetData \<Rightarrow> string \<times> string" where
  "dataKey d = (data_name d, data_origin d)"

subsection \<open>Concrete targets and engines\<close>

text \<open>
  Four targets as a build engine may list them: \<open>T\<close> is the origin of two snapshots, one
  of them named without the dot, and \<open>U\<close> has no snapshot.
\<close>

definition exPaths :: targetPaths where
  "exPaths = \<lparr> pathAppended = (\<lambda>dir n. dir @ ''/'' @ n), sharedTargetsPath = ''/targets'',
     toolsPathCommonPrefix = ''/tools'', virtualMachineName = ''engine:1'',
     DEFAULT_DEBUGGER_FILENAME = ''gdb'', useSystemSettingsOnly = False \<rparr>"

definition exDump :: "string \<Rightarrow> string \<Rightarrow> BuildTargetDump" where
  "exDump n orig = \<lparr> dump_name = n, dump_origin = orig, gccDumpMachine = ''armv7hl'',
     gccDumpMacros = [], gccDumpIncludes = [], gccDumpInstallDir = [], qmakeQuery = [],
     cmakeCapabilities = [], cmakeVersion = [], dump_rpmValidationSuites = [] \<rparr>"

definition exTargets :: "BuildTargetDump list" where
  "exTargets = [exDump ''T'' [], exDump ''T.default'' ''T'', exDump ''Tx'' ''T'',
                exDump ''U'' []]"

definition noTargets :: BuildEnginePrivate where
  "noTargets = \<lparr>buildTargets = [], buildTargetsData = []\<rparr>"

text \<open>
  Engines with a number for the URI and for the creation time, and a
  \<open>BuildEnginePrivate::fromMap\<close> that always succeeds and copies the data it is given.
\<close>

definition exEngine :: "nat \<Rightarrow> nat \<Rightarrow> bool \<Rightarrow> (nat, nat, unit) BuildEngine" where
  "exEngine u t a = \<lparr> uri = u, creationTime = t, autodetected = a, settings = () \<rparr>"

definition exEngineData :: "nat \<Rightarrow> nat \<Rightarrow> bool \<Rightarrow> (nat, nat, unit) engineData" where
  "exEngineData u t a = \<lparr> BUILD_ENGINE_VM_URI = Some u, BUILD_ENGINE_CREATION_TIME = t,
     BUILD_ENGINE_AUTODETECTED = a, otherSettings = () \<rparr>"

definition exLoad ::
  "(nat, nat, unit) engineData \<Rightarrow> (nat, nat, unit) BuildEngine option
     \<Rightarrow> bool \<times> (nat, nat, unit) BuildEngine" where
  "exLoad data e = (True, \<lparr> uri = the (BUILD_ENGINE_VM_URI data),
     creationTime = BUILD_ENGINE_CREATION_TIME data,
     autodetected = BUILD_ENGINE_AUTODETECTED data, settings = otherSettings data \<rparr>)"

definition exEnginesData ::
  "(nat, nat, unit) engineData list \<Rightarrow> (nat, nat, unit) enginesData" where
  "exEnginesData es = \<lparr> BUILD_ENGINES_VERSION_KEY = 1, BUILD_ENGINES_INSTALL_DIR_KEY = ''/sdk'',
     BUILD_ENGINES_CUSTOM_BUILD_HOST_NAME_KEY = [],
     BUILD_ENGINES_BUILD_ENVIRONMENT_FILTER_KEY = [''LANG''],
     BUILD_ENGINES_COUNT_KEY = int (length es),
     BUILD_ENGINES_DATA_KEY = (\<lambda>i. if i < length es then Some (es ! i) else None) \<rparr>"

definition exManager ::
  "(nat, nat, unit) BuildEngine list \<Rightarrow> (nat, nat, unit) BuildEngineManager" where
  "exManager es = \<lparr> m_customBuildHostName = [], m_defaultBuildHostName = ''buildhost'',
     m_buildEnvironmentFilter = [''LANG''], calls = [], m_installDir = ''/sdk'',
     m_buildEngines = es, emitted = [] \<rparr>"

section \<open>Properties of the property mutation engine\<close>

lemmas property_names =
  VM_MEMORY_SIZE_MB_def VM_SWAP_SIZE_MB_def VM_CPU_COUNT_def VM_STORAGE_SIZE_MB_def
  VM_FREE_STORAGE_SIZE_MB_def EMULATOR_DEVICE_MODEL_def EMULATOR_ORIENTATION_def
  EMULATOR_DOWNSCALE_def EMULATOR_SSH_PORT_def EMULATOR_SSH_TIMEOUT_def ENGINE_HOST_NAME_def
  ENGINE_BUILD_ENVIRONMENT_FILTER_def ENGINE_SSH_PORT_def ENGINE_SSH_TIMEOUT_def
  ENGINE_DBUS_PORT_def WWW_PROXY_TYPE_def WWW_PROXY_SERVERS_def WWW_PROXY_EXCLUDES_def

lemmas messages =
  valueTooBigMessage_def valueCannotBeDecreasedMessage_def valueCannotBeIncreasedMessage_def
  valueEmptyMessage_def unknownPropertyMessage_def readOnlyPropertyMessage_def


lemmas prepare_sel = prepareResult_def prepareNeedsVmOff_def prepareError_def prepareAccessor_def

lemmas ex_defs = exHost_def exVm_def exWorld_def

lemmas string_defs = indexOf_def left_def mid_def endsWith_def chop_def startsWith_def
  normalizedProperty_def toLowerChar_def isUpperAZ_def

lemmas parse_defs = parsePositiveInt_def parseNonNegativeInt_def parsePortNumber_def
  parseBoolean_def parseOrientation_def booleanDictionary_def orientationDictionary_def
  decimalToInt_def digitValue_def

lemmas accessor_defs =
  VirtualMachinePropertiesAccessor_prepareSet_def checkCurrentFreeSize_def
  VirtualMachinePropertiesAccessor_new_def
  EmulatorPropertiesAccessor_prepareSet_def EmulatorPropertiesAccessor_prepareSetOther_def
  EmulatorPropertiesAccessor_new_def
  BuildEnginePropertiesAccessor_prepareSet_def BuildEnginePropertiesAccessor_prepareSetOther_def
  BuildEnginePropertiesAccessor_new_def effectiveBuildHostName_def
  SetPropertiesTask_prepareSet_def SetPropertiesTask_new_def

lemmas apply_defs =
  SetPropertiesTask_set_def VirtualMachinePropertiesAccessor_set_def
  EmulatorPropertiesAccessor_set_def EmulatorPropertiesAccessor_setOthers_def
  BuildEnginePropertiesAccessor_set_def BuildEnginePropertiesAccessor_setOthers_def
  BuildEngineManager_setCustomBuildHostName_def BuildEngineManager_setBuildEnvironmentFilter_def
  execAsynchronous_def updateVm_def

lemmas world_eval = string_defs parse_defs accessor_defs ex_defs property_names messages Let_def

subsection \<open>Searching a list\<close>

lemma indexOfBy_eq_notin: "(indexOfBy (=) xs x = -1) = (x \<notin> set xs)"
proof (induction xs)
  case Nil show ?case by simp
next
  case (Cons y ys)
  have "indexOfBy (=) ys x \<ge> -1" by (induction ys) (auto simp: Let_def)
  with Cons show ?case by (auto simp: Let_def)
qed

lemma indexOfBy_ge: "- 1 \<le> indexOfBy eq xs x"
  by (induction xs) (auto simp: Let_def)

lemma indexOf_takeWhile:
  "x \<in> set xs \<Longrightarrow> indexOf xs x = int (length (takeWhile (\<lambda>c. c \<noteq> x) xs))"
proof (induction xs)
  case Nil then show ?case by simp
next
  case (Cons y ys)
  show ?case
  proof (cases "y = x")
    case True then show ?thesis by (simp add: indexOf_def)
  next
    case False
    with Cons have "x \<in> set ys" by simp
    with Cons.IH have "indexOf ys x = int (length (takeWhile (\<lambda>c. c \<noteq> x) ys))" by simp
    with False show ?thesis by (simp add: indexOf_def Let_def)
  qed
qed

lemma indexOf_notin: "x \<notin> set xs \<Longrightarrow> indexOf xs x = -1"
  by (simp add: indexOf_def indexOfBy_eq_notin)

lemma left_indexOf: "left val (indexOf val c) = takeWhile (\<lambda>d. d \<noteq> c) val"
proof (cases "c \<in> set val")
  case True
  have "length (takeWhile (\<lambda>d. d \<noteq> c) val) < length val"
    using True by (induction val) auto
  then show ?thesis using True
    by (simp add: left_def indexOf_takeWhile takeWhile_eq_take[symmetric])
next
  case False
  then have e: "takeWhile (\<lambda>d. d \<noteq> c) val = val" by (induction val) auto
  have "left val (indexOf val c) = val" using False by (simp add: left_def indexOf_notin)
  then show ?thesis by (simp only: e)
qed

lemma mid_indexOf:
  "c \<in> set val \<Longrightarrow> mid val (indexOf val c + 1) = tl (dropWhile (\<lambda>d. d \<noteq> c) val)"
  apply (simp add: mid_def indexOf_takeWhile)
  by (metis One_nat_def add.commute drop_drop dropWhile_eq_drop nat_int of_nat_Suc plus_1_eq_Suc tl_drop drop_Suc)

lemma indexOf_pos_iff:
  "(0 < indexOf val c) = (c \<in> set val \<and> takeWhile (\<lambda>d. d \<noteq> c) val \<noteq> [])"
  by (cases "c \<in> set val") (auto simp: indexOf_takeWhile indexOf_notin)

subsection \<open>Capability gates of the virtual machine properties\<close>

text \<open>
  C10. On a virtual machine whose feature set lacks \<open>LimitMemorySize\<close>, preparing
  \<open>vm.cpu-count\<close> fails with "Read-only property" whatever the value is, so also for a
  positive integer within the host's CPU count: the CPU count is gated by the
  \<open>LimitMemorySize\<close> flag.
\<close>

theorem cpu_count_gated_by_LimitMemorySize:
  assumes "LimitMemorySize \<notin> features vm"
  shows "VirtualMachinePropertiesAccessor_prepareSet h vm ''vm.cpu-count'' val err a
           = (Failed, True, ''Read-only property'', a)"
  using assms
  by (simp add: VirtualMachinePropertiesAccessor_prepareSet_def property_names messages)

theorem cpu_count_gated_by_LimitMemorySize_witness:
  "LimitMemorySize \<notin> features (exVm {SwapMemory})
   \<and> VirtualMachinePropertiesAccessor_prepareSet exHost (exVm {SwapMemory}) ''vm.cpu-count''
        ''2'' [] (VirtualMachinePropertiesAccessor_new (exVm {SwapMemory}))
      = (Failed, True, ''Read-only property'',
         VirtualMachinePropertiesAccessor_new (exVm {SwapMemory}))"
  using cpu_count_gated_by_LimitMemorySize [where vm = "exVm {SwapMemory}" and h = exHost
      and val = "''2''" and err = "[]"
      and a = "VirtualMachinePropertiesAccessor_new (exVm {SwapMemory})"]
  by (simp add: exVm_def)

text \<open>
  C5 as the specification states it: every capability-gated property (memory size by
  \<open>LimitMemorySize\<close>, swap size by \<open>SwapMemory\<close>, storage decrease and increase by
  \<open>ShrinkStorageSize\<close> and \<open>GrowStorageSize\<close>) fails Prepare with "Read-only property"
  on a resource without the capability. On a virtual machine without \<open>SwapMemory\<close> the
  swap size is not a property at all (\<open>Ignored\<close>, "Unrecognized property"), and a storage
  decrease without \<open>ShrinkStorageSize\<close> fails with "Value cannot be decreased".
\<close>

theorem capability_gates_counterexample:
  "SwapMemory \<notin> features (exVm {LimitMemorySize})
   \<and> VirtualMachinePropertiesAccessor_prepareSet exHost (exVm {LimitMemorySize}) ''vm.swap-size''
        ''512'' [] (VirtualMachinePropertiesAccessor_new (exVm {LimitMemorySize}))
      = (Ignored, True, ''Unrecognized property'',
         VirtualMachinePropertiesAccessor_new (exVm {LimitMemorySize}))
   \<and> ''Unrecognized property'' \<noteq> ''Read-only property''
   \<and> ShrinkStorageSize \<notin> features (exVm {LimitMemorySize})
   \<and> prepareResult (VirtualMachinePropertiesAccessor_prepareSet exHost (exVm {LimitMemorySize})
        ''vm.storage-size'' ''1024'' [] (VirtualMachinePropertiesAccessor_new (exVm {LimitMemorySize})))
      = Failed
   \<and> prepareError (VirtualMachinePropertiesAccessor_prepareSet exHost (exVm {LimitMemorySize})
        ''vm.storage-size'' ''1024'' [] (VirtualMachinePropertiesAccessor_new (exVm {LimitMemorySize})))
      = ''Value cannot be decreased''
   \<and> ''Value cannot be decreased'' \<noteq> ''Read-only property''"
  by (simp add: VirtualMachinePropertiesAccessor_prepareSet_def property_names messages
      prepare_sel VirtualMachinePropertiesAccessor_new_def ex_defs parsePositiveInt_def
      decimalToInt_def digitValue_def Let_def)

text \<open>
  C5, amended. Without \<open>LimitMemorySize\<close>, \<open>vm.memory-size\<close> fails with "Read-only
  property" for every value. Without \<open>SwapMemory\<close>, \<open>vm.swap-size\<close> is ignored by the
  accessor of the virtual machine with "Unrecognized property". A positive
  \<open>vm.storage-size\<close> below the current size fails with "Value cannot be decreased"
  without \<open>ShrinkStorageSize\<close>, and one above it fails with "Value cannot be increased"
  without \<open>GrowStorageSize\<close>.
\<close>

theorem capability_gates:
  "(LimitMemorySize \<notin> features vm \<longrightarrow>
      VirtualMachinePropertiesAccessor_prepareSet h vm ''vm.memory-size'' val err a
        = (Failed, True, ''Read-only property'', a))
   \<and> (SwapMemory \<notin> features vm \<longrightarrow>
      VirtualMachinePropertiesAccessor_prepareSet h vm ''vm.swap-size'' val err a
        = (Ignored, True, ''Unrecognized property'', a))
   \<and> (ShrinkStorageSize \<notin> features vm \<and> toInt h val = Some n \<and> 0 < n
        \<and> n < storageSizeMb vm \<longrightarrow>
      VirtualMachinePropertiesAccessor_prepareSet h vm ''vm.storage-size'' val err a
        = (Failed, True, ''Value cannot be decreased'', a\<lparr>m_storageSizeMb := n\<rparr>))
   \<and> (GrowStorageSize \<notin> features vm \<and> toInt h val = Some n \<and> storageSizeMb vm < n \<and> 0 < n
        \<longrightarrow>
      VirtualMachinePropertiesAccessor_prepareSet h vm ''vm.storage-size'' val err a
        = (Failed, True, ''Value cannot be increased'', a\<lparr>m_storageSizeMb := n\<rparr>))"
  by (simp add: VirtualMachinePropertiesAccessor_prepareSet_def property_names messages
      parsePositiveInt_def Let_def)

theorem capability_gates_witness:
  "LimitMemorySize \<notin> features (exVm {})
   \<and> VirtualMachinePropertiesAccessor_prepareSet exHost (exVm {}) ''vm.memory-size'' ''2048'' []
        (VirtualMachinePropertiesAccessor_new (exVm {}))
      = (Failed, True, ''Read-only property'', VirtualMachinePropertiesAccessor_new (exVm {}))
   \<and> SwapMemory \<notin> features (exVm {})
   \<and> VirtualMachinePropertiesAccessor_prepareSet exHost (exVm {}) ''vm.swap-size'' ''2048'' []
        (VirtualMachinePropertiesAccessor_new (exVm {}))
      = (Ignored, True, ''Unrecognized property'', VirtualMachinePropertiesAccessor_new (exVm {}))
   \<and> ShrinkStorageSize \<notin> features (exVm {}) \<and> toInt exHost ''2048'' = Some 2048
   \<and> (2048 :: int) < storageSizeMb (exVm {})
   \<and> VirtualMachinePropertiesAccessor_prepareSet exHost (exVm {}) ''vm.storage-size'' ''2048'' []
        (VirtualMachinePropertiesAccessor_new (exVm {}))
      = (Failed, True, ''Value cannot be decreased'',
         (VirtualMachinePropertiesAccessor_new (exVm {}))\<lparr>m_storageSizeMb := 2048\<rparr>)
   \<and> GrowStorageSize \<notin> features (exVm {}) \<and> toInt exHost ''65536'' = Some 65536
   \<and> storageSizeMb (exVm {}) < (65536 :: int)
   \<and> VirtualMachinePropertiesAccessor_prepareSet exHost (exVm {}) ''vm.storage-size'' ''65536'' []
        (VirtualMachinePropertiesAccessor_new (exVm {}))
      = (Failed, True, ''Value cannot be increased'',
         (VirtualMachinePropertiesAccessor_new (exVm {}))\<lparr>m_storageSizeMb := 65536\<rparr>)"
proof -
  have t1: "toInt exHost ''2048'' = Some 2048"
    by (simp add: exHost_def decimalToInt_def digitValue_def)
  have t2: "toInt exHost ''65536'' = Some 65536"
    by (simp add: exHost_def decimalToInt_def digitValue_def)
  show ?thesis
    using capability_gates [where vm = "exVm {}" and h = exHost and val = "''2048''"
        and err = "[]" and a = "VirtualMachinePropertiesAccessor_new (exVm {})" and n = 2048]
      capability_gates [where vm = "exVm {}" and h = exHost and val = "''65536''"
        and err = "[]" and a = "VirtualMachinePropertiesAccessor_new (exVm {})" and n = 65536]
      t1 t2
    by (simp add: exVm_def)
qed

subsection \<open>The setters that Apply calls\<close>

lemma execAsynchronous_updateVm:
  "execAsynchronous h c (updateVm f) w =
     (stepOk h c, w\<lparr>calls := calls w @ [c],
                    virtualMachine := (if stepOk h c then f (virtualMachine w) else virtualMachine w)\<rparr>)"
  by (simp add: execAsynchronous_def updateVm_def Let_def)

lemma execAsynchronous_id:
  "execAsynchronous h c (\<lambda>w. w) w = (stepOk h c, w\<lparr>calls := calls w @ [c]\<rparr>)"
  by (simp add: execAsynchronous_def Let_def)

lemma VM_set_calls:
  "calls (snd (VirtualMachinePropertiesAccessor_set h a w)) = calls w @ vmCalls a (virtualMachine w)"
  by (simp add: VirtualMachinePropertiesAccessor_set_def execAsynchronous_updateVm vmCalls_def
      execAsynchronous_id)

lemma VM_set_frame:
  "sshPort (virtualMachine (snd (VirtualMachinePropertiesAccessor_set h a w))) = sshPort (virtualMachine w)"
  "sshTimeout (virtualMachine (snd (VirtualMachinePropertiesAccessor_set h a w))) = sshTimeout (virtualMachine w)"
  "dBusPort (snd (VirtualMachinePropertiesAccessor_set h a w)) = dBusPort w"
  "deviceModel (snd (VirtualMachinePropertiesAccessor_set h a w)) = deviceModel w"
  "orientation (snd (VirtualMachinePropertiesAccessor_set h a w)) = orientation w"
  "isViewScaled (snd (VirtualMachinePropertiesAccessor_set h a w)) = isViewScaled w"
  "m_customBuildHostName (snd (VirtualMachinePropertiesAccessor_set h a w)) = m_customBuildHostName w"
  "m_buildEnvironmentFilter (snd (VirtualMachinePropertiesAccessor_set h a w)) = m_buildEnvironmentFilter w"
  by (simp_all add: VirtualMachinePropertiesAccessor_set_def execAsynchronous_updateVm
      execAsynchronous_id)

lemma execAsynchronous_calls:
  "calls (store (w\<lparr>calls := calls w @ [c]\<rparr>)) = calls w @ [c] \<Longrightarrow>
   calls (snd (execAsynchronous h c store w)) = calls w @ [c]"
  by (simp add: execAsynchronous_def Let_def)

lemma Emu_setOthers_calls:
  "calls (snd (EmulatorPropertiesAccessor_setOthers h a w)) = calls w @ emulatorOtherCalls a w"
  by (simp add: EmulatorPropertiesAccessor_setOthers_def emulatorOtherCalls_def
      execAsynchronous_updateVm execAsynchronous_def Let_def updateVm_def)

lemma Eng_setOthers_calls:
  "calls (snd (BuildEnginePropertiesAccessor_setOthers h a w)) =
     calls w @ (if eng_hostNameChanged a then [SetCustomBuildHostName (eng_hostName a)] else [])
       @ [SetBuildEnvironmentFilter (eng_buildEnvironmentFilter a)] @ buildEngineOtherCalls a w"
  by (simp add: BuildEnginePropertiesAccessor_setOthers_def buildEngineOtherCalls_def
      execAsynchronous_updateVm execAsynchronous_def Let_def updateVm_def
      BuildEngineManager_setCustomBuildHostName_def BuildEngineManager_setBuildEnvironmentFilter_def)

lemma Emu_set_calls:
  "calls (snd (EmulatorPropertiesAccessor_set h a w)) =
     calls w @ vmCalls (emu_vmAccessor a) (virtualMachine w)
       @ (if fst (VirtualMachinePropertiesAccessor_set h (emu_vmAccessor a) w)
          then emulatorOtherCalls a w else [])"
proof -
  obtain ok w1 where r: "VirtualMachinePropertiesAccessor_set h (emu_vmAccessor a) w = (ok, w1)"
    by (cases "VirtualMachinePropertiesAccessor_set h (emu_vmAccessor a) w")
  have c: "calls w1 = calls w @ vmCalls (emu_vmAccessor a) (virtualMachine w)"
    using VM_set_calls [of h "emu_vmAccessor a" w] r by simp
  have f: "emulatorOtherCalls a w1 = emulatorOtherCalls a w"
    using VM_set_frame [of h "emu_vmAccessor a" w] r by (simp add: emulatorOtherCalls_def)
  show ?thesis using r c f
    by (simp add: EmulatorPropertiesAccessor_set_def Emu_setOthers_calls)
qed

lemma Eng_set_calls:
  "calls (snd (BuildEnginePropertiesAccessor_set h a w)) =
     calls w @ vmCalls (eng_vmAccessor a) (virtualMachine w)
       @ (if fst (VirtualMachinePropertiesAccessor_set h (eng_vmAccessor a) w)
          then (if eng_hostNameChanged a then [SetCustomBuildHostName (eng_hostName a)] else [])
               @ [SetBuildEnvironmentFilter (eng_buildEnvironmentFilter a)]
               @ buildEngineOtherCalls a w
          else [])"
proof -
  obtain ok w1 where r: "VirtualMachinePropertiesAccessor_set h (eng_vmAccessor a) w = (ok, w1)"
    by (cases "VirtualMachinePropertiesAccessor_set h (eng_vmAccessor a) w")
  have c: "calls w1 = calls w @ vmCalls (eng_vmAccessor a) (virtualMachine w)"
    using VM_set_calls [of h "eng_vmAccessor a" w] r by simp
  have f: "buildEngineOtherCalls a w1 = buildEngineOtherCalls a w"
    using VM_set_frame [of h "eng_vmAccessor a" w] r by (simp add: buildEngineOtherCalls_def)
  show ?thesis using r c f
    by (simp add: BuildEnginePropertiesAccessor_set_def Eng_setOthers_calls)
qed

subsection \<open>The reserve-size grammar\<close>

lemma free_storage_unfold:
  "VirtualMachinePropertiesAccessor_prepareSet h vm ''vm.free-storage-size'' val err a =
     (if \<not> endsWith (sizeField val) (CHR ''+'')
        then (Failed, True, valueCannotBeDecreasedMessage, a)
        else (case parsePositiveInt (toInt h) (chop (sizeField val) 1) err of (ok, out, err1) \<Rightarrow>
          let a1 = a\<lparr>m_freeSizeMb := out\<rparr> in
          if \<not> ok then (Failed, True, err1, a1)
          else if CHR '','' \<in> set val then
            (case parsePositiveInt (toInt h) (stepField val) err1 of
               (ok2, out2, err2) \<Rightarrow>
                 let a2 = a1\<lparr>m_incrementMb := out2\<rparr> in
                 if \<not> ok2 then (Failed, True, err2, a2)
                 else if m_incrementMb a2 < m_freeSizeMb a2
                 then (Failed, True, ''<step> cannot be smaller than <size>'', a2)
                 else checkCurrentFreeSize vm err2 a2)
          else checkCurrentFreeSize vm err1 a1))"
proof (cases "endsWith (sizeField val) (CHR ''+'')")
  case False
  then show ?thesis
    by (simp add: VirtualMachinePropertiesAccessor_prepareSet_def property_names
        left_indexOf sizeField_def Let_def)
next
  case True
  then have ne: "takeWhile (\<lambda>d. d \<noteq> CHR '','') val \<noteq> []"
    by (auto simp: endsWith_def sizeField_def)
  have pos: "(0 < indexOf val (CHR '','')) = (CHR '','' \<in> set val)"
    using ne by (simp add: indexOf_pos_iff)
  show ?thesis
  proof (cases "CHR '','' \<in> set val")
    case True
    then show ?thesis using pos
      by (simp add: VirtualMachinePropertiesAccessor_prepareSet_def property_names
        left_indexOf sizeField_def stepField_def Let_def mid_indexOf split: prod.splits)
  next
    case False
    then show ?thesis using pos
      by (simp add: VirtualMachinePropertiesAccessor_prepareSet_def property_names
        left_indexOf sizeField_def stepField_def Let_def split: prod.splits)
  qed
qed

text \<open>
  C6. A \<open>vm.free-storage-size\<close> value is \<open><N>+[,<M>]\<close>. A size field without the
  trailing \<open>+\<close> is rejected with "Value cannot be decreased", whatever the number. \<open>N\<close>
  and \<open>M\<close> must be positive integers, and \<open>M\<close> below \<open>N\<close> is rejected with
  "<step> cannot be smaller than <size>". When the free size of the resource is at least
  \<open>N\<close> the assignment is prepared, asks for no power-off and stages nothing to reserve;
  otherwise it is prepared with the power-off and \<open>N\<close> staged.
\<close>

theorem reserve_size_grammar:
  fixes h :: host and vm :: VirtualMachine and val err :: string
    and a :: VirtualMachinePropertiesAccessor and n m :: int and w :: world
  defines "R \<equiv> VirtualMachinePropertiesAccessor_prepareSet h vm ''vm.free-storage-size'' val err a"
    and "N \<equiv> chop (sizeField val) 1"
    and "M \<equiv> stepField val"
  shows
    "(\<not> endsWith (sizeField val) (CHR ''+'')
        \<longrightarrow> R = (Failed, True, ''Value cannot be decreased'', a))
   \<and> (endsWith (sizeField val) (CHR ''+'')
         \<and> (toInt h N = None \<or> (\<exists>k. toInt h N = Some k \<and> k \<le> 0))
        \<longrightarrow> prepareResult R = Failed
            \<and> prepareError R = ''Positive integer expected: \"'' @ N @ ''\"'')
   \<and> (endsWith (sizeField val) (CHR ''+'') \<and> toInt h N = Some n \<and> 0 < n
         \<and> CHR '','' \<in> set val
         \<and> (toInt h M = None \<or> (\<exists>k. toInt h M = Some k \<and> k \<le> 0))
        \<longrightarrow> prepareResult R = Failed
            \<and> prepareError R = ''Positive integer expected: \"'' @ M @ ''\"'')
   \<and> (endsWith (sizeField val) (CHR ''+'') \<and> toInt h N = Some n \<and> 0 < n
         \<and> CHR '','' \<in> set val \<and> toInt h M = Some m \<and> 0 < m \<and> m < n
        \<longrightarrow> prepareResult R = Failed
            \<and> prepareError R = ''<step> cannot be smaller than <size>'')
   \<and> (endsWith (sizeField val) (CHR ''+'') \<and> toInt h N = Some n \<and> 0 < n
         \<and> (CHR '','' \<notin> set val \<or> (toInt h M = Some m \<and> n \<le> m))
         \<and> n \<le> freeStorageSizeMb vm
        \<longrightarrow> prepareResult R = Prepared \<and> \<not> prepareNeedsVmOff R \<and> prepareError R = err
            \<and> m_freeSizeMb (prepareAccessor R) = 0
            \<and> ReserveStorageSizeMb x y
                \<notin> set (newCalls w (snd (VirtualMachinePropertiesAccessor_set h
                                          (prepareAccessor R) w))))
   \<and> (endsWith (sizeField val) (CHR ''+'') \<and> toInt h N = Some n \<and> 0 < n
         \<and> (CHR '','' \<notin> set val \<or> (toInt h M = Some m \<and> n \<le> m))
         \<and> 0 \<le> freeStorageSizeMb vm \<and> freeStorageSizeMb vm < n
        \<longrightarrow> prepareResult R = Prepared \<and> prepareNeedsVmOff R \<and> prepareError R = err
            \<and> m_freeSizeMb (prepareAccessor R) = n)"
  unfolding R_def N_def M_def free_storage_unfold
  by (auto simp: parsePositiveInt_def checkCurrentFreeSize_def messages prepare_sel Let_def
      newCalls_def VM_set_calls vmCalls_def
      split: option.splits)

theorem reserve_size_grammar_witness:
  "VirtualMachinePropertiesAccessor_prepareSet exHost (exVm {}) ''vm.free-storage-size'' ''100'' []
       (VirtualMachinePropertiesAccessor_new (exVm {}))
     = (Failed, True, ''Value cannot be decreased'', VirtualMachinePropertiesAccessor_new (exVm {}))
   \<and> prepareError (VirtualMachinePropertiesAccessor_prepareSet exHost (exVm {})
       ''vm.free-storage-size'' ''abc+'' [] (VirtualMachinePropertiesAccessor_new (exVm {})))
     = ''Positive integer expected: \"abc\"''
   \<and> prepareError (VirtualMachinePropertiesAccessor_prepareSet exHost (exVm {})
       ''vm.free-storage-size'' ''100+,x'' [] (VirtualMachinePropertiesAccessor_new (exVm {})))
     = ''Positive integer expected: \"x\"''
   \<and> prepareError (VirtualMachinePropertiesAccessor_prepareSet exHost (exVm {})
       ''vm.free-storage-size'' ''100+,50'' [] (VirtualMachinePropertiesAccessor_new (exVm {})))
     = ''<step> cannot be smaller than <size>''
   \<and> prepareResult (VirtualMachinePropertiesAccessor_prepareSet exHost (exVm {})
       ''vm.free-storage-size'' ''100+,200'' [] (VirtualMachinePropertiesAccessor_new (exVm {})))
     = Prepared
   \<and> \<not> prepareNeedsVmOff (VirtualMachinePropertiesAccessor_prepareSet exHost (exVm {})
       ''vm.free-storage-size'' ''100+,200'' [] (VirtualMachinePropertiesAccessor_new (exVm {})))
   \<and> prepareResult (VirtualMachinePropertiesAccessor_prepareSet exHost (exVm {})
       ''vm.free-storage-size'' ''9000+'' [] (VirtualMachinePropertiesAccessor_new (exVm {})))
     = Prepared
   \<and> prepareNeedsVmOff (VirtualMachinePropertiesAccessor_prepareSet exHost (exVm {})
       ''vm.free-storage-size'' ''9000+'' [] (VirtualMachinePropertiesAccessor_new (exVm {})))
   \<and> m_freeSizeMb (prepareAccessor (VirtualMachinePropertiesAccessor_prepareSet exHost (exVm {})
       ''vm.free-storage-size'' ''9000+'' [] (VirtualMachinePropertiesAccessor_new (exVm {}))))
     = 9000"
proof -
  let ?a = "VirtualMachinePropertiesAccessor_new (exVm {})"
  have f: "freeStorageSizeMb (exVm {}) = 5000" by (simp add: exVm_def)
  have e1: "\<not> endsWith (sizeField ''100'') (CHR ''+'')" by (simp add: sizeField_def stepField_def endsWith_def)
  have e2: "endsWith (sizeField ''abc+'') (CHR ''+'')"
    "toInt exHost (chop (sizeField ''abc+'') 1) = None"
    by (simp_all add: sizeField_def stepField_def endsWith_def chop_def exHost_def decimalToInt_def digitValue_def)
  have e3: "endsWith (sizeField ''100+,x'') (CHR ''+'')"
    "toInt exHost (chop (sizeField ''100+,x'') 1) = Some 100"
    "CHR '','' \<in> set ''100+,x''" "toInt exHost (stepField ''100+,x'') = None"
    "stepField ''100+,x'' = ''x''"
    by (simp_all add: sizeField_def stepField_def endsWith_def chop_def exHost_def decimalToInt_def digitValue_def)
  have e4: "endsWith (sizeField ''100+,50'') (CHR ''+'')"
    "toInt exHost (chop (sizeField ''100+,50'') 1) = Some 100"
    "CHR '','' \<in> set ''100+,50''" "toInt exHost (stepField ''100+,50'') = Some 50"
    by (simp_all add: sizeField_def stepField_def endsWith_def chop_def exHost_def decimalToInt_def digitValue_def)
  have e5: "endsWith (sizeField ''100+,200'') (CHR ''+'')"
    "toInt exHost (chop (sizeField ''100+,200'') 1) = Some 100"
    "toInt exHost (stepField ''100+,200'') = Some 200"
    by (simp_all add: sizeField_def stepField_def endsWith_def chop_def exHost_def decimalToInt_def digitValue_def)
  have e6: "endsWith (sizeField ''9000+'') (CHR ''+'')"
    "toInt exHost (chop (sizeField ''9000+'') 1) = Some 9000"
    "CHR '','' \<notin> set ''9000+''"
    by (simp_all add: sizeField_def stepField_def endsWith_def chop_def exHost_def decimalToInt_def digitValue_def)
  show ?thesis
    using
      reserve_size_grammar [where h = exHost and vm = "exVm {}" and val = "''100''"
        and err = "[]" and a = ?a]
      reserve_size_grammar [where h = exHost and vm = "exVm {}" and val = "''abc+''"
        and err = "[]" and a = ?a]
      reserve_size_grammar [where h = exHost and vm = "exVm {}" and val = "''100+,x''"
        and err = "[]" and a = ?a and n = 100]
      reserve_size_grammar [where h = exHost and vm = "exVm {}" and val = "''100+,50''"
        and err = "[]" and a = ?a and n = 100 and m = 50]
      reserve_size_grammar [where h = exHost and vm = "exVm {}" and val = "''100+,200''"
        and err = "[]" and a = ?a and n = 100 and m = 200 and x = 1 and y = 1
        and w = "exWorld {} False"]
      reserve_size_grammar [where h = exHost and vm = "exVm {}" and val = "''9000+''"
        and err = "[]" and a = ?a and n = 9000]
      e1 e2 e3 e4 e5 e6 f
    by (simp add: sizeField_def stepField_def chop_def)
qed

subsection \<open>The order of the accessors\<close>

text \<open>
  C4 as the specification states it: the resource-specific accessor is consulted first.
  Preparing the emulator's \<open>orientation\<close> succeeds and leaves "Unrecognized property" in
  the error string: the accessor of the virtual machine was asked before, and wrote it.
  With the resource-specific accessor first the error string stays empty.
\<close>

theorem specific_accessor_first_counterexample:
  "prepareResult (EmulatorPropertiesAccessor_prepareSet exHost (exWorld {} False)
       ''orientation'' ''landscape'' [] (EmulatorPropertiesAccessor_new (exWorld {} False)))
     = Prepared
   \<and> prepareError (EmulatorPropertiesAccessor_prepareSet exHost (exWorld {} False)
       ''orientation'' ''landscape'' [] (EmulatorPropertiesAccessor_new (exWorld {} False)))
     = ''Unrecognized property''
   \<and> prepareError (EmulatorPropertiesAccessor_prepareSet_specificFirst exHost (exWorld {} False)
       ''orientation'' ''landscape'' [] (EmulatorPropertiesAccessor_new (exWorld {} False)))
     = []
   \<and> EmulatorPropertiesAccessor_prepareSet exHost (exWorld {} False)
       ''orientation'' ''landscape'' [] (EmulatorPropertiesAccessor_new (exWorld {} False))
     \<noteq> EmulatorPropertiesAccessor_prepareSet_specificFirst exHost (exWorld {} False)
       ''orientation'' ''landscape'' [] (EmulatorPropertiesAccessor_new (exWorld {} False))"
  by (simp add: EmulatorPropertiesAccessor_prepareSet_def
      EmulatorPropertiesAccessor_prepareSet_specificFirst_def
      EmulatorPropertiesAccessor_prepareSetOther_def
      VirtualMachinePropertiesAccessor_prepareSet_def property_names messages prepare_sel
      parseOrientation_def orientationDictionary_def EmulatorPropertiesAccessor_new_def ex_defs)

lemma VM_prepareSet_Ignored:
  assumes "prepareResult (VirtualMachinePropertiesAccessor_prepareSet h vm name val err a) = Ignored"
  shows "VirtualMachinePropertiesAccessor_prepareSet h vm name val err a
           = (Ignored, True, ''Unrecognized property'', a)"
proof -
  let ?r = "VirtualMachinePropertiesAccessor_prepareSet h vm name val err a"
  let ?swap = "name = VM_SWAP_SIZE_MB \<and> SwapMemory \<in> features vm"
  have 1: "name = VM_MEMORY_SIZE_MB \<Longrightarrow> prepareResult ?r \<noteq> Ignored"
    by (simp add: VirtualMachinePropertiesAccessor_prepareSet_def prepareResult_def Let_def
        split: prod.split)
  have 2: "name \<noteq> VM_MEMORY_SIZE_MB \<Longrightarrow> ?swap \<Longrightarrow> prepareResult ?r \<noteq> Ignored"
    by (simp add: VirtualMachinePropertiesAccessor_prepareSet_def prepareResult_def Let_def
        split: prod.split)
  have 3: "name \<noteq> VM_MEMORY_SIZE_MB \<Longrightarrow> \<not> ?swap \<Longrightarrow> name = VM_CPU_COUNT
             \<Longrightarrow> prepareResult ?r \<noteq> Ignored"
    by (simp add: VirtualMachinePropertiesAccessor_prepareSet_def prepareResult_def Let_def
        split: prod.split)
  have 4: "name \<noteq> VM_MEMORY_SIZE_MB \<Longrightarrow> \<not> ?swap \<Longrightarrow> name \<noteq> VM_CPU_COUNT
             \<Longrightarrow> name = VM_STORAGE_SIZE_MB \<Longrightarrow> prepareResult ?r \<noteq> Ignored"
    by (simp add: VirtualMachinePropertiesAccessor_prepareSet_def prepareResult_def Let_def
        split: prod.split)
  have 5: "name \<noteq> VM_MEMORY_SIZE_MB \<Longrightarrow> \<not> ?swap \<Longrightarrow> name \<noteq> VM_CPU_COUNT
             \<Longrightarrow> name \<noteq> VM_STORAGE_SIZE_MB \<Longrightarrow> name = VM_FREE_STORAGE_SIZE_MB
             \<Longrightarrow> prepareResult ?r \<noteq> Ignored"
    by (simp add: VirtualMachinePropertiesAccessor_prepareSet_def prepareResult_def
        checkCurrentFreeSize_def Let_def split: prod.split)
  have 6: "name \<noteq> VM_MEMORY_SIZE_MB \<Longrightarrow> \<not> ?swap \<Longrightarrow> name \<noteq> VM_CPU_COUNT
             \<Longrightarrow> name \<noteq> VM_STORAGE_SIZE_MB \<Longrightarrow> name \<noteq> VM_FREE_STORAGE_SIZE_MB
             \<Longrightarrow> ?r = (Ignored, True, ''Unrecognized property'', a)"
    by (auto simp: VirtualMachinePropertiesAccessor_prepareSet_def messages)
  show ?thesis using assms 1 2 3 4 5 6 by blast
qed

lemma Emu_prepareSet_cases:
  fixes h w name val err ea
  defines "V \<equiv> VirtualMachinePropertiesAccessor_prepareSet h (virtualMachine w) name val err
                  (emu_vmAccessor ea)"
  shows "EmulatorPropertiesAccessor_prepareSet h w name val err ea =
           (if prepareResult V \<noteq> Ignored
            then (prepareResult V, prepareNeedsVmOff V, prepareError V,
                  ea\<lparr>emu_vmAccessor := prepareAccessor V\<rparr>)
            else EmulatorPropertiesAccessor_prepareSetOther h name val ''Unrecognized property'' ea)"
proof -
  obtain r off e va where v: "V = (r, off, e, va)" by (cases V) auto
  show ?thesis
  proof (cases "r = Ignored")
    case True
    then have "prepareResult V = Ignored" using v by (simp add: prepare_sel)
    then have "V = (Ignored, True, ''Unrecognized property'', emu_vmAccessor ea)"
      unfolding V_def by (rule VM_prepareSet_Ignored)
    then show ?thesis
      by (simp add: EmulatorPropertiesAccessor_prepareSet_def V_def [symmetric] prepare_sel Let_def
          split: prod.splits)
  next
    case False
    then show ?thesis using v
      by (simp add: EmulatorPropertiesAccessor_prepareSet_def V_def [symmetric] prepare_sel Let_def)
  qed
qed

lemma Eng_prepareSet_cases:
  fixes h w name val err ba
  defines "V \<equiv> VirtualMachinePropertiesAccessor_prepareSet h (virtualMachine w) name val err
                  (eng_vmAccessor ba)"
  shows "BuildEnginePropertiesAccessor_prepareSet h w name val err ba =
           (if prepareResult V \<noteq> Ignored
            then (prepareResult V, prepareNeedsVmOff V, prepareError V,
                  ba\<lparr>eng_vmAccessor := prepareAccessor V\<rparr>)
            else BuildEnginePropertiesAccessor_prepareSetOther h name val ''Unrecognized property'' ba)"
proof -
  obtain r off e va where v: "V = (r, off, e, va)" by (cases V) auto
  show ?thesis
  proof (cases "r = Ignored")
    case True
    then have "prepareResult V = Ignored" using v by (simp add: prepare_sel)
    then have "V = (Ignored, True, ''Unrecognized property'', eng_vmAccessor ba)"
      unfolding V_def by (rule VM_prepareSet_Ignored)
    then show ?thesis
      by (simp add: BuildEnginePropertiesAccessor_prepareSet_def V_def [symmetric] prepare_sel Let_def
          split: prod.splits)
  next
    case False
    then show ?thesis using v
      by (simp add: BuildEnginePropertiesAccessor_prepareSet_def V_def [symmetric] prepare_sel Let_def)
  qed
qed

lemma Emu_other_Ignored:
  assumes "prepareResult (EmulatorPropertiesAccessor_prepareSetOther h name val err ea) = Ignored"
  shows "EmulatorPropertiesAccessor_prepareSetOther h name val err ea
           = (Ignored, True, ''Unrecognized property'', ea)"
proof -
  let ?r = "EmulatorPropertiesAccessor_prepareSetOther h name val err ea"
  have 1: "name = EMULATOR_DEVICE_MODEL \<Longrightarrow> prepareResult ?r \<noteq> Ignored"
    by (simp add: EmulatorPropertiesAccessor_prepareSetOther_def prepareResult_def)
  have 2: "name \<noteq> EMULATOR_DEVICE_MODEL \<Longrightarrow> name = EMULATOR_ORIENTATION
             \<Longrightarrow> prepareResult ?r \<noteq> Ignored"
    by (simp add: EmulatorPropertiesAccessor_prepareSetOther_def prepareResult_def
        split: prod.split)
  have 3: "name \<noteq> EMULATOR_DEVICE_MODEL \<Longrightarrow> name \<noteq> EMULATOR_ORIENTATION
             \<Longrightarrow> name = EMULATOR_DOWNSCALE \<Longrightarrow> prepareResult ?r \<noteq> Ignored"
    by (simp add: EmulatorPropertiesAccessor_prepareSetOther_def prepareResult_def
        split: prod.split)
  have 4: "name \<noteq> EMULATOR_DEVICE_MODEL \<Longrightarrow> name \<noteq> EMULATOR_ORIENTATION
             \<Longrightarrow> name \<noteq> EMULATOR_DOWNSCALE \<Longrightarrow> name = EMULATOR_SSH_PORT
             \<Longrightarrow> prepareResult ?r \<noteq> Ignored"
    by (simp add: EmulatorPropertiesAccessor_prepareSetOther_def prepareResult_def
        split: prod.split)
  have 5: "name \<noteq> EMULATOR_DEVICE_MODEL \<Longrightarrow> name \<noteq> EMULATOR_ORIENTATION
             \<Longrightarrow> name \<noteq> EMULATOR_DOWNSCALE \<Longrightarrow> name \<noteq> EMULATOR_SSH_PORT
             \<Longrightarrow> name = EMULATOR_SSH_TIMEOUT \<Longrightarrow> prepareResult ?r \<noteq> Ignored"
    by (simp add: EmulatorPropertiesAccessor_prepareSetOther_def prepareResult_def
        split: prod.split)
  have 6: "name \<noteq> EMULATOR_DEVICE_MODEL \<Longrightarrow> name \<noteq> EMULATOR_ORIENTATION
             \<Longrightarrow> name \<noteq> EMULATOR_DOWNSCALE \<Longrightarrow> name \<noteq> EMULATOR_SSH_PORT
             \<Longrightarrow> name \<noteq> EMULATOR_SSH_TIMEOUT
             \<Longrightarrow> ?r = (Ignored, True, ''Unrecognized property'', ea)"
    by (simp add: EmulatorPropertiesAccessor_prepareSetOther_def messages)
  show ?thesis using assms 1 2 3 4 5 6 by blast
qed

lemma Eng_other_Ignored:
  assumes "prepareResult (BuildEnginePropertiesAccessor_prepareSetOther h name val err ba) = Ignored"
  shows "BuildEnginePropertiesAccessor_prepareSetOther h name val err ba
           = (Ignored, False, ''Unrecognized property'', ba)"
proof -
  let ?r = "BuildEnginePropertiesAccessor_prepareSetOther h name val err ba"
  have 1: "name = ENGINE_HOST_NAME \<Longrightarrow> prepareResult ?r \<noteq> Ignored"
    by (simp add: BuildEnginePropertiesAccessor_prepareSetOther_def prepareResult_def)
  have 2: "name \<noteq> ENGINE_HOST_NAME \<Longrightarrow> name = ENGINE_BUILD_ENVIRONMENT_FILTER
             \<Longrightarrow> prepareResult ?r \<noteq> Ignored"
    by (simp add: BuildEnginePropertiesAccessor_prepareSetOther_def prepareResult_def)
  have 3: "name \<noteq> ENGINE_HOST_NAME \<Longrightarrow> name \<noteq> ENGINE_BUILD_ENVIRONMENT_FILTER
             \<Longrightarrow> name = ENGINE_DBUS_PORT \<Longrightarrow> prepareResult ?r \<noteq> Ignored"
    by (simp add: BuildEnginePropertiesAccessor_prepareSetOther_def prepareResult_def
        split: prod.split)
  have 4: "name \<noteq> ENGINE_HOST_NAME \<Longrightarrow> name \<noteq> ENGINE_BUILD_ENVIRONMENT_FILTER
             \<Longrightarrow> name \<noteq> ENGINE_DBUS_PORT \<Longrightarrow> name = ENGINE_SSH_PORT
             \<Longrightarrow> prepareResult ?r \<noteq> Ignored"
    by (simp add: BuildEnginePropertiesAccessor_prepareSetOther_def prepareResult_def
        split: prod.split)
  have 5: "name \<noteq> ENGINE_HOST_NAME \<Longrightarrow> name \<noteq> ENGINE_BUILD_ENVIRONMENT_FILTER
             \<Longrightarrow> name \<noteq> ENGINE_DBUS_PORT \<Longrightarrow> name \<noteq> ENGINE_SSH_PORT
             \<Longrightarrow> name = ENGINE_SSH_TIMEOUT \<Longrightarrow> prepareResult ?r \<noteq> Ignored"
    by (simp add: BuildEnginePropertiesAccessor_prepareSetOther_def prepareResult_def
        split: prod.split)
  have 6: "name \<noteq> ENGINE_HOST_NAME \<Longrightarrow> name \<noteq> ENGINE_BUILD_ENVIRONMENT_FILTER
             \<Longrightarrow> name \<noteq> ENGINE_DBUS_PORT \<Longrightarrow> name \<noteq> ENGINE_SSH_PORT
             \<Longrightarrow> name \<noteq> ENGINE_SSH_TIMEOUT
             \<Longrightarrow> ?r = (Ignored, False, ''Unrecognized property'', ba)"
    by (simp add: BuildEnginePropertiesAccessor_prepareSetOther_def messages)
  show ?thesis using assms 1 2 3 4 5 6 by blast
qed

text \<open>
  C4, amended. The accessor of the virtual machine is consulted first: where it
  recognizes the name its outcome is the outcome, and the resource-specific accessor
  decides otherwise. Prepare is \<open>Ignored\<close> exactly when neither recognizes the name, and
  the error is then "Unrecognized property".
\<close>

theorem owning_group_generic_accessor_first:
  fixes h :: host and w :: world and name val err :: string
    and ea :: EmulatorPropertiesAccessor and ba :: BuildEnginePropertiesAccessor
  defines "VE \<equiv> VirtualMachinePropertiesAccessor_prepareSet h (virtualMachine w) name val err
                   (emu_vmAccessor ea)"
    and "VB \<equiv> VirtualMachinePropertiesAccessor_prepareSet h (virtualMachine w) name val err
                   (eng_vmAccessor ba)"
    and "OE \<equiv> EmulatorPropertiesAccessor_prepareSetOther h name val ''Unrecognized property'' ea"
    and "OB \<equiv> BuildEnginePropertiesAccessor_prepareSetOther h name val
                   ''Unrecognized property'' ba"
    and "E \<equiv> EmulatorPropertiesAccessor_prepareSet h w name val err ea"
    and "B \<equiv> BuildEnginePropertiesAccessor_prepareSet h w name val err ba"
  shows
    "(prepareResult VE \<noteq> Ignored \<longrightarrow>
        E = (prepareResult VE, prepareNeedsVmOff VE, prepareError VE,
             ea\<lparr>emu_vmAccessor := prepareAccessor VE\<rparr>))
   \<and> (prepareResult VE = Ignored \<longrightarrow> E = OE)
   \<and> (prepareResult E = Ignored) = (prepareResult VE = Ignored \<and> prepareResult OE = Ignored)
   \<and> (prepareResult E = Ignored \<longrightarrow> prepareError E = ''Unrecognized property'')
   \<and> (prepareResult VB \<noteq> Ignored \<longrightarrow>
        B = (prepareResult VB, prepareNeedsVmOff VB, prepareError VB,
             ba\<lparr>eng_vmAccessor := prepareAccessor VB\<rparr>))
   \<and> (prepareResult VB = Ignored \<longrightarrow> B = OB)
   \<and> (prepareResult B = Ignored) = (prepareResult VB = Ignored \<and> prepareResult OB = Ignored)
   \<and> (prepareResult B = Ignored \<longrightarrow> prepareError B = ''Unrecognized property'')"
proof -
  have e: "E = (if prepareResult VE \<noteq> Ignored
            then (prepareResult VE, prepareNeedsVmOff VE, prepareError VE,
                  ea\<lparr>emu_vmAccessor := prepareAccessor VE\<rparr>) else OE)"
    unfolding E_def VE_def OE_def by (rule Emu_prepareSet_cases)
  have b: "B = (if prepareResult VB \<noteq> Ignored
            then (prepareResult VB, prepareNeedsVmOff VB, prepareError VB,
                  ba\<lparr>eng_vmAccessor := prepareAccessor VB\<rparr>) else OB)"
    unfolding B_def VB_def OB_def by (rule Eng_prepareSet_cases)
  have oe: "prepareResult OE = Ignored \<Longrightarrow> prepareError OE = ''Unrecognized property''"
    using Emu_other_Ignored [of h name val "''Unrecognized property''" ea]
    by (simp add: OE_def prepare_sel)
  have ob: "prepareResult OB = Ignored \<Longrightarrow> prepareError OB = ''Unrecognized property''"
    using Eng_other_Ignored [of h name val "''Unrecognized property''" ba]
    by (simp add: OB_def prepare_sel)
  show ?thesis
    using oe ob unfolding e b by (auto simp: prepare_sel)
qed

theorem owning_group_generic_accessor_first_witness:
  "prepareResult (EmulatorPropertiesAccessor_prepareSet exHost (exWorld {LimitMemorySize} False)
       ''vm.cpu-count'' ''4'' [] (EmulatorPropertiesAccessor_new (exWorld {LimitMemorySize} False)))
     = Prepared
   \<and> EmulatorPropertiesAccessor_prepareSet exHost (exWorld {LimitMemorySize} False)
       ''downscale'' ''yes'' [] (EmulatorPropertiesAccessor_new (exWorld {LimitMemorySize} False))
     = EmulatorPropertiesAccessor_prepareSetOther exHost ''downscale'' ''yes''
         ''Unrecognized property'' (EmulatorPropertiesAccessor_new (exWorld {LimitMemorySize} False))
   \<and> prepareResult (BuildEnginePropertiesAccessor_prepareSet exHost
       (exWorld {LimitMemorySize} False) ''no.such.property'' ''1'' []
       (BuildEnginePropertiesAccessor_new (exWorld {LimitMemorySize} False)))
     = Ignored
   \<and> prepareError (BuildEnginePropertiesAccessor_prepareSet exHost
       (exWorld {LimitMemorySize} False) ''no.such.property'' ''1'' []
       (BuildEnginePropertiesAccessor_new (exWorld {LimitMemorySize} False)))
     = ''Unrecognized property''"
proof -
  let ?w = "exWorld {LimitMemorySize} False"
  let ?ea = "EmulatorPropertiesAccessor_new ?w"
  let ?ba = "BuildEnginePropertiesAccessor_new ?w"
  have v1: "prepareResult (VirtualMachinePropertiesAccessor_prepareSet exHost (virtualMachine ?w)
              ''vm.cpu-count'' ''4'' [] (emu_vmAccessor ?ea)) = Prepared"
    by (simp add: world_eval prepare_sel)
  have v2: "prepareResult (VirtualMachinePropertiesAccessor_prepareSet exHost (virtualMachine ?w)
              ''downscale'' ''yes'' [] (emu_vmAccessor ?ea)) = Ignored"
    by (simp add: world_eval prepare_sel)
  have v3: "prepareResult (VirtualMachinePropertiesAccessor_prepareSet exHost (virtualMachine ?w)
              ''no.such.property'' ''1'' [] (eng_vmAccessor ?ba)) = Ignored"
    by (simp add: world_eval prepare_sel)
  have o3: "prepareResult (BuildEnginePropertiesAccessor_prepareSetOther exHost
              ''no.such.property'' ''1'' ''Unrecognized property'' ?ba) = Ignored"
    by (simp add: world_eval prepare_sel)
  note t1 = owning_group_generic_accessor_first [where h = exHost and w = ?w
        and name = "''vm.cpu-count''" and val = "''4''" and err = "[]" and ea = ?ea and ba = ?ba]
  note t2 = owning_group_generic_accessor_first [where h = exHost and w = ?w
        and name = "''downscale''" and val = "''yes''" and err = "[]" and ea = ?ea and ba = ?ba]
  note t3 = owning_group_generic_accessor_first [where h = exHost and w = ?w
        and name = "''no.such.property''" and val = "''1''" and err = "[]" and ea = ?ea
        and ba = ?ba]
  have c1: "prepareResult (EmulatorPropertiesAccessor_prepareSet exHost ?w ''vm.cpu-count''
              ''4'' [] ?ea) = Prepared"
    using t1 [THEN conjunct1] v1 by (simp add: prepare_sel)
  have c2: "EmulatorPropertiesAccessor_prepareSet exHost ?w ''downscale'' ''yes'' [] ?ea
              = EmulatorPropertiesAccessor_prepareSetOther exHost ''downscale'' ''yes''
                  ''Unrecognized property'' ?ea"
    using t2 [THEN conjunct2, THEN conjunct1] v2 by blast
  have c3: "prepareResult (BuildEnginePropertiesAccessor_prepareSet exHost ?w
              ''no.such.property'' ''1'' [] ?ba) = Ignored"
    using t3 v3 o3 by blast
  have c4: "prepareError (BuildEnginePropertiesAccessor_prepareSet exHost ?w
              ''no.such.property'' ''1'' [] ?ba) = ''Unrecognized property''"
    using t3 c3 by blast
  show ?thesis using c1 c2 c3 c4 by blast
qed

subsection \<open>A failed Prepare aborts the batch\<close>

lemma prepareAssignments_append:
  "prepareAssignments h w t out (pre @ rest) =
     (case prepareAssignments h w t out pre of
        Inl x \<Rightarrow> Inl x
      | Inr (t1, out1) \<Rightarrow> prepareAssignments h w t1 out1 rest)"
proof (induction pre arbitrary: t out)
  case Nil
  show ?case by simp
next
  case (Cons a pre)
  show ?case
    by (simp add: Let_def Cons.IH split: prod.splits)
qed

text \<open>
  C1. When the assignments before \<open>a\<close> are prepared and preparing \<open>a\<close> fails (a value
  that does not parse or validate, or a property that no accessor recognizes),
  \<open>setProperties\<close> leaves with the exit code \<open>EXIT_FAILURE\<close>, prints the error of that
  property, and hands back the resource as it was: no setter was called and nothing after
  \<open>a\<close> was looked at.
\<close>

theorem failed_prepare_aborts_batch:
  assumes pre_ok: "prepareAssignments h w t [] pre = Inr (t1, out1)"
    and pos: "0 < indexOf a (CHR ''='')"
    and pname: "property = left a (indexOf a (CHR ''=''))"
    and res: "PropertiesAccessor_prepareSet h w (normalizedProperty property)
                 (mid a (indexOf a (CHR ''='') + 1)) [] (m_accessor t1)
               = (result, needsVmOff, errorString, acc)"
    and failed: "result = Failed \<or> result = Ignored"
  shows "setProperties h t (pre @ a # post) w
           = (NormalExit, Some EXIT_FAILURE, out1 @ [Qerr (property @ '': '' @ errorString)], w)"
proof -
  have "SetPropertiesTask_prepareSet h w (normalizedProperty property)
          (mid a (indexOf a (CHR ''='') + 1)) [] t1 = (False, errorString, t1\<lparr>m_accessor := acc\<rparr>)"
    using res failed by (auto simp: SetPropertiesTask_prepareSet_def)
  then have "prepareAssignments h w t1 out1 (a # post)
      = Inl (NormalExit, Some EXIT_FAILURE, out1 @ [Qerr (property @ '': '' @ errorString)])"
    using pos pname by (simp add: Let_def)
  then show ?thesis
    using pre_ok by (simp add: setProperties_def prepareAssignments_append)
qed

theorem failed_prepare_aborts_batch_witness:
  "setProperties exHost
     (SetPropertiesTask_new
        (EmulatorAccessor (EmulatorPropertiesAccessor_new (exWorld {LimitMemorySize} False)))
        ''Please stop the emulator.'')
     [''vm.cpu-count=4'', ''orientation=sideways'', ''vm.memory-size=1024'']
     (exWorld {LimitMemorySize} False)
   = (NormalExit, Some EXIT_FAILURE,
      [Qerr ''orientation: One of portrait/landscape expected. Got: \"sideways\"''],
      exWorld {LimitMemorySize} False)"
proof -
  let ?w = "exWorld {LimitMemorySize} False"
  let ?t = "SetPropertiesTask_new (EmulatorAccessor (EmulatorPropertiesAccessor_new ?w))
              ''Please stop the emulator.''"
  let ?X = "prepareAssignments exHost ?w ?t [] [''vm.cpu-count=4'']"
  let ?P = "PropertiesAccessor_prepareSet exHost ?w (normalizedProperty ''orientation'')
              ''sideways'' [] (m_accessor (fst (projr ?X)))"
  have x: "?X = Inr (fst (projr ?X), [])"
    by (simp add: string_defs parse_defs accessor_defs ex_defs property_names messages Let_def)
  have i: "indexOf ''orientation=sideways'' (CHR ''='') = 11"
    by (simp add: indexOf_def)
  have p: "?P = (Failed, True, ''One of portrait/landscape expected. Got: \"sideways\"'',
                 snd (snd (snd ?P)))"
    by (simp add: string_defs parse_defs accessor_defs ex_defs property_names messages Let_def)
  show ?thesis
    using failed_prepare_aborts_batch [where h = exHost and w = ?w and t = ?t
        and pre = "[''vm.cpu-count=4'']" and ?t1.0 = "fst (projr ?X)" and ?out1.0 = "[]"
        and a = "''orientation=sideways''" and property = "''orientation''"
        and result = Failed and needsVmOff = True
        and errorString = "''One of portrait/landscape expected. Got: \"sideways\"''"
        and acc = "snd (snd (snd ?P))" and post = "[''vm.memory-size=1024'']", OF x]
      i p
    by (simp add: left_def mid_def)
qed

subsection \<open>The resource that is running\<close>

lemma PropertiesAccessor_prepareSet_kind:
  assumes "PropertiesAccessor_prepareSet h w name val err acc = (r, off, e, acc')"
  shows "isSdkAccessor acc' = isSdkAccessor acc \<and> (isSdkAccessor acc \<longrightarrow> \<not> off)"
  using assms
  by (cases acc)
     (auto simp: isSdkAccessor_def SdkPropertiesAccessor_prepareSet_def
        split: prod.splits if_splits)

lemma SetPropertiesTask_prepareSet_inv:
  assumes "SetPropertiesTask_prepareSet h w name val err t = (ok, e, t')"
  shows "isSdkAccessor (m_accessor t') = isSdkAccessor (m_accessor t)
       \<and> m_stopVmMessage t' = m_stopVmMessage t
       \<and> (m_needsVmOff t' \<longrightarrow> m_needsVmOff t \<or> \<not> isSdkAccessor (m_accessor t))"
  using assms PropertiesAccessor_prepareSet_kind [of h w name val err "m_accessor t"]
  by (auto simp: SetPropertiesTask_prepareSet_def split: prod.splits if_splits)

lemma prepareAssignments_inv:
  assumes "prepareAssignments h w t out as = Inr (t', out')"
  shows "isSdkAccessor (m_accessor t') = isSdkAccessor (m_accessor t)
       \<and> m_stopVmMessage t' = m_stopVmMessage t
       \<and> (m_needsVmOff t' \<longrightarrow> m_needsVmOff t \<or> \<not> isSdkAccessor (m_accessor t))"
  using assms
proof (induction as arbitrary: t out)
  case Nil
  then show ?case by simp
next
  case (Cons a as)
  let ?s = "indexOf a (CHR ''='')"
  obtain ok e t1 where p: "SetPropertiesTask_prepareSet h w (normalizedProperty (left a ?s))
      (mid a (?s + 1)) [] t = (ok, e, t1)"
    by (cases "SetPropertiesTask_prepareSet h w (normalizedProperty (left a ?s)) (mid a (?s + 1)) [] t")
  from Cons.prems p obtain out1 where
    rec: "prepareAssignments h w t1 out1 as = Inr (t', out')"
    by (auto simp: Let_def split: if_splits)
  from Cons.IH [OF rec] SetPropertiesTask_prepareSet_inv [OF p]
  show ?case by auto
qed

lemma canSet_not_sdk:
  "\<not> isSdkAccessor acc \<Longrightarrow> PropertiesAccessor_canSet h acc err = (True, err)"
  by (cases acc) (simp_all add: isSdkAccessor_def)

text \<open>
  C2. When a prepared batch needs the virtual machine off, the resource is running and
  \<open>SFDK_AUTO_STOP_VMS\<close> is not set, \<open>SetPropertiesTask::set\<close> fails with the message
  that asks the user to stop the resource. The task is started and exited; the virtual
  machine is not locked down, the accessor's \<open>set\<close> is not reached and the resource is
  as it was.
\<close>

theorem running_resource_is_not_stopped_silently:
  assumes staged: "prepareAssignments h w (SetPropertiesTask_new accessor stopVmMessage) []
                     assignments = Inr (t, out)"
    and off: "m_needsVmOff t"
    and noOverride: "SFDK_AUTO_STOP_VMS h = 0"
    and running: "isRunningReliably w"
  shows "SetPropertiesTask_set h t [] w
           = (False, stopVmMessage, w\<lparr>calls := calls w @ [Started, Exited]\<rparr>)
       \<and> setProperties h (SetPropertiesTask_new accessor stopVmMessage) assignments w
           = (NormalExit, Some EXIT_FAILURE, out @ [Qerr stopVmMessage],
              w\<lparr>calls := calls w @ [Started, Exited]\<rparr>)"
proof -
  from prepareAssignments_inv [OF staged] off
  have k: "\<not> isSdkAccessor (m_accessor t)" and m: "m_stopVmMessage t = stopVmMessage"
    by (auto simp: SetPropertiesTask_new_def)
  have s: "SetPropertiesTask_set h t [] w
           = (False, stopVmMessage, w\<lparr>calls := calls w @ [Started, Exited]\<rparr>)"
    using off noOverride running m
    by (simp add: SetPropertiesTask_set_def canSet_not_sdk [OF k] Let_def)
  show ?thesis using s staged by (simp add: setProperties_def)
qed

theorem running_resource_is_not_stopped_silently_witness:
  "m_needsVmOff (fst (projr (prepareAssignments exHost (exWorld {LimitMemorySize} True)
       (SetPropertiesTask_new
          (BuildEngineAccessor (BuildEnginePropertiesAccessor_new (exWorld {LimitMemorySize} True)))
          ''Please stop the build engine.'') [] [''vm.cpu-count=4''])))
   \<and> SFDK_AUTO_STOP_VMS exHost = 0
   \<and> isRunningReliably (exWorld {LimitMemorySize} True)
   \<and> setProperties exHost
        (SetPropertiesTask_new
          (BuildEngineAccessor (BuildEnginePropertiesAccessor_new (exWorld {LimitMemorySize} True)))
          ''Please stop the build engine.'')
        [''vm.cpu-count=4''] (exWorld {LimitMemorySize} True)
      = (NormalExit, Some EXIT_FAILURE, [Qerr ''Please stop the build engine.''],
         (exWorld {LimitMemorySize} True)\<lparr>calls := [Started, Exited]\<rparr>)"
proof -
  let ?w = "exWorld {LimitMemorySize} True"
  let ?acc = "BuildEngineAccessor (BuildEnginePropertiesAccessor_new ?w)"
  let ?X = "prepareAssignments exHost ?w
              (SetPropertiesTask_new ?acc ''Please stop the build engine.'') []
              [''vm.cpu-count=4'']"
  have x: "?X = Inr (fst (projr ?X), [])"
    by (simp add: string_defs parse_defs accessor_defs ex_defs property_names messages Let_def)
  have off: "m_needsVmOff (fst (projr ?X))"
    by (simp add: string_defs parse_defs accessor_defs ex_defs property_names messages Let_def)
  have env: "SFDK_AUTO_STOP_VMS exHost = 0" by (simp add: exHost_def)
  have run: "isRunningReliably ?w" by (simp add: exWorld_def)
  have c: "calls ?w = []" by (simp add: exWorld_def)
  show ?thesis
    using running_resource_is_not_stopped_silently [OF x off env run] off env run c
    by simp
qed

subsection \<open>Unchanged values\<close>

text \<open>
  C7 as the specification states it: Apply calls no setter for a property whose staged
  value equals the current one. A batch that only repeats the current \<open>ssh.timeout\<close> of
  the build engine still calls the setter of the environment filter, with the filter the
  engine has; and \<open>host-name\<close> given the name in effect (the default one) calls the
  setter of the custom host name, which stores it.
\<close>

theorem apply_skips_unchanged_values_counterexample:
  "eng_buildEnvironmentFilter (BuildEnginePropertiesAccessor_new (exWorld {} False))
     = m_buildEnvironmentFilter (exWorld {} False)
   \<and> calls (snd (snd (snd (setProperties exHost
        (SetPropertiesTask_new
           (BuildEngineAccessor (BuildEnginePropertiesAccessor_new (exWorld {} False)))
           ''Please stop the build engine.'')
        [''ssh.timeout=30''] (exWorld {} False)))))
     = [Started, SetBuildEnvironmentFilter [''LANG''], Exited]
   \<and> eng_hostName (BuildEnginePropertiesAccessor_new (exWorld {} False)) = ''buildhost''
   \<and> calls (snd (snd (snd (setProperties exHost
        (SetPropertiesTask_new
           (BuildEngineAccessor (BuildEnginePropertiesAccessor_new (exWorld {} False)))
           ''Please stop the build engine.'')
        [''host-name=buildhost''] (exWorld {} False)))))
     = [Started, SetCustomBuildHostName ''buildhost'', SetBuildEnvironmentFilter [''LANG''],
        Exited]
   \<and> m_customBuildHostName (exWorld {} False) = []
   \<and> m_customBuildHostName (snd (snd (snd (setProperties exHost
        (SetPropertiesTask_new
           (BuildEngineAccessor (BuildEnginePropertiesAccessor_new (exWorld {} False)))
           ''Please stop the build engine.'')
        [''host-name=buildhost''] (exWorld {} False)))))
     = ''buildhost''"
  by (simp add: setProperties_def world_eval apply_defs)

lemma in_newCalls_Emu:
  "newCalls w (snd (EmulatorPropertiesAccessor_set h ea w)) =
     vmCalls (emu_vmAccessor ea) (virtualMachine w)
       @ (if fst (VirtualMachinePropertiesAccessor_set h (emu_vmAccessor ea) w)
          then emulatorOtherCalls ea w else [])"
  by (simp add: newCalls_def Emu_set_calls)

lemma in_newCalls_Eng:
  "newCalls w (snd (BuildEnginePropertiesAccessor_set h ba w)) =
     vmCalls (eng_vmAccessor ba) (virtualMachine w)
       @ (if fst (VirtualMachinePropertiesAccessor_set h (eng_vmAccessor ba) w)
          then (if eng_hostNameChanged ba then [SetCustomBuildHostName (eng_hostName ba)] else [])
               @ [SetBuildEnvironmentFilter (eng_buildEnvironmentFilter ba)]
               @ buildEngineOtherCalls ba w
          else [])"
  by (simp add: newCalls_def Eng_set_calls)

text \<open>
  C7, amended. Apply calls the setter of a virtual machine property (memory size, swap
  size, CPU count, storage size), of the emulator's display properties, SSH port and SSH
  timeout, and of the build engine's SSH port, SSH timeout and D-Bus port only when the
  staged value differs from the current one. The build engine's host name is handed to
  its setter exactly when the batch assigned it, and the environment filter on every
  Apply that gets past the virtual machine properties.
\<close>

theorem apply_skips_unchanged_values:
  fixes h :: host and w :: world and ea :: EmulatorPropertiesAccessor
    and ba :: BuildEnginePropertiesAccessor
  defines "E \<equiv> newCalls w (snd (EmulatorPropertiesAccessor_set h ea w))"
    and "B \<equiv> newCalls w (snd (BuildEnginePropertiesAccessor_set h ba w))"
    and "v \<equiv> virtualMachine w"
  shows
    "(m_memorySizeMb (emu_vmAccessor ea) = memorySizeMb v \<longrightarrow> SetMemorySizeMb x \<notin> set E)
   \<and> (m_swapSizeMb (emu_vmAccessor ea) = swapSizeMb v \<longrightarrow> SetSwapSizeMb x \<notin> set E)
   \<and> (m_cpuCount (emu_vmAccessor ea) = cpuCount v \<longrightarrow> SetCpuCount x \<notin> set E)
   \<and> (m_storageSizeMb (emu_vmAccessor ea) = storageSizeMb v \<longrightarrow> SetStorageSizeMb x \<notin> set E)
   \<and> (emu_deviceModel ea = deviceModel w \<and> emu_orientation ea = orientation w
        \<and> emu_downscale ea = isViewScaled w \<longrightarrow> SetDisplayProperties dm ori sc \<notin> set E)
   \<and> (emu_sshPort ea = sshPort v \<longrightarrow> EmulatorSetSshPort x \<notin> set E)
   \<and> (emu_sshTimeout ea = sshTimeout v \<longrightarrow> SetSshParametersTimeout x \<notin> set E)
   \<and> (m_memorySizeMb (eng_vmAccessor ba) = memorySizeMb v \<longrightarrow> SetMemorySizeMb x \<notin> set B)
   \<and> (m_swapSizeMb (eng_vmAccessor ba) = swapSizeMb v \<longrightarrow> SetSwapSizeMb x \<notin> set B)
   \<and> (m_cpuCount (eng_vmAccessor ba) = cpuCount v \<longrightarrow> SetCpuCount x \<notin> set B)
   \<and> (m_storageSizeMb (eng_vmAccessor ba) = storageSizeMb v \<longrightarrow> SetStorageSizeMb x \<notin> set B)
   \<and> (eng_sshPort ba = sshPort v \<longrightarrow> BuildEngineSetSshPort x \<notin> set B)
   \<and> (eng_sshTimeout ba = sshTimeout v \<longrightarrow> SetSshParametersTimeout x \<notin> set B)
   \<and> (eng_dBusPort ba = dBusPort w \<longrightarrow> SetDBusPort x \<notin> set B)
   \<and> (\<not> eng_hostNameChanged ba \<longrightarrow> SetCustomBuildHostName hn \<notin> set B)
   \<and> (eng_hostNameChanged ba \<and> fst (VirtualMachinePropertiesAccessor_set h (eng_vmAccessor ba) w)
        \<longrightarrow> SetCustomBuildHostName (eng_hostName ba) \<in> set B)
   \<and> (fst (VirtualMachinePropertiesAccessor_set h (eng_vmAccessor ba) w)
        \<longrightarrow> SetBuildEnvironmentFilter (eng_buildEnvironmentFilter ba) \<in> set B)"
  unfolding E_def B_def v_def in_newCalls_Emu in_newCalls_Eng
  by (simp add: vmCalls_def emulatorOtherCalls_def buildEngineOtherCalls_def)

theorem apply_skips_unchanged_values_witness:
  "SetMemorySizeMb 1 \<notin> set (newCalls (exWorld {SwapMemory} False)
       (snd (EmulatorPropertiesAccessor_set exHost
              (EmulatorPropertiesAccessor_new (exWorld {SwapMemory} False))
              (exWorld {SwapMemory} False))))
   \<and> SetSwapSizeMb 1 \<notin> set (newCalls (exWorld {SwapMemory} False)
       (snd (EmulatorPropertiesAccessor_set exHost
              (EmulatorPropertiesAccessor_new (exWorld {SwapMemory} False))
              (exWorld {SwapMemory} False))))
   \<and> SetCpuCount 1 \<notin> set (newCalls (exWorld {SwapMemory} False)
       (snd (EmulatorPropertiesAccessor_set exHost
              (EmulatorPropertiesAccessor_new (exWorld {SwapMemory} False))
              (exWorld {SwapMemory} False))))
   \<and> SetStorageSizeMb 1 \<notin> set (newCalls (exWorld {SwapMemory} False)
       (snd (EmulatorPropertiesAccessor_set exHost
              (EmulatorPropertiesAccessor_new (exWorld {SwapMemory} False))
              (exWorld {SwapMemory} False))))
   \<and> SetDisplayProperties ''Xperia'' Vertical False \<notin> set (newCalls (exWorld {SwapMemory} False)
       (snd (EmulatorPropertiesAccessor_set exHost
              (EmulatorPropertiesAccessor_new (exWorld {SwapMemory} False))
              (exWorld {SwapMemory} False))))
   \<and> EmulatorSetSshPort 1 \<notin> set (newCalls (exWorld {SwapMemory} False)
       (snd (EmulatorPropertiesAccessor_set exHost
              (EmulatorPropertiesAccessor_new (exWorld {SwapMemory} False))
              (exWorld {SwapMemory} False))))
   \<and> SetSshParametersTimeout 1 \<notin> set (newCalls (exWorld {SwapMemory} False)
       (snd (EmulatorPropertiesAccessor_set exHost
              (EmulatorPropertiesAccessor_new (exWorld {SwapMemory} False))
              (exWorld {SwapMemory} False))))
   \<and> SetMemorySizeMb 1 \<notin> set (newCalls (exWorld {SwapMemory} False)
       (snd (BuildEnginePropertiesAccessor_set exHost
              (BuildEnginePropertiesAccessor_new (exWorld {SwapMemory} False))
              (exWorld {SwapMemory} False))))
   \<and> SetSwapSizeMb 1 \<notin> set (newCalls (exWorld {SwapMemory} False)
       (snd (BuildEnginePropertiesAccessor_set exHost
              (BuildEnginePropertiesAccessor_new (exWorld {SwapMemory} False))
              (exWorld {SwapMemory} False))))
   \<and> SetCpuCount 1 \<notin> set (newCalls (exWorld {SwapMemory} False)
       (snd (BuildEnginePropertiesAccessor_set exHost
              (BuildEnginePropertiesAccessor_new (exWorld {SwapMemory} False))
              (exWorld {SwapMemory} False))))
   \<and> SetStorageSizeMb 1 \<notin> set (newCalls (exWorld {SwapMemory} False)
       (snd (BuildEnginePropertiesAccessor_set exHost
              (BuildEnginePropertiesAccessor_new (exWorld {SwapMemory} False))
              (exWorld {SwapMemory} False))))
   \<and> BuildEngineSetSshPort 1 \<notin> set (newCalls (exWorld {SwapMemory} False)
       (snd (BuildEnginePropertiesAccessor_set exHost
              (BuildEnginePropertiesAccessor_new (exWorld {SwapMemory} False))
              (exWorld {SwapMemory} False))))
   \<and> SetSshParametersTimeout 1 \<notin> set (newCalls (exWorld {SwapMemory} False)
       (snd (BuildEnginePropertiesAccessor_set exHost
              (BuildEnginePropertiesAccessor_new (exWorld {SwapMemory} False))
              (exWorld {SwapMemory} False))))
   \<and> SetDBusPort 1 \<notin> set (newCalls (exWorld {SwapMemory} False)
       (snd (BuildEnginePropertiesAccessor_set exHost
              (BuildEnginePropertiesAccessor_new (exWorld {SwapMemory} False))
              (exWorld {SwapMemory} False))))
   \<and> SetCustomBuildHostName ''buildhost'' \<notin> set (newCalls (exWorld {SwapMemory} False)
       (snd (BuildEnginePropertiesAccessor_set exHost
              (BuildEnginePropertiesAccessor_new (exWorld {SwapMemory} False))
              (exWorld {SwapMemory} False))))
   \<and> SetCustomBuildHostName ''buildhost'' \<in> set (newCalls (exWorld {SwapMemory} False)
       (snd (BuildEnginePropertiesAccessor_set exHost
              ((BuildEnginePropertiesAccessor_new (exWorld {SwapMemory} False))
                 \<lparr>eng_hostNameChanged := True\<rparr>)
              (exWorld {SwapMemory} False))))
   \<and> SetBuildEnvironmentFilter [''LANG''] \<in> set (newCalls (exWorld {SwapMemory} False)
       (snd (BuildEnginePropertiesAccessor_set exHost
              (BuildEnginePropertiesAccessor_new (exWorld {SwapMemory} False))
              (exWorld {SwapMemory} False))))"
proof -
  let ?w = "exWorld {SwapMemory} False"
  let ?ea = "EmulatorPropertiesAccessor_new ?w"
  let ?ba = "BuildEnginePropertiesAccessor_new ?w"
  let ?bc = "?ba\<lparr>eng_hostNameChanged := True\<rparr>"
  have e: "m_memorySizeMb (emu_vmAccessor ?ea) = memorySizeMb (virtualMachine ?w)"
    "m_swapSizeMb (emu_vmAccessor ?ea) = swapSizeMb (virtualMachine ?w)"
    "m_cpuCount (emu_vmAccessor ?ea) = cpuCount (virtualMachine ?w)"
    "m_storageSizeMb (emu_vmAccessor ?ea) = storageSizeMb (virtualMachine ?w)"
    "emu_deviceModel ?ea = deviceModel ?w" "emu_orientation ?ea = orientation ?w"
    "emu_downscale ?ea = isViewScaled ?w"
    "emu_sshPort ?ea = sshPort (virtualMachine ?w)"
    "emu_sshTimeout ?ea = sshTimeout (virtualMachine ?w)"
    by (simp_all add: EmulatorPropertiesAccessor_new_def VirtualMachinePropertiesAccessor_new_def)
  have b: "m_memorySizeMb (eng_vmAccessor ?ba) = memorySizeMb (virtualMachine ?w)"
    "m_swapSizeMb (eng_vmAccessor ?ba) = swapSizeMb (virtualMachine ?w)"
    "m_cpuCount (eng_vmAccessor ?ba) = cpuCount (virtualMachine ?w)"
    "m_storageSizeMb (eng_vmAccessor ?ba) = storageSizeMb (virtualMachine ?w)"
    "eng_sshPort ?ba = sshPort (virtualMachine ?w)"
    "eng_sshTimeout ?ba = sshTimeout (virtualMachine ?w)"
    "eng_dBusPort ?ba = dBusPort ?w"
    "\<not> eng_hostNameChanged ?ba" "eng_hostNameChanged ?bc"
    "eng_hostName ?bc = ''buildhost''" "eng_buildEnvironmentFilter ?ba = [''LANG'']"
    "fst (VirtualMachinePropertiesAccessor_set exHost (eng_vmAccessor ?ba) ?w)"
    "fst (VirtualMachinePropertiesAccessor_set exHost (eng_vmAccessor ?bc) ?w)"
    by (simp_all add: BuildEnginePropertiesAccessor_new_def
        VirtualMachinePropertiesAccessor_new_def VirtualMachinePropertiesAccessor_set_def
        effectiveBuildHostName_def exWorld_def)
  note t1 = apply_skips_unchanged_values [where h = exHost and w = ?w and ea = ?ea and ba = ?ba
      and x = 1 and dm = "''Xperia''" and ori = Vertical and sc = False and hn = "''buildhost''"]
  note t2 = apply_skips_unchanged_values [where h = exHost and w = ?w and ea = ?ea and ba = ?bc
      and x = 1 and dm = "''Xperia''" and ori = Vertical and sc = False and hn = "''buildhost''"]
  show ?thesis
    using t1 t2 e b by (simp only: simp_thms not_False_eq_True)
qed

section \<open>Properties of the reconcilers (buildengine.cpp)\<close>

declare matchTargets.simps [simp del]

declare collectEngines.simps [simp del]

subsection \<open>Finding and removing an element\<close>

lemma indexOfBy_found:
  "indexOfBy eq xs x \<noteq> -1 \<Longrightarrow>
     nat (indexOfBy eq xs x) < length xs \<and> eq (xs ! nat (indexOfBy eq xs x)) x"
proof (induction xs)
  case Nil
  then show ?case by simp
next
  case (Cons y ys)
  show ?case
  proof (cases "eq y x")
    case True
    then show ?thesis by simp
  next
    case False
    with Cons.prems have ne: "indexOfBy eq ys x \<noteq> -1" by (auto simp: Let_def split: if_splits)
    have ge: "0 \<le> indexOfBy eq ys x" using ne indexOfBy_ge [of eq ys x] by linarith
    from Cons.IH [OF ne] False ne ge show ?thesis
      by (simp add: Let_def nat_add_distrib)
  qed
qed

lemma indexOf_found:
  "indexOf xs x \<noteq> -1 \<Longrightarrow> nat (indexOf xs x) < length xs \<and> xs ! nat (indexOf xs x) = x"
  unfolding indexOf_def using indexOfBy_found [of "(=)" xs x] by simp

lemma indexOf_mem: "x \<in> set xs \<Longrightarrow> indexOf xs x \<noteq> -1"
  by (simp add: indexOf_takeWhile)

lemma length_removeAt: "i < length xs \<Longrightarrow> length (removeAt xs i) = length xs - 1"
  by (simp add: removeAt_def)

lemma mset_removeAt: "i < length xs \<Longrightarrow> add_mset (xs ! i) (mset (removeAt xs i)) = mset xs"
proof -
  assume "i < length xs"
  then have "xs = take i xs @ xs ! i # drop (Suc i) xs" by (simp add: id_take_nth_drop)
  then have "mset xs = mset (take i xs @ xs ! i # drop (Suc i) xs)" by simp
  then show ?thesis by (simp add: removeAt_def)
qed

lemma removeAt_nth_lt: "j < i \<Longrightarrow> i < length xs \<Longrightarrow> removeAt xs i ! j = xs ! j"
  by (simp add: removeAt_def nth_append)

lemma removeAt_map: "removeAt (map f xs) i = map f (removeAt xs i)"
  by (simp add: removeAt_def take_map drop_map)

lemma set_removeAt: "set (removeAt xs i) \<subseteq> set xs"
  unfolding removeAt_def using set_take_subset [of i xs] set_drop_subset [of "Suc i" xs] by auto

subsection \<open>The first loop of updateBuildTargets\<close>

lemma createTargetData_key: "dataKey (createTargetData p t) = dumpKey t"
  by (simp add: createTargetData_def dataKey_def dumpKey_def Let_def)

lemma BuildTargetData_eq_key: "BuildTargetData_eq x y \<Longrightarrow> dataKey x = dataKey y"
  by (simp add: BuildTargetData_eq_def dataKey_def)

lemma matchTargets_done:
  "\<not> i < length bts \<Longrightarrow> matchTargets sys i bts btd nt nd tr ev = (bts, nt, nd, tr, ev)"
  by (subst matchTargets.simps) simp

lemma matchTargets_exact:
  "i < length bts \<Longrightarrow> indexOf nt (bts ! i) \<noteq> -1 \<Longrightarrow>
   matchTargets sys i bts btd nt nd tr ev =
     matchTargets sys (i + 1) bts btd (removeAt nt (nat (indexOf nt (bts ! i))))
       (removeAt nd (nat (indexOf nt (bts ! i)))) tr ev"
  by (subst matchTargets.simps) (simp add: Let_def)

lemma matchTargets_data:
  "i < length bts \<Longrightarrow> indexOf nt (bts ! i) = -1 \<Longrightarrow>
   indexOfBy BuildTargetData_eq nd (btd ! i) \<noteq> -1 \<Longrightarrow>
   matchTargets sys i bts btd nt nd tr ev =
     matchTargets sys (i + 1)
       (bts[i := nt ! nat (indexOfBy BuildTargetData_eq nd (btd ! i))]) btd
       (removeAt nt (nat (indexOfBy BuildTargetData_eq nd (btd ! i))))
       (removeAt nd (nat (indexOfBy BuildTargetData_eq nd (btd ! i)))) tr
       (ev @ [UpdatingBuildTarget i]
           @ (if \<not> sys then [DeinitBuildTargetAt i, InitBuildTargetAt i] else []))"
  by (subst matchTargets.simps) (simp add: Let_def)

lemma matchTargets_remove:
  "i < length bts \<Longrightarrow> indexOf nt (bts ! i) = -1 \<Longrightarrow>
   indexOfBy BuildTargetData_eq nd (btd ! i) = -1 \<Longrightarrow>
   matchTargets sys i bts btd nt nd tr ev =
     matchTargets sys (i + 1) bts btd nt nd (tr @ [i]) ev"
  by (subst matchTargets.simps) (simp add: Let_def)

lemma matchTargets_inv:
  assumes "matchTargets sys i bts btd nt nd tr ev = (bts', nt', nd', tr', ev')"
    and "nd = map (createTargetData p) nt"
    and "i \<le> length bts"
    and "\<forall>k\<in>set tr. k < i"
    and "sorted_wrt (<) tr"
    and "map dumpKey bts = map dataKey btd"
  shows "length bts' = length bts \<and> nd' = map (createTargetData p) nt'
       \<and> (\<forall>k\<in>set tr'. k < length bts) \<and> sorted_wrt (<) tr'
       \<and> map dumpKey bts' = map dataKey btd
       \<and> take i bts' = take i bts
       \<and> mset bts' + mset nt' + mset (map ((!) bts) tr)
           = mset (take i bts) + mset nt + mset (map ((!) bts') tr')"
  using assms
proof (induction "length bts - i" arbitrary: i bts nt nd tr ev)
  case 0
  then have i: "i = length bts" by simp
  have "matchTargets sys i bts btd nt nd tr ev = (bts, nt, nd, tr, ev)"
    using i by (simp add: matchTargets_done)
  with "0.prems"(1) have e: "bts' = bts" "nt' = nt" "nd' = nd" "tr' = tr" by simp_all
  show ?case unfolding e using "0.prems"(2-) i by simp
next
  case (Suc n)
  then have lt: "i < length bts" by simp
  have n: "n = length bts - (i + 1)" using Suc.hyps(2) by simp
  show ?case
  proof (cases "indexOf nt (bts ! i) \<noteq> -1")
    case True
    let ?m = "nat (indexOf nt (bts ! i))"
    from indexOf_found [OF True] have m: "?m < length nt" "nt ! ?m = bts ! i" by simp_all
    have run: "matchTargets sys (i + 1) bts btd (removeAt nt ?m) (removeAt nd ?m) tr ev
                 = (bts', nt', nd', tr', ev')"
      using Suc.prems(1) by (simp add: matchTargets_exact [OF lt True])
    have nd2: "removeAt nd ?m = map (createTargetData p) (removeAt nt ?m)"
      using Suc.prems(2) by (simp add: removeAt_map)
    have tr2: "\<forall>k\<in>set tr. k < i + 1" using Suc.prems(4) by auto
    from Suc.hyps(1) [OF n run nd2 _ tr2 Suc.prems(5) Suc.prems(6)] lt
    have ih: "length bts' = length bts" "nd' = map (createTargetData p) nt'"
      "\<forall>k\<in>set tr'. k < length bts" "sorted_wrt (<) tr'"
      "map dumpKey bts' = map dataKey btd"
      "take (i + 1) bts' = take (i + 1) bts"
      "mset bts' + mset nt' + mset (map ((!) bts) tr)
         = mset (take (i + 1) bts) + mset (removeAt nt ?m) + mset (map ((!) bts') tr')"
      by simp_all
    have t: "take i bts' = take i bts"
    proof -
      have "take i bts' = take i (take (i + 1) bts')" by (simp add: min_def)
      also have "\<dots> = take i (take (i + 1) bts)" using ih(6) by simp
      also have "\<dots> = take i bts" by (simp add: min_def)
      finally show ?thesis .
    qed
    have ms: "mset (take (i + 1) bts) + mset (removeAt nt ?m) = mset (take i bts) + mset nt"
      using lt m mset_removeAt [of ?m nt] by (simp add: take_Suc_conv_app_nth)
    have fin: "mset bts' + mset nt' + mset (map ((!) bts) tr)
                 = mset (take i bts) + mset nt + mset (map ((!) bts') tr')"
      by (simp only: ih(7) ms)
    show ?thesis using ih(1-5) t fin by blast
  next
    case False
    then have nomatch: "indexOf nt (bts ! i) = -1" by simp
    show ?thesis
    proof (cases "indexOfBy BuildTargetData_eq nd (btd ! i) \<noteq> -1")
      case True
      let ?m = "nat (indexOfBy BuildTargetData_eq nd (btd ! i))"
      from indexOfBy_found [OF True]
      have m: "?m < length nd" "BuildTargetData_eq (nd ! ?m) (btd ! i)" by simp_all
      have mnt: "?m < length nt" using m(1) Suc.prems(2) by simp
      let ?bts = "bts[i := nt ! ?m]"
      have run: "matchTargets sys (i + 1) ?bts btd (removeAt nt ?m) (removeAt nd ?m) tr
                   (ev @ [UpdatingBuildTarget i]
                       @ (if \<not> sys then [DeinitBuildTargetAt i, InitBuildTargetAt i] else []))
                 = (bts', nt', nd', tr', ev')"
        using Suc.prems(1) by (simp add: matchTargets_data [OF lt nomatch True])
      have nd2: "removeAt nd ?m = map (createTargetData p) (removeAt nt ?m)"
        using Suc.prems(2) by (simp add: removeAt_map)
      have tr2: "\<forall>k\<in>set tr. k < i + 1" using Suc.prems(4) by auto
      have len: "length btd = length bts"
        using Suc.prems(6) by (metis length_map)
      have "dataKey (nd ! ?m) = dumpKey (nt ! ?m)"
        using Suc.prems(2) mnt by (simp add: createTargetData_key)
      moreover have "dataKey (btd ! i) = dumpKey (bts ! i)"
        using Suc.prems(6) lt len by (metis nth_map)
      ultimately have k: "dumpKey (nt ! ?m) = dumpKey (bts ! i)"
        using BuildTargetData_eq_key [OF m(2)] by simp
      have al: "map dumpKey ?bts = map dataKey btd"
      proof -
        have "map dumpKey ?bts = (map dumpKey bts)[i := (map dumpKey bts) ! i]"
          using k lt by (simp add: map_update)
        also have "\<dots> = map dumpKey bts" by (rule list_update_id)
        finally show ?thesis using Suc.prems(6) by simp
      qed
      have n2: "n = length ?bts - (i + 1)" using n by simp
      from Suc.hyps(1) [OF n2 run nd2 _ tr2 Suc.prems(5) al] lt
      have ih: "length bts' = length bts" "nd' = map (createTargetData p) nt'"
        "\<forall>k\<in>set tr'. k < length bts" "sorted_wrt (<) tr'"
        "map dumpKey bts' = map dataKey btd"
        "take (i + 1) bts' = take (i + 1) ?bts"
        "mset bts' + mset nt' + mset (map ((!) ?bts) tr)
           = mset (take (i + 1) ?bts) + mset (removeAt nt ?m) + mset (map ((!) bts') tr')"
        by simp_all
      have t: "take i bts' = take i bts"
      proof -
        have "take i bts' = take i (take (i + 1) bts')" by (simp add: min_def)
        also have "\<dots> = take i (take (i + 1) ?bts)" using ih(6) by simp
        also have "\<dots> = take i bts" by (simp add: min_def)
        finally show ?thesis .
      qed
      have same: "map ((!) ?bts) tr = map ((!) bts) tr"
        using Suc.prems(4) by (auto simp: nth_list_update)
      have ms: "mset (take (i + 1) ?bts) + mset (removeAt nt ?m) = mset (take i bts) + mset nt"
        using lt mnt mset_removeAt [of ?m nt] by (simp add: take_Suc_conv_app_nth)
      have fin: "mset bts' + mset nt' + mset (map ((!) bts) tr)
                   = mset (take i bts) + mset nt + mset (map ((!) bts') tr')"
        using ih(7) by (simp only: same ms)
      have len': "length bts' = length bts" using ih(1) by simp
      show ?thesis using len' ih(2-5) t fin by blast
    next
      case False
      then have nodata: "indexOfBy BuildTargetData_eq nd (btd ! i) = -1" by simp
      have run: "matchTargets sys (i + 1) bts btd nt nd (tr @ [i]) ev
                   = (bts', nt', nd', tr', ev')"
        using Suc.prems(1) by (simp add: matchTargets_remove [OF lt nomatch nodata])
      have tr2: "\<forall>k\<in>set (tr @ [i]). k < i + 1" using Suc.prems(4) by auto
      have so: "sorted_wrt (<) (tr @ [i])"
        using Suc.prems(4,5) by (simp add: sorted_wrt_append)
      from Suc.hyps(1) [OF n run Suc.prems(2) _ tr2 so Suc.prems(6)] lt
      have ih: "length bts' = length bts" "nd' = map (createTargetData p) nt'"
        "\<forall>k\<in>set tr'. k < length bts" "sorted_wrt (<) tr'"
        "map dumpKey bts' = map dataKey btd"
        "take (i + 1) bts' = take (i + 1) bts"
        "mset bts' + mset nt' + mset (map ((!) bts) (tr @ [i]))
           = mset (take (i + 1) bts) + mset nt + mset (map ((!) bts') tr')"
        by simp_all
      have t: "take i bts' = take i bts"
      proof -
        have "take i bts' = take i (take (i + 1) bts')" by (simp add: min_def)
        also have "\<dots> = take i (take (i + 1) bts)" using ih(6) by simp
        also have "\<dots> = take i bts" by (simp add: min_def)
        finally show ?thesis .
      qed
      from ih(7) lt have fin: "mset bts' + mset nt' + mset (map ((!) bts) tr)
           = mset (take i bts) + mset nt + mset (map ((!) bts') tr')"
        by (simp add: take_Suc_conv_app_nth)
      show ?thesis using ih(1-5) t fin by blast
    qed
  qed
qed

subsection \<open>The targets after a reconciliation\<close>

lemma removeTargets_mset:
  assumes "sorted_wrt (>) ds" and "\<forall>k\<in>set ds. k < length bts"
  shows "mset (fst (removeTargets sys ds bts btd ev)) + mset (map ((!) bts) ds) = mset bts"
  using assms
proof (induction ds arbitrary: bts btd ev)
  case Nil
  then show ?case by simp
next
  case (Cons k ds)
  have k: "k < length bts" using Cons.prems(2) by simp
  have lt: "\<forall>j\<in>set ds. j < k" using Cons.prems(1) by auto
  have s: "sorted_wrt (>) ds" using Cons.prems(1) by simp
  have b: "\<forall>j\<in>set ds. j < length (removeAt bts k)"
    using lt k by (auto simp: length_removeAt)
  have same: "map ((!) (removeAt bts k)) ds = map ((!) bts) ds"
    using lt k by (auto simp: removeAt_nth_lt)
  from Cons.IH [OF s b, of "removeAt btd k"
      "ev @ [AboutToRemoveBuildTarget k] @ (if \<not> sys then [DeinitBuildTargetAt k] else [])"]
  have "mset (fst (removeTargets sys (k # ds) bts btd ev)) + mset (map ((!) bts) ds)
          = mset (removeAt bts k)"
    by (simp add: same)
  then show ?case using mset_removeAt [OF k] by simp
qed

lemma removeTargets_aligned:
  assumes "map dumpKey bts = map dataKey btd"
  shows "map dumpKey (fst (removeTargets sys ds bts btd ev))
           = map dataKey (fst (snd (removeTargets sys ds bts btd ev)))"
  using assms
proof (induction ds arbitrary: bts btd ev)
  case Nil
  then show ?case by simp
next
  case (Cons k ds)
  have "map dumpKey (removeAt bts k) = map dataKey (removeAt btd k)"
    using Cons.prems by (simp add: removeAt_map [symmetric])
  from Cons.IH [OF this] show ?case by simp
qed

lemma addTargets_lists:
  "fst (addTargets p nt bts btd ev) = bts @ nt
   \<and> fst (snd (addTargets p nt bts btd ev)) = btd @ map (createTargetData p) nt"
  by (induction nt arbitrary: bts btd ev) simp_all

lemma updateBuildTargets_result:
  assumes al: "map dumpKey (buildTargets d) = map dataKey (buildTargetsData d)"
  shows "mset (buildTargets (fst (updateBuildTargets p A d))) = mset (sanityCheck A)
       \<and> map dumpKey (buildTargets (fst (updateBuildTargets p A d)))
           = map dataKey (buildTargetsData (fst (updateBuildTargets p A d)))"
proof -
  let ?sys = "useSystemSettingsOnly p"
  let ?nt = "sanityCheck A"
  let ?nd = "map (createTargetData p) ?nt"
  obtain bts1 nt1 nd1 tr ev1 where
    m: "matchTargets ?sys 0 (buildTargets d) (buildTargetsData d) ?nt ?nd [] []
          = (bts1, nt1, nd1, tr, ev1)"
    by (metis prod_cases5)
  from matchTargets_inv [OF m refl _ _ _ al]
  have inv: "length bts1 = length (buildTargets d)" "\<forall>k\<in>set tr. k < length (buildTargets d)"
    "sorted_wrt (<) tr" "map dumpKey bts1 = map dataKey (buildTargetsData d)"
    "mset bts1 + mset nt1 = mset ?nt + mset (map ((!) bts1) tr)"
    by simp_all
  let ?rm = "removeTargets ?sys (rev tr) bts1 (buildTargetsData d) ev1"
  have srt: "sorted_wrt (>) (rev tr)" using inv(3) by (simp add: sorted_wrt_rev)
  have bnd: "\<forall>k\<in>set (rev tr). k < length bts1" using inv(1,2) by simp
  from removeTargets_mset [OF srt bnd, of ?sys "buildTargetsData d" ev1]
  have rm: "mset (fst ?rm) + mset (map ((!) bts1) tr) = mset bts1"
    by (simp add: rev_map [symmetric])
  have "mset (fst ?rm) + mset nt1 + mset (map ((!) bts1) tr)
          = mset ?nt + mset (map ((!) bts1) tr)"
    using rm inv(5) by (simp add: ac_simps)
  then have ms: "mset (fst ?rm) + mset nt1 = mset ?nt" by simp
  have ra: "map dumpKey (fst ?rm) = map dataKey (fst (snd ?rm))"
    by (rule removeTargets_aligned [OF inv(4)])
  obtain bts2 btd2 ev2 where r: "?rm = (bts2, btd2, ev2)" by (metis prod_cases3)
  have res: "buildTargets (fst (updateBuildTargets p A d)) = bts2 @ nt1"
    "buildTargetsData (fst (updateBuildTargets p A d)) = btd2 @ map (createTargetData p) nt1"
    using m r addTargets_lists [of p nt1 bts2 btd2 ev2]
    by (auto simp: updateBuildTargets_def Let_def split: prod.splits)
  have k: "map dumpKey nt1 = map dataKey (map (createTargetData p) nt1)"
    by (simp add: createTargetData_key)
  show ?thesis using ms ra r res k by simp
qed

lemma reachable_aligned:
  "reachable d \<Longrightarrow> map dumpKey (buildTargets d) = map dataKey (buildTargetsData d)"
proof (induction rule: reachable.induct)
  case initial
  show ?case by simp
next
  case (update d p newTargets)
  then show ?case using updateBuildTargets_result by blast
qed

lemma matchTargets_all_matched:
  assumes "mset (drop i bts) = mset nt"
  shows "\<exists>nd'. matchTargets sys i bts btd nt nd tr ev = (bts, [], nd', tr, ev)"
  using assms
proof (induction "length bts - i" arbitrary: i nt nd)
  case 0
  then have "drop i bts = []" by simp
  with 0 have "nt = []" by simp
  moreover have "\<not> i < length bts" using 0 by simp
  ultimately show ?case by (simp add: matchTargets_done)
next
  case (Suc n)
  then have lt: "i < length bts" by simp
  have d: "drop i bts = bts ! i # drop (i + 1) bts" using lt by (simp add: Cons_nth_drop_Suc)
  have "bts ! i \<in># mset (drop i bts)" by (simp add: d)
  then have "bts ! i \<in> set nt" using Suc.prems by (metis set_mset_mset)
  then have f: "indexOf nt (bts ! i) \<noteq> -1" by (rule indexOf_mem)
  let ?m = "nat (indexOf nt (bts ! i))"
  from indexOf_found [OF f] have m: "?m < length nt" "nt ! ?m = bts ! i" by simp_all
  have "add_mset (bts ! i) (mset (removeAt nt ?m)) = add_mset (bts ! i) (mset (drop (i + 1) bts))"
    using mset_removeAt [OF m(1)] m(2) Suc.prems d by simp
  then have e: "mset (drop (i + 1) bts) = mset (removeAt nt ?m)" by simp
  have n: "n = length bts - (i + 1)" using Suc.hyps(2) by simp
  from Suc.hyps(1) [OF n e, of "removeAt nd ?m"]
  show ?case by (simp add: matchTargets_exact [OF lt f])
qed

lemma exDump_eq [simp]: "(exDump n orig = exDump n' orig') = (n = n' \<and> orig = orig')"
  by (auto simp: exDump_def)

lemma sanityCheck_ex: "sanityCheck exTargets = [exDump ''T.default'' ''T'', exDump ''U'' []]"
  by (simp add: sanityCheck_def exTargets_def exDump_def startsWith_def)

lemma startsWith_suffix:
  "(startsWith s (orig @ ''.'') \<and> length s > length orig + 1)
     = (\<exists>suffix. suffix \<noteq> [] \<and> s = orig @ ''.'' @ suffix)"
proof
  assume a: "startsWith s (orig @ ''.'') \<and> length s > length orig + 1"
  then have t: "take (length orig + 1) s = orig @ ''.''" by (simp add: startsWith_def)
  have "take (length orig + 1) s @ drop (length orig + 1) s = s"
    by (rule append_take_drop_id)
  then have "s = orig @ ''.'' @ drop (length orig + 1) s"
    by (simp only: t append_assoc)
  moreover have "drop (length orig + 1) s \<noteq> []" using a by simp
  ultimately show "\<exists>suffix. suffix \<noteq> [] \<and> s = orig @ ''.'' @ suffix" by blast
next
  assume "\<exists>suffix. suffix \<noteq> [] \<and> s = orig @ ''.'' @ suffix"
  then obtain suffix where "suffix \<noteq> []" "s = orig @ ''.'' @ suffix" by blast
  then show "startsWith s (orig @ ''.'') \<and> length s > length orig + 1"
    by (cases suffix) (simp_all add: startsWith_def)
qed

lemma sanityCheck_filter:
  "sanityCheck A =
     filter (\<lambda>t. dump_name t \<notin> set (map dump_origin A)
               \<and> (dump_origin t = []
                    \<or> (\<exists>suffix. suffix \<noteq> [] \<and> dump_name t = dump_origin t @ ''.'' @ suffix))) A"
proof -
  have b: "\<And>a b c. (if a then False else if b then (if c then True else False) else True)
             = (\<not> a \<and> (\<not> b \<or> c))"
    by simp
  show ?thesis
    unfolding sanityCheck_def Let_def b startsWith_suffix
    by (simp only: not_not)
qed

subsection \<open>Sanitized candidates\<close>

text \<open>
  C8. \<open>updateBuildTargets\<close> first filters the new targets: it drops every candidate whose
  name is the origin of a candidate, and every candidate with a non-empty origin whose
  name is not the origin, a dot and a non-empty suffix. So in every state a build engine
  reaches, after a reconciliation no cached target (dump or data) has a name that is the
  origin of a cached target, and the name of every cached snapshot is its origin, a dot
  and a non-empty suffix.
\<close>

theorem sanitized_candidates_and_cache:
  assumes "reachable d"
  shows "sanityCheck A =
           filter (\<lambda>t. dump_name t \<notin> set (map dump_origin A)
               \<and> (dump_origin t = []
                    \<or> (\<exists>suffix. suffix \<noteq> [] \<and> dump_name t = dump_origin t @ ''.'' @ suffix))) A
       \<and> (\<forall>t\<in>set (buildTargets (fst (updateBuildTargets p A d))).
             dump_name t \<notin> set (map dump_origin (buildTargets (fst (updateBuildTargets p A d))))
             \<and> (dump_origin t \<noteq> [] \<longrightarrow>
                  (\<exists>suffix. suffix \<noteq> [] \<and> dump_name t = dump_origin t @ ''.'' @ suffix)))
       \<and> (\<forall>x\<in>set (buildTargetsData (fst (updateBuildTargets p A d))).
             data_name x
               \<notin> set (map data_origin (buildTargetsData (fst (updateBuildTargets p A d))))
             \<and> (data_origin x \<noteq> [] \<longrightarrow>
                  (\<exists>suffix. suffix \<noteq> [] \<and> data_name x = data_origin x @ ''.'' @ suffix)))"
proof -
  let ?d = "fst (updateBuildTargets p A d)"
  let ?good = "\<lambda>n orig. (orig :: string) \<noteq> [] \<longrightarrow>
                 (\<exists>suffix. suffix \<noteq> [] \<and> (n :: string) = orig @ ''.'' @ suffix)"
  from updateBuildTargets_result [OF reachable_aligned [OF assms], of p A]
  have ms: "mset (buildTargets ?d) = mset (sanityCheck A)"
    and al: "map dumpKey (buildTargets ?d) = map dataKey (buildTargetsData ?d)"
    by simp_all
  have st: "set (buildTargets ?d) = set (sanityCheck A)" using ms by (metis set_mset_mset)
  have sub: "set (sanityCheck A) \<subseteq> set A" by (simp add: sanityCheck_filter)
  have dumps: "\<forall>t\<in>set (buildTargets ?d).
      dump_name t \<notin> dump_origin ` set (buildTargets ?d) \<and> ?good (dump_name t) (dump_origin t)"
  proof
    fix t assume "t \<in> set (buildTargets ?d)"
    then have "t \<in> set (sanityCheck A)" using st by simp
    then have "dump_name t \<notin> dump_origin ` set A"
      and "?good (dump_name t) (dump_origin t)"
      by (auto simp: sanityCheck_filter)
    moreover have "dump_origin ` set (buildTargets ?d) \<subseteq> dump_origin ` set A"
      using st sub by auto
    ultimately show "dump_name t \<notin> dump_origin ` set (buildTargets ?d)
        \<and> ?good (dump_name t) (dump_origin t)" by blast
  qed
  have keys: "dataKey ` set (buildTargetsData ?d) = dumpKey ` set (buildTargets ?d)"
    using al by (metis set_map)
  have datas: "\<forall>x\<in>set (buildTargetsData ?d).
      data_name x \<notin> data_origin ` set (buildTargetsData ?d)
      \<and> ?good (data_name x) (data_origin x)"
  proof
    fix x assume x: "x \<in> set (buildTargetsData ?d)"
    then have "dataKey x \<in> dumpKey ` set (buildTargets ?d)" using keys by blast
    then obtain t where t: "t \<in> set (buildTargets ?d)" "dataKey x = dumpKey t" by blast
    then have tx: "data_name x = dump_name t" "data_origin x = dump_origin t"
      by (simp_all add: dataKey_def dumpKey_def)
    have "data_name x \<notin> data_origin ` set (buildTargetsData ?d)"
    proof
      assume "data_name x \<in> data_origin ` set (buildTargetsData ?d)"
      then obtain y where y: "y \<in> set (buildTargetsData ?d)" "data_name x = data_origin y"
        by blast
      then have "dataKey y \<in> dumpKey ` set (buildTargets ?d)" using keys by blast
      then obtain u where u: "u \<in> set (buildTargets ?d)" "dataKey y = dumpKey u" by blast
      then have "data_origin y = dump_origin u" by (simp add: dataKey_def dumpKey_def)
      then have "dump_name t \<in> dump_origin ` set (buildTargets ?d)" using u(1) y(2) tx by auto
      then show False using dumps t(1) by blast
    qed
    moreover have "?good (data_name x) (data_origin x)" using dumps t(1) tx by simp
    ultimately show "data_name x \<notin> data_origin ` set (buildTargetsData ?d)
        \<and> ?good (data_name x) (data_origin x)" by blast
  qed
  show ?thesis using sanityCheck_filter [of A] dumps datas by simp
qed

theorem sanitized_candidates_and_cache_witness:
  "reachable noTargets
   \<and> sanityCheck exTargets = [exDump ''T.default'' ''T'', exDump ''U'' []]
   \<and> buildTargets (fst (updateBuildTargets exPaths exTargets noTargets))
       = [exDump ''T.default'' ''T'', exDump ''U'' []]
   \<and> dump_name (exDump ''T.default'' ''T'')
       \<notin> set (map dump_origin (buildTargets (fst (updateBuildTargets exPaths exTargets noTargets))))
   \<and> dump_name (exDump ''T.default'' ''T'') = dump_origin (exDump ''T.default'' ''T'') @ ''.'' @ ''default''"
proof -
  have r: "reachable noTargets" unfolding noTargets_def by (rule reachable.initial)
  have b: "buildTargets (fst (updateBuildTargets exPaths exTargets noTargets))
       = [exDump ''T.default'' ''T'', exDump ''U'' []]"
    by (simp add: updateBuildTargets_def sanityCheck_ex noTargets_def matchTargets_done
        exPaths_def)
  note t = sanitized_candidates_and_cache [OF r, of exTargets exPaths]
  have m: "exDump ''T.default'' ''T''
             \<in> set (buildTargets (fst (updateBuildTargets exPaths exTargets noTargets)))"
    by (simp add: b)
  have n: "dump_name (exDump ''T.default'' ''T'')
       \<notin> set (map dump_origin (buildTargets (fst (updateBuildTargets exPaths exTargets noTargets))))"
    using t m by blast
  have s: "dump_name (exDump ''T.default'' ''T'') = dump_origin (exDump ''T.default'' ''T'') @ ''.'' @ ''default''"
    by (simp add: exDump_def)
  show ?thesis using r sanityCheck_ex b n s by blast
qed

subsection \<open>Idempotence\<close>

text \<open>
  C9. In every state a build engine reaches, a reconciliation followed by a second one
  with the same list of new targets leaves the engine as the first one made it and does
  nothing else: no update in place, no \<open>deinitBuildTargetAt\<close> or \<open>initBuildTargetAt\<close>,
  no \<open>aboutToRemoveBuildTarget\<close> and no \<open>buildTargetAdded\<close>.
\<close>

theorem reconciliation_idempotent:
  assumes "reachable d"
  shows "updateBuildTargets p' A (fst (updateBuildTargets p A d))
           = (fst (updateBuildTargets p A d), [])"
proof -
  let ?d1 = "fst (updateBuildTargets p A d)"
  have "mset (buildTargets ?d1) = mset (sanityCheck A)"
    using updateBuildTargets_result [OF reachable_aligned [OF assms]] by blast
  then have "mset (drop 0 (buildTargets ?d1)) = mset (sanityCheck A)" by simp
  from matchTargets_all_matched [OF this]
  obtain nd' where
    "matchTargets (useSystemSettingsOnly p') 0 (buildTargets ?d1) (buildTargetsData ?d1)
       (sanityCheck A) (map (createTargetData p') (sanityCheck A)) [] []
     = (buildTargets ?d1, [], nd', [], [])"
    by blast
  then show ?thesis
    by (simp add: updateBuildTargets_def [of p' A ?d1] Let_def)
qed

theorem reconciliation_idempotent_witness:
  "reachable noTargets
   \<and> snd (updateBuildTargets exPaths exTargets noTargets)
       = [InitBuildTargetAt 0, BuildTargetAdded 0, InitBuildTargetAt 1, BuildTargetAdded 1]
   \<and> updateBuildTargets exPaths exTargets (fst (updateBuildTargets exPaths exTargets noTargets))
       = (fst (updateBuildTargets exPaths exTargets noTargets), [])"
proof -
  have r: "reachable noTargets" unfolding noTargets_def by (rule reachable.initial)
  have e: "snd (updateBuildTargets exPaths exTargets noTargets)
       = [InitBuildTargetAt 0, BuildTargetAdded 0, InitBuildTargetAt 1, BuildTargetAdded 1]"
    by (simp add: updateBuildTargets_def sanityCheck_ex noTargets_def matchTargets_done
        exPaths_def)
  show ?thesis using r e reconciliation_idempotent [OF r, of exPaths exTargets exPaths] by simp
qed

subsection \<open>The engines dropped by BuildEngineManager::fromMap\<close>

lemma map_of_qmapRemove: "k \<noteq> u \<Longrightarrow> map_of (qmapRemove u m) k = map_of m k"
  by (induction m) (auto simp: qmapRemove_def)

lemma inNewData_qmapRemove:
  "uri e \<noteq> u \<Longrightarrow> inNewData (qmapRemove u nd) e = inNewData nd e"
  by (simp add: inNewData_def map_of_qmapRemove)

lemma map_of_qmapRemove_same: "map_of (qmapRemove u m) u = None"
  by (induction m) (auto simp: qmapRemove_def)

lemma dropEngines_kept:
  assumes "distinct (map uri es)"
  shows "fst (dropEngines sys es kept nd ex sig)
           = kept @ filter (\<lambda>e. inNewData nd e \<or> (sys \<and> \<not> autodetected e)) es"
  using assms
proof (induction es arbitrary: kept nd ex sig)
  case Nil
  show ?case by simp
next
  case (Cons e rest)
  have d: "distinct (map uri rest)" and ne: "\<forall>x\<in>set rest. uri x \<noteq> uri e"
    using Cons.prems by (force simp: image_iff)+
  show ?case
  proof (cases "\<not> inNewData nd e \<and> (\<not> sys \<or> autodetected e)")
    case True
    then show ?thesis using Cons.IH [OF d] by auto
  next
    case False
    show ?thesis
    proof (cases "autodetected e \<and> sys")
      case True
      have "filter (\<lambda>x. inNewData (qmapRemove (uri e) nd) x \<or> (sys \<and> \<not> autodetected x)) rest
              = filter (\<lambda>x. inNewData nd x \<or> (sys \<and> \<not> autodetected x)) rest"
        using ne by (intro filter_cong) (auto simp: inNewData_qmapRemove)
      then show ?thesis using False True Cons.IH [OF d] by auto
    next
      case nt: False
      then show ?thesis using False Cons.IH [OF d] by auto
    qed
  qed
qed

lemma dropEngines_newData_subset:
  "map_of (fst (snd (dropEngines sys es kept nd ex sig))) k = Some v \<Longrightarrow> map_of nd k = Some v"
proof (induction es arbitrary: kept nd ex sig)
  case Nil
  then show ?case by simp
next
  case (Cons e rest)
  show ?case
  proof (cases "\<not> inNewData nd e \<and> (\<not> sys \<or> autodetected e)")
    case True
    with Cons.prems
    have "map_of (fst (snd (dropEngines sys rest kept nd ex
              (sig @ [AboutToRemoveBuildEngine (length kept)])))) k = Some v" by simp
    from Cons.IH [OF this] show ?thesis .
  next
    case False
    show ?thesis
    proof (cases "autodetected e \<and> sys")
      case True
      with False Cons.prems
      have "map_of (fst (snd (dropEngines sys rest (kept @ [e]) (qmapRemove (uri e) nd) ex sig))) k
              = Some v" by simp
      from Cons.IH [OF this] have r: "map_of (qmapRemove (uri e) nd) k = Some v" .
      then have "k \<noteq> uri e" using map_of_qmapRemove_same [of "uri e" nd] by auto
      then show ?thesis using r by (simp add: map_of_qmapRemove)
    next
      case nt: False
      with False Cons.prems
      have "map_of (fst (snd (dropEngines sys rest (kept @ [e]) nd
                (qmapInsert (uri e) (length kept) ex) sig))) k = Some v"
        by (auto split: if_splits)
      from Cons.IH [OF this] show ?thesis .
    qed
  qed
qed

lemma dropEngines_preserved_data_removed:
  assumes "distinct (map uri es)" and "e \<in> set es"
    and "sys" and "autodetected e" and "inNewData nd e"
  shows "map_of (fst (snd (dropEngines sys es kept nd ex sig))) (uri e) = None"
  using assms(1,2,5)
proof (induction es arbitrary: kept nd ex sig)
  case Nil
  then show ?case by simp
next
  case (Cons x rest)
  have d: "distinct (map uri rest)" and ne: "\<forall>y\<in>set rest. uri y \<noteq> uri x"
    using Cons.prems(1) by (force simp: image_iff)+
  show ?case
  proof (cases "x = e")
    case True
    let ?r = "dropEngines sys rest (kept @ [e]) (qmapRemove (uri e) nd) ex sig"
    have "map_of (fst (snd ?r)) (uri e) = None"
    proof (cases "map_of (fst (snd ?r)) (uri e)")
      case None
      then show ?thesis .
    next
      case (Some v)
      from dropEngines_newData_subset [OF Some] map_of_qmapRemove_same [of "uri e" nd]
      show ?thesis by simp
    qed
    then show ?thesis using True assms(3,4) Cons.prems(3) by simp
  next
    case False
    then have mem: "e \<in> set rest" using Cons.prems(2) by simp
    then have u: "uri e \<noteq> uri x" using ne by auto
    have i2: "inNewData (qmapRemove (uri x) nd) e" using u Cons.prems(3)
      by (simp add: inNewData_qmapRemove)
    show ?thesis
      using assms(3) Cons.IH [OF d mem Cons.prems(3)] Cons.IH [OF d mem i2] by simp
  qed
qed

lemma collectEngines_done: "\<not> i < n \<Longrightarrow> collectEngines data n i m = Some m"
  by (subst collectEngines.simps) simp

lemma collectEngines_step:
  "i < n \<Longrightarrow> BUILD_ENGINES_DATA_KEY data (nat i) = Some ed \<Longrightarrow> BUILD_ENGINE_VM_URI ed = Some u \<Longrightarrow>
   collectEngines data n i m = collectEngines data n (i + 1) (qmapInsert u ed m)"
  by (subst collectEngines.simps) simp

lemmas engines_eval =
  BuildEngineManager_fromMap_def exManager_def exEnginesData_def exEngine_def exEngineData_def
  exLoad_def BuildEngineManager_setCustomBuildHostName_def
  BuildEngineManager_setBuildEnvironmentFilter_def effectiveBuildHostName_def
  collectEngines_done inNewData_def qmapRemove_def Let_def

text \<open>
  C3 as the specification states it: an engine absent from the new data is dropped when it
  is not auto-detected or the data is of user scope, and an auto-detected engine that the
  system data holds survives user data without it. With system data that holds no engine,
  the engine that is not auto-detected stays. An auto-detected engine added from system
  data is dropped by user data that does not hold it.
\<close>

theorem absent_entries_dropped_counterexample:
  "m_buildEngines (BuildEngineManager_fromMap exLoad (exEnginesData []) True
       (exManager [exEngine 1 10 False]))
     = [exEngine 1 10 False]
   \<and> m_buildEngines (BuildEngineManager_fromMap exLoad (exEnginesData [exEngineData 2 10 True])
         True (exManager []))
     = [exEngine 2 10 True]
   \<and> m_buildEngines (BuildEngineManager_fromMap exLoad (exEnginesData []) False
         (BuildEngineManager_fromMap exLoad (exEnginesData [exEngineData 2 10 True]) True
            (exManager [])))
     = []"
proof -
  have c: "collectEngines (exEnginesData [exEngineData 2 10 True]) 1 0 []
             = Some [(2, exEngineData 2 10 True)]"
    by (simp add: collectEngines_step [where ed = "exEngineData 2 10 True" and u = 2]
        collectEngines_done exEnginesData_def exEngineData_def)
  have 1: "m_buildEngines (BuildEngineManager_fromMap exLoad (exEnginesData []) True
       (exManager [exEngine 1 10 False])) = [exEngine 1 10 False]"
    by (simp add: engines_eval)
  have 2: "m_buildEngines (BuildEngineManager_fromMap exLoad (exEnginesData [exEngineData 2 10 True])
         True (exManager []))
     = [exEngine 2 10 True]"
    using c by (simp add: engines_eval)
  have 3: "m_buildEngines (BuildEngineManager_fromMap exLoad (exEnginesData []) False
         (BuildEngineManager_fromMap exLoad (exEnginesData [exEngineData 2 10 True]) True
            (exManager [])))
     = []"
    using c by (simp add: engines_eval)
  show ?thesis using 1 2 3 by blast
qed

text \<open>
  C3, amended. The engines that the first loop of \<open>fromMap\<close> keeps are the ones found in
  the new data (same URI, equal creation time) and, when the data is of system scope, the
  ones that are not auto-detected: an engine is dropped exactly when it is absent from
  the new data and either the data is of user scope or the engine is auto-detected. The
  data of an auto-detected engine found in system data is taken out of the new data, so
  the second loop leaves the configuration of that engine as it is.
\<close>

theorem engines_dropped_by_scope:
  assumes "distinct (map uri engines)"
  shows "fst (dropEngines fromSystemSettings engines [] newEnginesData [] sig)
           = filter (\<lambda>e. inNewData newEnginesData e
                          \<or> (fromSystemSettings \<and> \<not> autodetected e)) engines
       \<and> (\<forall>e\<in>set engines.
             fromSystemSettings \<and> autodetected e \<and> inNewData newEnginesData e \<longrightarrow>
             map_of (fst (snd (dropEngines fromSystemSettings engines [] newEnginesData [] sig)))
               (uri e) = None)"
  using dropEngines_kept [OF assms, of fromSystemSettings "[]" newEnginesData "[]" sig]
    dropEngines_preserved_data_removed [OF assms]
  by auto

theorem engines_dropped_by_scope_witness:
  "distinct (map uri [exEngine 1 10 False, exEngine 2 10 True, exEngine 3 10 True])
   \<and> fst (dropEngines True [exEngine 1 10 False, exEngine 2 10 True, exEngine 3 10 True] []
            [(2, exEngineData 2 10 True)] [] [])
       = [exEngine 1 10 False, exEngine 2 10 True]
   \<and> map_of (fst (snd (dropEngines True
                [exEngine 1 10 False, exEngine 2 10 True, exEngine 3 10 True] []
                [(2, exEngineData 2 10 True)] [] []))) 2 = None"
  using engines_dropped_by_scope [of "[exEngine 1 10 False, exEngine 2 10 True, exEngine 3 10 True]"
      True "[(2, exEngineData 2 10 True)]" "[]"]
  by (simp add: exEngine_def exEngineData_def inNewData_def qmapRemove_def)

end
